theory Spec2Isabelle
  imports Main "HOL-Library.AList"
begin

section \<open>Strings\<close>

text \<open>
  A Python \<^verbatim>\<open>str\<close> is a sequence of Unicode code points. The model has the code points
  below 256 (U+0000 to U+00FF): the character \<open>c\<close> is the code point \<open>of_char c\<close>, and a
  text with a code point above 255 is outside the model. On these code points the
  predicates are those of Python 3:
  \<^item> \<^verbatim>\<open>str.isspace\<close>, \<^verbatim>\<open>\s\<close> and the characters \<^verbatim>\<open>str.strip\<close> removes: 9 to 13, 28 to 32,
    133 (U+0085) and 160 (U+00A0);
  \<^item> \<^verbatim>\<open>\d\<close>: the digits 0 to 9;
  \<^item> \<^verbatim>\<open>\w\<close>: the ASCII letters, the digits and the underscore, and above 127 the letters
    and numbers of Latin-1: 170, 178, 179, 181, 185, 186, 188 to 190, 192 to 214, 216 to
    246 and 248 to 255;
  \<^item> \<^verbatim>\<open>str.lower\<close>: the codes 65 to 90, 192 to 214 and 216 to 222 are moved up by 32.
\<close>

definition isspace :: "char \<Rightarrow> bool" where
  "isspace c = (let n = of_char c :: nat in
     (9 \<le> n \<and> n \<le> 13) \<or> (28 \<le> n \<and> n \<le> 32) \<or> n = 133 \<or> n = 160)"

definition isdigit :: "char \<Rightarrow> bool" where
  "isdigit c = (let n = of_char c :: nat in 48 \<le> n \<and> n \<le> 57)"

definition isword :: "char \<Rightarrow> bool" where
  "isword c = (let n = of_char c :: nat in
     if n < 128
     then (48 \<le> n \<and> n \<le> 57) \<or> (65 \<le> n \<and> n \<le> 90) \<or> n = 95 \<or> (97 \<le> n \<and> n \<le> 122)
     else n = 170 \<or> n = 178 \<or> n = 179 \<or> n = 181 \<or> n = 185 \<or> n = 186
          \<or> (188 \<le> n \<and> n \<le> 190) \<or> (192 \<le> n \<and> n \<le> 214) \<or> (216 \<le> n \<and> n \<le> 246)
          \<or> 248 \<le> n)"

definition lower_char :: "char \<Rightarrow> char" where
  "lower_char c = (let n = of_char c :: nat in
     if (65 \<le> n \<and> n \<le> 90) \<or> (192 \<le> n \<and> n \<le> 214) \<or> (216 \<le> n \<and> n \<le> 222)
     then char_of (n + 32) else c)"

text \<open>\<^verbatim>\<open>s.lower()\<close>, \<^verbatim>\<open>s.strip()\<close>, \<^verbatim>\<open>s.startswith(p)\<close>, \<^verbatim>\<open>s.endswith(p)\<close>, \<^verbatim>\<open>p in s\<close>.\<close>

definition lower :: "string \<Rightarrow> string" where
  "lower s = map lower_char s"

definition strip :: "string \<Rightarrow> string" where
  "strip s = rev (dropWhile isspace (rev (dropWhile isspace s)))"

fun startswith :: "string \<Rightarrow> string \<Rightarrow> bool" where
  "startswith s [] = True"
| "startswith [] (p # ps) = False"
| "startswith (c # cs) (p # ps) = (c = p \<and> startswith cs ps)"

definition endswith :: "string \<Rightarrow> string \<Rightarrow> bool" where
  "endswith s p = startswith (rev s) (rev p)"

fun contains :: "string \<Rightarrow> string \<Rightarrow> bool" where
  "contains [] p = (p = [])"
| "contains (c # cs) p = (startswith (c # cs) p \<or> contains cs p)"

text \<open>\<^verbatim>\<open>s.split(sep)\<close> for a one-character separator, and \<^verbatim>\<open>sep.join(xs)\<close>.\<close>

fun split_char :: "char \<Rightarrow> string \<Rightarrow> string list" where
  "split_char sep [] = [[]]"
| "split_char sep (c # cs) =
     (if c = sep then [] # split_char sep cs
      else (case split_char sep cs of [] \<Rightarrow> [[c]] | w # ws \<Rightarrow> (c # w) # ws))"

fun join :: "string \<Rightarrow> string list \<Rightarrow> string" where
  "join sep [] = []"
| "join sep [x] = x"
| "join sep (x # y # ys) = x @ sep @ join sep (y # ys)"

text \<open>Truthiness of an optional string: \<^verbatim>\<open>None\<close> and \<^verbatim>\<open>""\<close> are falsy.\<close>

definition truthy :: "string option \<Rightarrow> bool" where
  "truthy x = (case x of None \<Rightarrow> False | Some s \<Rightarrow> s \<noteq> [])"

section \<open>Regular expressions\<close>

text \<open>
  The patterns of the source are written as values of \<open>rx\<close> and matched by a backtracking
  matcher that tries alternatives in the order of Python's \<^verbatim>\<open>re\<close> module: the left
  alternative first, a greedy repetition as long as possible first, a lazy one as short as
  possible first. The matcher is in continuation-passing style: \<open>rmatch fl r s k\<close> matches
  \<open>r\<close> at state \<open>s\<close> and hands every candidate end state to \<open>k\<close>, until \<open>k\<close> accepts
  one. An iteration of a repetition that consumes nothing ends the repetition.
\<close>

datatype cls = CChar char | CRange char char | CSpace | CWord | CDigit

fun in_cls :: "char \<Rightarrow> cls \<Rightarrow> bool" where
  "in_cls c (CChar d) = (c = d)"
| "in_cls c (CRange a b) = ((of_char a :: nat) \<le> of_char c \<and> (of_char c :: nat) \<le> of_char b)"
| "in_cls c CSpace = isspace c"
| "in_cls c CWord = isword c"
| "in_cls c CDigit = isdigit c"

text \<open>\<open>Pos\<close> is \<^verbatim>\<open>[...]\<close>, \<open>Neg\<close> is \<^verbatim>\<open>[^...]\<close>, \<open>Dot\<close> is \<^verbatim>\<open>.\<close>.\<close>

datatype cset = Pos "cls list" | Neg "cls list" | Dot

record flags =
  ignorecase :: bool
  multiline :: bool
  dotall :: bool

definition no_flags :: flags where
  "no_flags = \<lparr>ignorecase = False, multiline = False, dotall = False\<rparr>"

definition DOTALL :: flags where
  "DOTALL = \<lparr>ignorecase = False, multiline = False, dotall = True\<rparr>"

definition MULTILINE :: flags where
  "MULTILINE = \<lparr>ignorecase = False, multiline = True, dotall = False\<rparr>"

definition IGNORECASE :: flags where
  "IGNORECASE = \<lparr>ignorecase = True, multiline = False, dotall = False\<rparr>"

definition MULTILINE_DOTALL :: flags where
  "MULTILINE_DOTALL = \<lparr>ignorecase = False, multiline = True, dotall = True\<rparr>"

text \<open>
  With \<^verbatim>\<open>re.IGNORECASE\<close> the character is lowered and compared with the lowered
  characters of the set; a category such as \<^verbatim>\<open>\s\<close> is tested as it is.
\<close>

fun in_cls_ignorecase :: "char \<Rightarrow> cls \<Rightarrow> bool" where
  "in_cls_ignorecase c (CChar d) = (lower_char c = lower_char d)"
| "in_cls_ignorecase c (CRange a b) =
     list_ex (\<lambda>n. lower_char (char_of n) = lower_char c) [of_char a ..< Suc (of_char b)]"
| "in_cls_ignorecase c CSpace = isspace c"
| "in_cls_ignorecase c CWord = isword c"
| "in_cls_ignorecase c CDigit = isdigit c"

definition in_clss :: "flags \<Rightarrow> char \<Rightarrow> cls list \<Rightarrow> bool" where
  "in_clss fl c cs =
     (if ignorecase fl then list_ex (in_cls_ignorecase c) cs else list_ex (in_cls c) cs)"

fun in_cset :: "flags \<Rightarrow> char \<Rightarrow> cset \<Rightarrow> bool" where
  "in_cset fl c (Pos cs) = in_clss fl c cs"
| "in_cset fl c (Neg cs) = (\<not> in_clss fl c cs)"
| "in_cset fl c Dot = (dotall fl \<or> c \<noteq> CHR 0x0A)"

text \<open>
  \<open>Star\<close> is the greedy \<^verbatim>\<open>*\<close>, \<open>LStar\<close> the lazy \<^verbatim>\<open>*?\<close>, \<open>Upto n\<close> the greedy
  \<^verbatim>\<open>{0,n}\<close>, \<open>Group n\<close> the capturing group number \<open>n\<close>, \<open>Look\<close> the lookahead
  \<^verbatim>\<open>(?=...)\<close>, \<open>Bol\<close> is \<^verbatim>\<open>^\<close>, \<open>Eol\<close> is \<^verbatim>\<open>$\<close>, \<open>EndZ\<close> is \<^verbatim>\<open>\Z\<close>, \<open>WordB\<close> is \<^verbatim>\<open>\b\<close>.
\<close>

datatype rx =
    Eps
  | Lit string
  | One cset
  | Seq rx rx
  | Alt rx rx
  | Star rx
  | LStar rx
  | Upto nat rx
  | Group nat rx
  | Look rx
  | Bol | Eol | EndZ | WordB

definition Plus :: "rx \<Rightarrow> rx" where "Plus r = Seq r (Star r)"
definition LPlus :: "rx \<Rightarrow> rx" where "LPlus r = Seq r (LStar r)"
definition Opt :: "rx \<Rightarrow> rx" where "Opt r = Alt r Eps"
definition seqs :: "rx list \<Rightarrow> rx" where "seqs rs = foldr Seq rs Eps"
definition alts :: "rx list \<Rightarrow> rx" where "alts rs = foldr Alt (butlast rs) (last rs)"

text \<open>Frequent atoms: \<^verbatim>\<open>\s\<close>, \<^verbatim>\<open>\w\<close>, \<^verbatim>\<open>.\<close>, a single character, a negated set of characters.\<close>

definition ws :: rx where "ws = One (Pos [CSpace])"
definition wd :: rx where "wd = One (Pos [CWord])"
definition dot :: rx where "dot = One Dot"
definition chr :: "char \<Rightarrow> rx" where "chr c = One (Pos [CChar c])"
definition none_of :: "char list \<Rightarrow> rx" where "none_of cs = One (Neg (map CChar cs))"
definition any_of :: "char list \<Rightarrow> rx" where "any_of cs = One (Pos (map CChar cs))"

text \<open>The termination measure of the matcher; it counts the bound of \<open>Upto\<close>.\<close>

fun rx_size :: "rx \<Rightarrow> nat" where
  "rx_size (Seq a b) = Suc (rx_size a + rx_size b)"
| "rx_size (Alt a b) = Suc (rx_size a + rx_size b)"
| "rx_size (Star r) = Suc (rx_size r)"
| "rx_size (LStar r) = Suc (rx_size r)"
| "rx_size (Upto n r) = Suc (n + rx_size r)"
| "rx_size (Group n r) = Suc (rx_size r)"
| "rx_size (Look r) = Suc (rx_size r)"
| "rx_size r = 0"

record mstate =
  m_prev :: "char option"
  m_rest :: string
  m_groups :: "(nat \<times> string) list"

fun lit_match :: "flags \<Rightarrow> string \<Rightarrow> mstate \<Rightarrow> mstate option" where
  "lit_match fl [] s = Some s"
| "lit_match fl (p # ps) s =
     (case m_rest s of [] \<Rightarrow> None
      | c # cs \<Rightarrow> if (if ignorecase fl then lower_char c = lower_char p else c = p)
                  then lit_match fl ps (s\<lparr>m_prev := Some c, m_rest := cs\<rparr>) else None)"

function rmatch :: "flags \<Rightarrow> rx \<Rightarrow> mstate \<Rightarrow> (mstate \<Rightarrow> mstate option) \<Rightarrow> mstate option" where
  "rmatch fl Eps s k = k s"
| "rmatch fl (Lit p) s k = (case lit_match fl p s of None \<Rightarrow> None | Some s' \<Rightarrow> k s')"
| "rmatch fl (One cs) s k =
     (case m_rest s of [] \<Rightarrow> None
      | c # rest \<Rightarrow> if in_cset fl c cs then k (s\<lparr>m_prev := Some c, m_rest := rest\<rparr>) else None)"
| "rmatch fl (Seq a b) s k = rmatch fl a s (\<lambda>s'. rmatch fl b s' k)"
| "rmatch fl (Alt a b) s k =
     (case rmatch fl a s k of Some e \<Rightarrow> Some e | None \<Rightarrow> rmatch fl b s k)"
| "rmatch fl (Star r) s k =
     (case rmatch fl r s
             (\<lambda>s'. if length (m_rest s') < length (m_rest s) then rmatch fl (Star r) s' k else None)
      of Some e \<Rightarrow> Some e | None \<Rightarrow> k s)"
| "rmatch fl (LStar r) s k =
     (case k s of Some e \<Rightarrow> Some e
      | None \<Rightarrow> rmatch fl r s
             (\<lambda>s'. if length (m_rest s') < length (m_rest s) then rmatch fl (LStar r) s' k else None))"
| "rmatch fl (Upto 0 r) s k = k s"
| "rmatch fl (Upto (Suc n) r) s k =
     (case rmatch fl r s (\<lambda>s'. rmatch fl (Upto n r) s' k) of Some e \<Rightarrow> Some e | None \<Rightarrow> k s)"
| "rmatch fl (Group n r) s k =
     rmatch fl r s
       (\<lambda>s'. k (s'\<lparr>m_groups :=
                  AList.update n (take (length (m_rest s) - length (m_rest s')) (m_rest s))
                    (m_groups s')\<rparr>))"
| "rmatch fl (Look r) s k = (case rmatch fl r s Some of None \<Rightarrow> None | Some _ \<Rightarrow> k s)"
| "rmatch fl Bol s k =
     (if m_prev s = None \<or> (multiline fl \<and> m_prev s = Some (CHR 0x0A)) then k s else None)"
| "rmatch fl Eol s k =
     (if m_rest s = [] \<or> (multiline fl \<and> take 1 (m_rest s) = [CHR 0x0A])
         \<or> (\<not> multiline fl \<and> m_rest s = [CHR 0x0A]) then k s else None)"
| "rmatch fl EndZ s k = (if m_rest s = [] then k s else None)"
| "rmatch fl WordB s k =
     (if (case m_prev s of None \<Rightarrow> False | Some c \<Rightarrow> isword c)
          \<noteq> (case m_rest s of [] \<Rightarrow> False | c # _ \<Rightarrow> isword c) then k s else None)"
  by pat_completeness auto
termination
  by (relation "measures [\<lambda>(fl, r, s, k). rx_size r, \<lambda>(fl, r, s, k). length (m_rest s)]") auto

text \<open>
  A match object: \<^verbatim>\<open>m.start()\<close>, \<^verbatim>\<open>m.end()\<close>, \<^verbatim>\<open>m.group(0)\<close> and the captured groups
  (a group that took no part in the match is absent, \<^verbatim>\<open>m.group(n)\<close> is \<^verbatim>\<open>None\<close>).
\<close>

record re_match_obj =
  m_start :: nat
  m_end :: nat
  m_group0 :: string
  m_caps :: "(nat \<times> string) list"

definition group :: "re_match_obj \<Rightarrow> nat \<Rightarrow> string option" where
  "group m n = map_of (m_caps m) n"

text \<open>\<^verbatim>\<open>m.group(n)\<close> where the group always takes part in a match of the pattern.\<close>

definition group_str :: "re_match_obj \<Rightarrow> nat \<Rightarrow> string" where
  "group_str m n = (case group m n of None \<Rightarrow> [] | Some g \<Rightarrow> g)"

definition match_at :: "flags \<Rightarrow> rx \<Rightarrow> nat \<Rightarrow> char option \<Rightarrow> string \<Rightarrow> re_match_obj option" where
  "match_at fl r i prev rest =
     (case rmatch fl r \<lparr>m_prev = prev, m_rest = rest, m_groups = []\<rparr> Some of
        None \<Rightarrow> None
      | Some e \<Rightarrow>
          (let n = length rest - length (m_rest e)
           in Some \<lparr>m_start = i, m_end = i + n, m_group0 = take n rest, m_caps = m_groups e\<rparr>))"

fun search_at :: "flags \<Rightarrow> rx \<Rightarrow> nat \<Rightarrow> char option \<Rightarrow> string \<Rightarrow> re_match_obj option" where
  "search_at fl r i prev [] = match_at fl r i prev []"
| "search_at fl r i prev (c # cs) =
     (case match_at fl r i prev (c # cs) of
        None \<Rightarrow> search_at fl r (Suc i) (Some c) cs
      | Some m \<Rightarrow> Some m)"

text \<open>\<^verbatim>\<open>re.search(pattern, s, flags)\<close> and \<^verbatim>\<open>re.match(pattern, s, flags)\<close>.\<close>

definition re_search :: "flags \<Rightarrow> rx \<Rightarrow> string \<Rightarrow> re_match_obj option" where
  "re_search fl r s = search_at fl r 0 None s"

definition re_match :: "flags \<Rightarrow> rx \<Rightarrow> string \<Rightarrow> re_match_obj option" where
  "re_match fl r s = match_at fl r 0 None s"

definition matches :: "flags \<Rightarrow> rx \<Rightarrow> string \<Rightarrow> bool" where
  "matches fl r s = (re_search fl r s \<noteq> None)"

text \<open>
  \<^verbatim>\<open>re.finditer\<close>: the successive non-overlapping matches from left to right. The
  patterns it is used with match no empty string; after an empty match the search
  resumes one character later.
\<close>

definition prev_char :: "string \<Rightarrow> nat \<Rightarrow> char option" where
  "prev_char s i = (if i = 0 \<or> length s < i then None else Some (s ! (i - 1)))"

function finditer_from :: "flags \<Rightarrow> rx \<Rightarrow> string \<Rightarrow> nat \<Rightarrow> re_match_obj list" where
  "finditer_from fl r s i =
     (if length s < i then []
      else (case search_at fl r i (prev_char s i) (drop i s) of
              None \<Rightarrow> []
            | Some m \<Rightarrow>
                m # (if i < m_end m then finditer_from fl r s (m_end m)
                     else finditer_from fl r s (Suc i))))"
  by pat_completeness auto
termination
  by (relation "measure (\<lambda>(fl, r, s, i). Suc (length s) - i)") auto

definition re_finditer :: "flags \<Rightarrow> rx \<Rightarrow> string \<Rightarrow> re_match_obj list" where
  "re_finditer fl r s = finditer_from fl r s 0"

text \<open>\<^verbatim>\<open>re.sub(pattern, "", s, flags)\<close>: every match is deleted.\<close>

fun delete_spans :: "nat \<Rightarrow> re_match_obj list \<Rightarrow> string \<Rightarrow> string" where
  "delete_spans i [] s = drop i s"
| "delete_spans i (m # ms) s = take (m_start m - i) (drop i s) @ delete_spans (m_end m) ms s"

definition re_sub_empty :: "flags \<Rightarrow> rx \<Rightarrow> string \<Rightarrow> string" where
  "re_sub_empty fl r s = delete_spans 0 (re_finditer fl r s) s"

section \<open>Data model\<close>

text \<open>
  Python dictionaries keep insertion order and have unique keys. They are modelled as
  association lists written only through \<open>AList.update\<close> (replace in place when the key
  exists, append otherwise) and read through \<open>map_of\<close>.

  A parameter record of the detectors is the dictionary
  \<^verbatim>\<open>{"type": ..., "required": ..., "description": ..., "default": ...}\<close>.
  A key that is absent is \<open>None\<close> in \<open>p_type\<close>, \<open>p_required\<close> and \<open>p_default\<close>; for
  \<open>p_description\<close> an absent key and the value \<^verbatim>\<open>None\<close> are both \<open>None\<close> (the code
  reads it only through \<^verbatim>\<open>.get('description')\<close> and writes it by assignment).
\<close>

record param_info =
  p_type :: "string option"
  p_required :: "bool option"
  p_description :: "string option"
  p_default :: "string option"

type_synonym params = "(string \<times> param_info) list"

text \<open>The \<^verbatim>\<open>returns\<close> dictionary \<^verbatim>\<open>{"type": ..., "description": ...}\<close>.\<close>

record returns_info =
  r_type :: "string option"
  r_description :: "string option"

text \<open>
  The dictionary returned by \<^verbatim>\<open>extract_function_signature\<close>; the key
  \<^verbatim>\<open>"description"\<close> is absent (\<open>None\<close>) until \<^verbatim>\<open>merge_docstring_info\<close> adds it.
\<close>

record signature =
  sig_parameters :: params
  sig_returns :: returns_info
  sig_description :: "string option"

text \<open>\<^verbatim>\<open>ToolInfo\<close> of \<^verbatim>\<open>detectors/base.py\<close>.\<close>

record ToolInfo =
  name :: string
  file_path :: string
  line_number :: int
  description :: "string option"
  parameters :: params
  returns :: "returns_info option"
  raw_definition :: "string option"

text \<open>The constructor \<^verbatim>\<open>ToolInfo(name=..., file_path=...)\<close> with the dataclass defaults.\<close>

definition mk_ToolInfo :: "string \<Rightarrow> string \<Rightarrow> ToolInfo" where
  "mk_ToolInfo n fp =
     \<lparr>name = n, file_path = fp, line_number = 0, description = None, parameters = [],
      returns = None, raw_definition = None\<rparr>"

text \<open>\<^verbatim>\<open>ParameterDoc\<close> and \<^verbatim>\<open>DocstringInfo\<close> of \<^verbatim>\<open>utils/docstring_parser.py\<close>.\<close>

record ParameterDoc =
  pd_name :: string
  pd_type :: "string option"
  pd_description :: "string option"
  pd_default :: "string option"
  pd_required :: bool

record returns_doc =
  rd_type :: string
  rd_description :: string

record DocstringInfo =
  di_description :: "string option"
  di_parameters :: "ParameterDoc list"
  di_returns :: "returns_doc option"

definition empty_DocstringInfo :: DocstringInfo where
  "empty_DocstringInfo = \<lparr>di_description = None, di_parameters = [], di_returns = None\<rparr>"

text \<open>The exceptions the model makes explicit.\<close>

datatype error = KeyError | ValueError | OtherException

section \<open>Docstring parser\<close>

subsection \<open>Google style\<close>

text \<open>
  The section names of the description pattern:
  \<^verbatim>\<open>Args?|Parameters?|Returns?|Yields?|Raises?|Note|Notes|Example|Examples|See Also|Attributes?|References?\<close>
\<close>

definition google_sections :: rx where
  "google_sections = alts
     [Seq (Lit ''Arg'') (Opt (Lit ''s'')), Seq (Lit ''Parameter'') (Opt (Lit ''s'')),
      Seq (Lit ''Return'') (Opt (Lit ''s'')), Seq (Lit ''Yield'') (Opt (Lit ''s'')),
      Seq (Lit ''Raise'') (Opt (Lit ''s'')), Lit ''Note'', Lit ''Notes'', Lit ''Example'',
      Lit ''Examples'', Lit ''See Also'', Seq (Lit ''Attribute'') (Opt (Lit ''s'')),
      Seq (Lit ''Reference'') (Opt (Lit ''s''))]"

text \<open>\<^verbatim>\<open>^(.*?)(?=\n\s*(?:<sections>):|$)\<close>\<close>

definition google_desc_rx :: rx where
  "google_desc_rx = seqs
     [Bol, Group 1 (LStar dot),
      Look (Alt (seqs [Lit ''\<newline>'', Star ws, google_sections, Lit '':'']) Eol)]"

text \<open>\<^verbatim>\<open>Args?:\s*\n((?:\s+.*\n?)*)\<close>\<close>

definition google_args_rx :: rx where
  "google_args_rx = seqs
     [Lit ''Arg'', Opt (Lit ''s''), Lit '':'', Star ws, Lit ''\<newline>'',
      Group 1 (Star (seqs [Plus ws, Star dot, Opt (Lit ''\<newline>'')]))]"

text \<open>\<^verbatim>\<open>^\s*Returns?:\<close>\<close>

definition google_returns_line_rx :: rx where
  "google_returns_line_rx = seqs [Bol, Star ws, Lit ''Return'', Opt (Lit ''s''), Lit '':'']"

text \<open>\<^verbatim>\<open>^\s+(\w+)\s*(?:\((.*?)\))?\s*:\s*(.*)$\<close>\<close>

definition google_param_rx :: rx where
  "google_param_rx = seqs
     [Bol, Plus ws, Group 1 (Plus wd), Star ws,
      Opt (seqs [Lit ''('', Group 2 (LStar dot), Lit '')'']),
      Star ws, Lit '':'', Star ws, Group 3 (Star dot), Eol]"

text \<open>\<^verbatim>\<open>,?\s*optional\<close>\<close>

definition optional_rx :: rx where
  "optional_rx = seqs [Opt (Lit '',''), Star ws, Lit ''optional'']"

text \<open>\<^verbatim>\<open>[Dd]efaults?\s+to\s+(.+?)(?:\.|$)\<close>\<close>

definition google_default_rx :: rx where
  "google_default_rx = seqs
     [any_of ''Dd'', Lit ''efault'', Opt (Lit ''s''), Plus ws, Lit ''to'', Plus ws,
      Group 1 (LPlus dot), Alt (Lit ''.'') Eol]"

text \<open>\<^verbatim>\<open>Returns?:\s*\n\s+(.*?)(?:\n\s*\n|\n\s*\w+:|\Z)\<close>\<close>

definition google_returns_rx :: rx where
  "google_returns_rx = seqs
     [Lit ''Return'', Opt (Lit ''s''), Lit '':'', Star ws, Lit ''\<newline>'', Plus ws,
      Group 1 (LStar dot),
      alts [seqs [Lit ''\<newline>'', Star ws, Lit ''\<newline>''],
            seqs [Lit ''\<newline>'', Star ws, Plus wd, Lit '':''], EndZ]]"

text \<open>\<^verbatim>\<open>^(\S+?):\s*(.*)$\<close>\<close>

definition type_desc_rx :: rx where
  "type_desc_rx = seqs
     [Bol, Group 1 (LPlus (One (Neg [CSpace]))), Lit '':'', Star ws, Group 2 (Star dot), Eol]"

text \<open>
  The body of the loop of \<^verbatim>\<open>_parse_google_style\<close> for a line that \<^verbatim>\<open>param_pattern\<close>
  matches, from the three groups of the match: the optional qualifier of the type, the
  default-value wording of the description, and the \<^verbatim>\<open>ParameterDoc\<close> built from them.
\<close>

definition google_param :: "string \<Rightarrow> string option \<Rightarrow> string \<Rightarrow> ParameterDoc" where
  "google_param nm g2 g3 =
     (let type_info = (if truthy g2 then g2 else None);
          desc = strip g3;
          required = (case type_info of None \<Rightarrow> True
                      | Some t \<Rightarrow> \<not> contains (lower t) ''optional'');
          type_info = (case type_info of None \<Rightarrow> None
                       | Some t \<Rightarrow>
                           (let type_clean = strip (re_sub_empty IGNORECASE optional_rx t)
                            in if type_clean \<noteq> [] then Some type_clean else None))
      in (case re_search no_flags google_default_rx desc of
            None \<Rightarrow>
              \<lparr>pd_name = nm, pd_type = type_info, pd_description = Some desc,
               pd_default = None, pd_required = required\<rparr>
          | Some default_match \<Rightarrow>
              \<lparr>pd_name = nm, pd_type = type_info, pd_description = Some desc,
               pd_default = Some (strip (group_str default_match 1)), pd_required = False\<rparr>))"

text \<open>
  The loop over the lines of the \<^verbatim>\<open>Args\<close> section. \<open>cur\<close> is \<^verbatim>\<open>current_param\<close>,
  \<open>acc\<close> is \<^verbatim>\<open>info.parameters\<close>; the result is the list after the statement that
  follows the loop has added the last parameter.
\<close>

fun google_loop :: "string list \<Rightarrow> ParameterDoc option \<Rightarrow> ParameterDoc list \<Rightarrow> ParameterDoc list" where
  "google_loop [] cur acc = (case cur of None \<Rightarrow> acc | Some p \<Rightarrow> acc @ [p])"
| "google_loop (line # lines) cur acc =
     (if re_match no_flags google_returns_line_rx line \<noteq> None
      then (case cur of None \<Rightarrow> acc | Some p \<Rightarrow> acc @ [p])
      else (case re_match no_flags google_param_rx line of
              Some param_match \<Rightarrow>
                google_loop lines
                  (Some (google_param (group_str param_match 1) (group param_match 2)
                           (group_str param_match 3)))
                  (case cur of None \<Rightarrow> acc | Some p \<Rightarrow> acc @ [p])
            | None \<Rightarrow>
                (case cur of
                   Some p \<Rightarrow>
                     if strip line \<noteq> [] \<and> \<not> startswith (strip line) ''Returns''
                     then google_loop lines
                            (Some (p\<lparr>pd_description :=
                                       Some ((case pd_description p of None \<Rightarrow> [] | Some d \<Rightarrow> d)
                                             @ '' '' @ strip line)\<rparr>)) acc
                     else google_loop lines cur acc
                 | None \<Rightarrow> google_loop lines cur acc)))"

definition google_returns :: "string \<Rightarrow> returns_doc option" where
  "google_returns docstring =
     (case re_search DOTALL google_returns_rx docstring of
        None \<Rightarrow> None
      | Some returns_match \<Rightarrow>
          (let returns_text = strip (group_str returns_match 1)
           in (case re_match DOTALL type_desc_rx returns_text of
                 Some type_desc_match \<Rightarrow>
                   Some \<lparr>rd_type = group_str type_desc_match 1,
                         rd_description = strip (group_str type_desc_match 2)\<rparr>
               | None \<Rightarrow> Some \<lparr>rd_type = ''Any'', rd_description = returns_text\<rparr>)))"

definition parse_google_style :: "string \<Rightarrow> DocstringInfo" where
  "parse_google_style docstring =
     \<lparr>di_description =
        (case re_match DOTALL google_desc_rx docstring of
           None \<Rightarrow> None | Some desc_match \<Rightarrow> Some (strip (group_str desc_match 1))),
      di_parameters =
        (case re_search no_flags google_args_rx docstring of
           None \<Rightarrow> []
         | Some args_match \<Rightarrow> google_loop (split_char (CHR 0x0A) (group_str args_match 1)) None []),
      di_returns = google_returns docstring\<rparr>"

subsection \<open>NumPy style\<close>

text \<open>\<^verbatim>\<open>(?=\n\s*\w+\s*\n\s*-+|\Z)\<close>, the end of a NumPy section.\<close>

definition numpy_section_end :: rx where
  "numpy_section_end =
     Look (Alt (seqs [Lit ''\<newline>'', Star ws, Plus wd, Star ws, Lit ''\<newline>'', Star ws,
                      Plus (chr (CHR ''-''))]) EndZ)"

text \<open>\<^verbatim>\<open>Parameters?\s*\n\s*-+\s*\n((?:.*\n?)*?)(?=\n\s*\w+\s*\n\s*-+|\Z)\<close>\<close>

definition numpy_params_rx :: rx where
  "numpy_params_rx = seqs
     [Lit ''Parameter'', Opt (Lit ''s''), Star ws, Lit ''\<newline>'', Star ws,
      Plus (chr (CHR ''-'')), Star ws, Lit ''\<newline>'',
      Group 1 (LStar (Seq (Star dot) (Opt (Lit ''\<newline>'')))), numpy_section_end]"

text \<open>\<^verbatim>\<open>^(\w+)\s*:\s*(.*?)(?:\n|$)((?:\s+.*\n?)*)\<close>\<close>

definition numpy_param_rx :: rx where
  "numpy_param_rx = seqs
     [Bol, Group 1 (Plus wd), Star ws, Lit '':'', Star ws, Group 2 (LStar dot),
      Alt (Lit ''\<newline>'') Eol,
      Group 3 (Star (seqs [Plus ws, Star dot, Opt (Lit ''\<newline>'')]))]"

text \<open>\<^verbatim>\<open>[Dd]efault(?:s)?\s*[:=]\s*(.+?)(?:\.|$)\<close>\<close>

definition numpy_default_rx :: rx where
  "numpy_default_rx = seqs
     [any_of ''Dd'', Lit ''efault'', Opt (Lit ''s''), Star ws, any_of '':='', Star ws,
      Group 1 (LPlus dot), Alt (Lit ''.'') Eol]"

text \<open>\<^verbatim>\<open>Returns?\s*\n\s*-+\s*\n((?:.*\n?)*?)(?=\n\s*\w+\s*\n\s*-+|\Z)\<close>\<close>

definition numpy_returns_rx :: rx where
  "numpy_returns_rx = seqs
     [Lit ''Return'', Opt (Lit ''s''), Star ws, Lit ''\<newline>'', Star ws,
      Plus (chr (CHR ''-'')), Star ws, Lit ''\<newline>'',
      Group 1 (LStar (Seq (Star dot) (Opt (Lit ''\<newline>'')))), numpy_section_end]"

definition numpy_param :: "re_match_obj \<Rightarrow> ParameterDoc" where
  "numpy_param m =
     (let nm = group_str m 1;
          type_info = strip (group_str m 2);
          desc = (if truthy (group m 3) then strip (group_str m 3) else []);
          optional = contains (lower type_info) ''optional'';
          type_info = (if optional then strip (re_sub_empty IGNORECASE optional_rx type_info)
                       else type_info);
          default_match = re_search no_flags numpy_default_rx desc
      in \<lparr>pd_name = nm,
          pd_type = (if type_info \<noteq> [] then Some type_info else None),
          pd_description = Some desc,
          pd_default = (case default_match of None \<Rightarrow> None
                        | Some dm \<Rightarrow> Some (strip (group_str dm 1))),
          pd_required = (case default_match of None \<Rightarrow> \<not> optional | Some _ \<Rightarrow> False)\<rparr>)"

definition numpy_returns :: "string \<Rightarrow> returns_doc option" where
  "numpy_returns docstring =
     (case re_search no_flags numpy_returns_rx docstring of
        None \<Rightarrow> None
      | Some returns_match \<Rightarrow>
          (case split_char (CHR 0x0A) (strip (group_str returns_match 1)) of
             [] \<Rightarrow> None
           | l # desc_lines \<Rightarrow>
               (let type_line = strip l;
                    desc = strip (join ''\<newline>'' (map strip desc_lines))
                in Some \<lparr>rd_type = (if type_line \<noteq> [] then type_line else ''Any''),
                         rd_description = desc\<rparr>)))"

definition parse_numpy_style :: "string \<Rightarrow> DocstringInfo" where
  "parse_numpy_style docstring =
     \<lparr>di_description = None,
      di_parameters =
        (case re_search no_flags numpy_params_rx docstring of
           None \<Rightarrow> []
         | Some params_match \<Rightarrow>
             map numpy_param (re_finditer MULTILINE numpy_param_rx (group_str params_match 1))),
      di_returns = numpy_returns docstring\<rparr>"

subsection \<open>Sphinx style\<close>

text \<open>\<^verbatim>\<open>(?=:|\Z)\<close>\<close>

definition sphinx_end :: rx where
  "sphinx_end = Look (Alt (Lit '':'') EndZ)"

text \<open>\<^verbatim>\<open>:param\s+(\w+):\s*(.*?)(?=:|\Z)\<close> and \<^verbatim>\<open>:type\s+(\w+):\s*(.*?)(?=:|\Z)\<close>\<close>

definition sphinx_param_desc_rx :: rx where
  "sphinx_param_desc_rx = seqs
     [Lit '':param'', Plus ws, Group 1 (Plus wd), Lit '':'', Star ws, Group 2 (LStar dot),
      sphinx_end]"

definition sphinx_param_type_rx :: rx where
  "sphinx_param_type_rx = seqs
     [Lit '':type'', Plus ws, Group 1 (Plus wd), Lit '':'', Star ws, Group 2 (LStar dot),
      sphinx_end]"

text \<open>\<^verbatim>\<open>:return(?:s)?:\s*(.*?)(?=:|\Z)\<close> and \<^verbatim>\<open>:rtype:\s*(.*?)(?=:|\Z)\<close>\<close>

definition sphinx_return_desc_rx :: rx where
  "sphinx_return_desc_rx = seqs
     [Lit '':return'', Opt (Lit ''s''), Lit '':'', Star ws, Group 1 (LStar dot), sphinx_end]"

definition sphinx_return_type_rx :: rx where
  "sphinx_return_type_rx = seqs
     [Lit '':rtype:'', Star ws, Group 1 (LStar dot), sphinx_end]"

text \<open>The dictionaries \<^verbatim>\<open>param_descs\<close> and \<^verbatim>\<open>param_types\<close>: name to stripped text.\<close>

definition sphinx_dict :: "rx \<Rightarrow> string \<Rightarrow> (string \<times> string) list" where
  "sphinx_dict r docstring =
     fold (\<lambda>m d. AList.update (group_str m 1) (strip (group_str m 2)) d)
       (re_finditer DOTALL r docstring) []"

definition sphinx_param :: "(string \<times> string) list \<Rightarrow> (string \<times> string) list \<Rightarrow> string \<Rightarrow> ParameterDoc" where
  "sphinx_param param_descs param_types nm =
     (let desc = (case map_of param_descs nm of None \<Rightarrow> [] | Some d \<Rightarrow> d);
          type_info = map_of param_types nm;
          optional = (case type_info of None \<Rightarrow> False
                      | Some t \<Rightarrow> t \<noteq> [] \<and> contains (lower t) ''optional'');
          type_info = (case type_info of None \<Rightarrow> None
                       | Some t \<Rightarrow> if optional
                                  then Some (strip (re_sub_empty IGNORECASE optional_rx t))
                                  else Some t);
          default_match = (if desc \<noteq> [] then re_search no_flags numpy_default_rx desc else None)
      in \<lparr>pd_name = nm, pd_type = type_info, pd_description = Some desc,
          pd_default = (case default_match of None \<Rightarrow> None
                        | Some dm \<Rightarrow> Some (strip (group_str dm 1))),
          pd_required = (case default_match of None \<Rightarrow> \<not> optional | Some _ \<Rightarrow> False)\<rparr>)"

text \<open>
  \<^verbatim>\<open>all_params\<close> is a Python set of strings, and the loop iterates over it. The order
  of the iteration is not fixed by the language: it depends on the hash seed of the
  process. It is a parameter of the model, a \<open>set_order\<close>: the function that gives, for
  the list of the elements put into the set, the order in which the iteration yields
  them, each element once.
\<close>

type_synonym set_order = "string list \<Rightarrow> string list"

definition parse_sphinx_style :: "set_order \<Rightarrow> string \<Rightarrow> DocstringInfo" where
  "parse_sphinx_style so docstring =
     (let param_descs = sphinx_dict sphinx_param_desc_rx docstring;
          param_types = sphinx_dict sphinx_param_type_rx docstring;
          all_params = so (map fst param_descs @ map fst param_types);
          return_desc = (case re_search DOTALL sphinx_return_desc_rx docstring of
                           None \<Rightarrow> None | Some m \<Rightarrow> Some (strip (group_str m 1)));
          return_type = (case re_search DOTALL sphinx_return_type_rx docstring of
                           None \<Rightarrow> None | Some m \<Rightarrow> Some (strip (group_str m 1)))
      in \<lparr>di_description = None,
          di_parameters = map (sphinx_param param_descs param_types) all_params,
          di_returns =
            (if truthy return_desc \<or> truthy return_type
             then Some \<lparr>rd_type = (case return_type of None \<Rightarrow> ''Any''
                                   | Some t \<Rightarrow> if t \<noteq> [] then t else ''Any''),
                        rd_description = (case return_desc of None \<Rightarrow> [] | Some d \<Rightarrow> d)\<rparr>
             else None)\<rparr>)"

subsection \<open>The description and the parser\<close>

text \<open>The section markers of \<^verbatim>\<open>_extract_description\<close>, joined by \<^verbatim>\<open>|\<close> in this order.\<close>

definition description_sections_rx :: rx where
  "description_sections_rx = alts
     [seqs [Lit ''\<newline>'', Star ws, Lit ''Arg'', Opt (Lit ''s''), Lit '':''],
      seqs [Lit ''\<newline>'', Star ws, Lit ''Parameter'', Opt (Lit ''s''), Lit '':''],
      seqs [Lit ''\<newline>'', Star ws, Lit ''Return'', Opt (Lit ''s''), Lit '':''],
      seqs [Lit ''\<newline>'', Star ws, Lit ''Yield'', Opt (Lit ''s''), Lit '':''],
      seqs [Lit ''\<newline>'', Star ws, Lit ''Raise'', Opt (Lit ''s''), Lit '':''],
      seqs [Lit ''\<newline>'', Star ws, Lit ''Note:''],
      seqs [Lit ''\<newline>'', Star ws, Lit ''Example:''],
      seqs [Lit ''\<newline>'', Star ws, Lit ''Examples:''],
      seqs [Lit ''\<newline>'', Star ws, Lit ''See Also:''],
      seqs [Lit ''\<newline>'', Star ws, Lit ''Attribute'', Opt (Lit ''s''), Lit '':''],
      seqs [Lit ''\<newline>'', Star ws, Lit ''Reference'', Opt (Lit ''s''), Lit '':''],
      seqs [Lit ''\<newline>'', Star ws, Lit ''---'', Star (chr (CHR ''-''))],
      seqs [Lit '':param'', Plus ws, Plus wd, Lit '':''],
      seqs [Lit '':type'', Plus ws, Plus wd, Lit '':''],
      Lit '':return:'', Lit '':rtype:'']"

definition extract_description :: "string \<Rightarrow> string option" where
  "extract_description docstring =
     (let desc = (case re_search no_flags description_sections_rx docstring of
                    Some m \<Rightarrow> strip (take (m_start m) docstring)
                  | None \<Rightarrow> strip docstring);
          cleaned_lines = map strip (split_char (CHR 0x0A) desc);
          desc = join '' '' (filter (\<lambda>line. line \<noteq> []) cleaned_lines)
      in if desc \<noteq> [] then Some desc else None)"

text \<open>\<^verbatim>\<open>DocstringParser.parse\<close>\<close>

definition parse :: "set_order \<Rightarrow> string \<Rightarrow> DocstringInfo" where
  "parse so docstring0 =
     (if docstring0 = [] then empty_DocstringInfo
      else
        (let docstring = strip docstring0;
             info = parse_google_style docstring;
             info = (if di_parameters info = []
                     then (let numpy_info = parse_numpy_style docstring
                           in if di_parameters numpy_info \<noteq> [] then numpy_info else info)
                     else info);
             info = (if di_parameters info = []
                     then (let sphinx_info = parse_sphinx_style so docstring
                           in if di_parameters sphinx_info \<noteq> [] then sphinx_info else info)
                     else info)
         in if \<not> truthy (di_description info)
            then info\<lparr>di_description := extract_description docstring\<rparr>
            else info))"

section \<open>Merging a signature with its docstring\<close>

text \<open>
  The body of the loop of \<^verbatim>\<open>merge_docstring_info\<close> for a documented parameter that the
  signature has. \<^verbatim>\<open>param_info["type"]\<close> raises \<^verbatim>\<open>KeyError\<close> when the key is absent; it
  is read only when the docstring gives a type.
\<close>

definition merge_param :: "ParameterDoc \<Rightarrow> param_info \<Rightarrow> error + param_info" where
  "merge_param param_doc param_info =
     (let pi1 = (if truthy (pd_description param_doc)
                 then param_info\<lparr>p_description := pd_description param_doc\<rparr> else param_info)
      in (case (if truthy (pd_type param_doc)
                then (case p_type pi1 of
                        None \<Rightarrow> Inl KeyError
                      | Some t \<Rightarrow> Inr (if t = ''Any'' then pi1\<lparr>p_type := pd_type param_doc\<rparr>
                                        else pi1))
                else Inr pi1) of
            Inl e \<Rightarrow> Inl e
          | Inr pi2 \<Rightarrow>
              Inr (case pd_default param_doc of
                     None \<Rightarrow> pi2
                   | Some d \<Rightarrow> pi2\<lparr>p_default := Some d, p_required := Some False\<rparr>)))"

fun merge_params :: "params \<Rightarrow> ParameterDoc list \<Rightarrow> error + params" where
  "merge_params ps [] = Inr ps"
| "merge_params ps (param_doc # rest) =
     (case map_of ps (pd_name param_doc) of
        None \<Rightarrow> merge_params ps rest
      | Some param_info \<Rightarrow>
          (case merge_param param_doc param_info of
             Inl e \<Rightarrow> Inl e
           | Inr pi' \<Rightarrow> merge_params (AList.update (pd_name param_doc) pi' ps) rest))"

text \<open>
  The return information: the description is taken when it is non-empty, the type when
  the signature has \<^verbatim>\<open>"Any"\<close>.
\<close>

definition merge_returns :: "returns_info \<Rightarrow> returns_doc option \<Rightarrow> error + returns_info" where
  "merge_returns r doc_returns =
     (case doc_returns of
        None \<Rightarrow> Inr r
      | Some d \<Rightarrow>
          (let r1 = (if rd_description d \<noteq> [] then r\<lparr>r_description := Some (rd_description d)\<rparr>
                     else r)
           in if rd_type d \<noteq> []
              then (case r_type r1 of
                      None \<Rightarrow> Inl KeyError
                    | Some t \<Rightarrow> Inr (if t = ''Any'' then r1\<lparr>r_type := Some (rd_type d)\<rparr> else r1))
              else Inr r1))"

definition merge_doc_info :: "signature \<Rightarrow> DocstringInfo \<Rightarrow> error + signature" where
  "merge_doc_info sg doc_info =
     (case merge_params (sig_parameters sg) (di_parameters doc_info) of
        Inl e \<Rightarrow> Inl e
      | Inr ps \<Rightarrow>
          (case merge_returns (sig_returns sg) (di_returns doc_info) of
             Inl e \<Rightarrow> Inl e
           | Inr r \<Rightarrow>
               Inr (sg\<lparr>sig_parameters := ps, sig_returns := r,
                       sig_description :=
                         (if truthy (di_description doc_info) then di_description doc_info
                          else sig_description sg)\<rparr>)))"

text \<open>\<^verbatim>\<open>BaseDetector.merge_docstring_info\<close>\<close>

definition merge_docstring_info :: "set_order \<Rightarrow> signature \<Rightarrow> string option \<Rightarrow> error + signature" where
  "merge_docstring_info so sg docstring =
     (case docstring of
        None \<Rightarrow> Inr sg
      | Some d \<Rightarrow> if d = [] then Inr sg else merge_doc_info sg (parse so d))"

section \<open>Schema extractors\<close>

text \<open>
  The interface \<^verbatim>\<open>SchemaExtractor\<close>: an extractor is its three methods.
  \<^verbatim>\<open>extract_params\<close> of an extractor registered at run time may raise; the built-in
  ones return a dictionary.
\<close>

record schema_extractor =
  can_extract :: "string \<Rightarrow> bool"
  extract_params :: "string \<Rightarrow> string \<Rightarrow> error + params"
  get_library_name :: string

text \<open>\<^verbatim>\<open>["\']\<close> and \<^verbatim>\<open>[^"\']\<close>\<close>

definition quote :: rx where
  "quote = any_of [CHR 0x22, CHR 0x27]"

definition not_quote :: rx where
  "not_quote = none_of [CHR 0x22, CHR 0x27]"

text \<open>\<^verbatim>\<open>d.get(key, key)\<close> on a type map.\<close>

definition get_or_key :: "(string \<times> string) list \<Rightarrow> string \<Rightarrow> string" where
  "get_or_key d k = (case map_of d k of None \<Rightarrow> k | Some v \<Rightarrow> v)"

subsection \<open>Zod\<close>

text \<open>
  \<^verbatim>\<open>import\s*\{[^}]*z[^}]*\}\s*from\s*["\']zod["\']\<close>,
  \<^verbatim>\<open>from\s+["\']zod["\']\<close>, \<^verbatim>\<open>z\.object\s*\(\<close>, \<^verbatim>\<open>z\.string\s*\(\<close>,
  \<^verbatim>\<open>z\.number\s*\(\<close>
\<close>

definition zod_indicators :: "rx list" where
  "zod_indicators =
     [seqs [Lit ''import'', Star ws, Lit ''{'', Star (none_of ''}''), Lit ''z'',
            Star (none_of ''}''), Lit ''}'', Star ws, Lit ''from'', Star ws, quote, Lit ''zod'',
            quote],
      seqs [Lit ''from'', Plus ws, quote, Lit ''zod'', quote],
      seqs [Lit ''z.object'', Star ws, Lit ''(''],
      seqs [Lit ''z.string'', Star ws, Lit ''(''],
      seqs [Lit ''z.number'', Star ws, Lit ''('']]"

definition zod_can_extract :: "string \<Rightarrow> bool" where
  "zod_can_extract content = list_ex (\<lambda>pattern. matches no_flags pattern content) zod_indicators"

text \<open>\<^verbatim>\<open>(\w+)\s*:\s*z\.(\w+)\s*\(([^)]*)\)([^,\n]*?)(?=,|\n|$|\})\<close>\<close>

definition zod_field_rx :: rx where
  "zod_field_rx = seqs
     [Group 1 (Plus wd), Star ws, Lit '':'', Star ws, Lit ''z.'', Group 2 (Plus wd), Star ws,
      Lit ''('', Group 3 (Star (none_of '')'')), Lit '')'',
      Group 4 (LStar (none_of [CHR '','', CHR 0x0A])),
      Look (alts [Lit '','', Lit ''\<newline>'', Eol, Lit ''}''])]"

definition zod_type_map :: "(string \<times> string) list" where
  "zod_type_map =
     [(''string'', ''str''), (''number'', ''number''), (''boolean'', ''bool''),
      (''object'', ''object''), (''array'', ''array''), (''date'', ''date''), (''any'', ''any''),
      (''literal'', ''literal''), (''enum'', ''enum'')]"

text \<open>
  \<^verbatim>\<open>\.describe\s*\(\s*["\']([^"\']+)["\']\<close> and
  \<^verbatim>\<open>\.describe\s*\(\s*`([^`]+)`\<close>
\<close>

definition zod_describe_rx :: rx where
  "zod_describe_rx = seqs
     [Lit ''.describe'', Star ws, Lit ''('', Star ws, quote, Group 1 (Plus not_quote), quote]"

definition zod_describe_template_rx :: rx where
  "zod_describe_template_rx = seqs
     [Lit ''.describe'', Star ws, Lit ''('', Star ws, Lit ''`'', Group 1 (Plus (none_of ''`'')),
      Lit ''`'']"

text \<open>The body of the loop of \<^verbatim>\<open>ZodSchemaExtractor.extract_params\<close> for one match.\<close>

definition zod_param_type :: "string \<Rightarrow> string \<Rightarrow> string" where
  "zod_param_type field_type field_args =
     (if field_type = ''literal'' \<and> field_args \<noteq> [] then ''literal<'' @ field_args @ ''>''
      else if field_type = ''enum'' \<and> field_args \<noteq> [] then ''enum<'' @ field_args @ ''>''
      else if field_type = ''array'' \<and> field_args \<noteq> []
      then (if contains field_args ''z.object'' then ''array<object>''
            else if contains field_args ''z.string'' then ''array<str>''
            else ''array'')
      else get_or_key zod_type_map field_type)"

definition zod_param_info :: "re_match_obj \<Rightarrow> param_info" where
  "zod_param_info m =
     (let field_type = group_str m 2;
          field_args = strip (group_str m 3);
          field_modifiers = strip (group_str m 4)
      in \<lparr>p_type = Some (zod_param_type field_type field_args),
          p_required = Some (\<not> contains field_modifiers ''.optional()''),
          p_description =
            (case re_search no_flags zod_describe_rx field_modifiers of
               Some desc_match \<Rightarrow> Some (group_str desc_match 1)
             | None \<Rightarrow>
                 (case re_search no_flags zod_describe_template_rx field_modifiers of
                    Some desc_match \<Rightarrow> Some (strip (group_str desc_match 1))
                  | None \<Rightarrow> None)),
          p_default = None\<rparr>)"

definition zod_extract_params :: "string \<Rightarrow> string \<Rightarrow> params" where
  "zod_extract_params content schema_body =
     fold (\<lambda>m parameters. AList.update (group_str m 1) (zod_param_info m) parameters)
       (re_finditer DOTALL zod_field_rx schema_body) []"

definition ZodSchemaExtractor :: schema_extractor where
  "ZodSchemaExtractor =
     \<lparr>can_extract = zod_can_extract,
      extract_params = (\<lambda>content schema_body. Inr (zod_extract_params content schema_body)),
      get_library_name = ''Zod''\<rparr>"

subsection \<open>TypeScript interfaces\<close>

definition ts_can_extract :: "string \<Rightarrow> bool" where
  "ts_can_extract content = (contains content ''interface'' \<and> contains content ''{'')"

text \<open>\<^verbatim>\<open>(\w+)\??:\s*([^;,\n]+)\<close>\<close>

definition ts_field_rx :: rx where
  "ts_field_rx = seqs
     [Group 1 (Plus wd), Opt (Lit ''?''), Lit '':'', Star ws,
      Group 2 (Plus (none_of [CHR '';'', CHR '','', CHR 0x0A]))]"

definition ts_type_map :: "(string \<times> string) list" where
  "ts_type_map =
     [(''string'', ''str''), (''number'', ''number''), (''boolean'', ''bool''),
      (''object'', ''object''), (''any'', ''any''), (''Array'', ''array'')]"

definition ts_param_info :: "re_match_obj \<Rightarrow> param_info" where
  "ts_param_info m =
     (let field_type_raw = strip (group_str m 2);
          is_optional = contains (hd (split_char (CHR '':'') (m_group0 m))) ''?'';
          param_type =
            (if startswith field_type_raw [CHR 0x27] \<or> startswith field_type_raw [CHR 0x22]
             then ''literal<'' @ field_type_raw @ ''>''
             else if contains field_type_raw ''|'' then ''enum<'' @ field_type_raw @ ''>''
             else if endswith field_type_raw ''[]''
             then ''array<'' @ get_or_key ts_type_map (take (length field_type_raw - 2) field_type_raw)
                  @ ''>''
             else get_or_key ts_type_map field_type_raw)
      in \<lparr>p_type = Some param_type, p_required = Some (\<not> is_optional), p_description = None,
          p_default = None\<rparr>)"

definition ts_extract_params :: "string \<Rightarrow> string \<Rightarrow> params" where
  "ts_extract_params content schema_body =
     fold (\<lambda>m parameters. AList.update (group_str m 1) (ts_param_info m) parameters)
       (re_finditer no_flags ts_field_rx schema_body) []"

definition TypeScriptInterfaceExtractor :: schema_extractor where
  "TypeScriptInterfaceExtractor =
     \<lparr>can_extract = ts_can_extract,
      extract_params = (\<lambda>content schema_body. Inr (ts_extract_params content schema_body)),
      get_library_name = ''TypeScript''\<rparr>"

subsection \<open>Yup\<close>

text \<open>
  \<^verbatim>\<open>import\s*\{[^}]*yup[^}]*\}\<close>, \<^verbatim>\<open>from\s+["\']yup["\']\<close>, \<^verbatim>\<open>yup\.object\s*\(\<close>,
  \<^verbatim>\<open>yup\.string\s*\(\<close>, searched with \<^verbatim>\<open>re.IGNORECASE\<close>
\<close>

definition yup_indicators :: "rx list" where
  "yup_indicators =
     [seqs [Lit ''import'', Star ws, Lit ''{'', Star (none_of ''}''), Lit ''yup'',
            Star (none_of ''}''), Lit ''}''],
      seqs [Lit ''from'', Plus ws, quote, Lit ''yup'', quote],
      seqs [Lit ''yup.object'', Star ws, Lit ''(''],
      seqs [Lit ''yup.string'', Star ws, Lit ''('']]"

definition yup_can_extract :: "string \<Rightarrow> bool" where
  "yup_can_extract content = list_ex (\<lambda>pattern. matches IGNORECASE pattern content) yup_indicators"

text \<open>\<^verbatim>\<open>(\w+)\s*:\s*yup\.(\w+)\s*\(\)([^,\n]*?)(?=,|\n|$|\})\<close>\<close>

definition yup_field_rx :: rx where
  "yup_field_rx = seqs
     [Group 1 (Plus wd), Star ws, Lit '':'', Star ws, Lit ''yup.'', Group 2 (Plus wd), Star ws,
      Lit ''()'', Group 3 (LStar (none_of [CHR '','', CHR 0x0A])),
      Look (alts [Lit '','', Lit ''\<newline>'', Eol, Lit ''}''])]"

definition yup_type_map :: "(string \<times> string) list" where
  "yup_type_map =
     [(''string'', ''str''), (''number'', ''number''), (''boolean'', ''bool''),
      (''object'', ''object''), (''array'', ''array''), (''date'', ''date'')]"

text \<open>\<^verbatim>\<open>\.label\s*\(\s*["\']([^"\']+)["\']\<close>\<close>

definition yup_label_rx :: rx where
  "yup_label_rx = seqs
     [Lit ''.label'', Star ws, Lit ''('', Star ws, quote, Group 1 (Plus not_quote), quote]"

definition yup_param_info :: "re_match_obj \<Rightarrow> param_info" where
  "yup_param_info m =
     (let field_type = group_str m 2;
          field_modifiers = strip (group_str m 3)
      in \<lparr>p_type = Some (get_or_key yup_type_map field_type),
          p_required = Some (\<not> (contains field_modifiers ''.optional()''
                                 \<or> contains field_modifiers ''.notRequired()'')),
          p_description =
            (case re_search no_flags yup_label_rx field_modifiers of
               Some desc_match \<Rightarrow> Some (group_str desc_match 1) | None \<Rightarrow> None),
          p_default = None\<rparr>)"

definition yup_extract_params :: "string \<Rightarrow> string \<Rightarrow> params" where
  "yup_extract_params content schema_body =
     fold (\<lambda>m parameters. AList.update (group_str m 1) (yup_param_info m) parameters)
       (re_finditer DOTALL yup_field_rx schema_body) []"

definition YupSchemaExtractor :: schema_extractor where
  "YupSchemaExtractor =
     \<lparr>can_extract = yup_can_extract,
      extract_params = (\<lambda>content schema_body. Inr (yup_extract_params content schema_body)),
      get_library_name = ''Yup''\<rparr>"

subsection \<open>The factory\<close>

text \<open>
  The state of a \<^verbatim>\<open>SchemaExtractorFactory\<close> is its list \<^verbatim>\<open>self.extractors\<close>;
  \<^verbatim>\<open>__init__\<close> fills it with the three built-in extractors.
\<close>

type_synonym SchemaExtractorFactory = "schema_extractor list"

definition init_factory :: SchemaExtractorFactory where
  "init_factory = [ZodSchemaExtractor, YupSchemaExtractor, TypeScriptInterfaceExtractor]"

fun get_extractor :: "SchemaExtractorFactory \<Rightarrow> string \<Rightarrow> schema_extractor option" where
  "get_extractor [] content = None"
| "get_extractor (extractor # rest) content =
     (if can_extract extractor content then Some extractor else get_extractor rest content)"

definition register_extractor :: "schema_extractor \<Rightarrow> SchemaExtractorFactory \<Rightarrow> SchemaExtractorFactory" where
  "register_extractor extractor extractors = extractor # extractors"

text \<open>
  \<^verbatim>\<open>LangChainTypeScriptDetector._extract_schema_params\<close>: an exception of the extractor
  is caught and gives the empty dictionary.
\<close>

definition extract_schema_params :: "SchemaExtractorFactory \<Rightarrow> string \<Rightarrow> string \<Rightarrow> params" where
  "extract_schema_params schema_factory content schema_body =
     (case get_extractor schema_factory content of
        Some extractor \<Rightarrow>
          (case extract_params extractor content schema_body of
             Inr ps \<Rightarrow> ps
           | Inl e \<Rightarrow> [])
      | None \<Rightarrow> [])"

text \<open>\<^verbatim>\<open>_extract_zod_schema_params\<close>: a minimal Zod file around the schema body.\<close>

definition extract_zod_schema_params :: "SchemaExtractorFactory \<Rightarrow> string \<Rightarrow> params" where
  "extract_zod_schema_params schema_factory schema_body =
     extract_schema_params schema_factory
       (''import { z } from '' @ [CHR 0x27] @ ''zod'' @ [CHR 0x27] @ ''\<newline>z.object({''
        @ schema_body @ ''})'') schema_body"

section \<open>Python syntax trees\<close>

text \<open>
  The nodes of Python's \<^verbatim>\<open>ast\<close> module that the detectors inspect, for Python 3.9 to
  3.13 (a subscript holds its index directly; \<^verbatim>\<open>ast.Str\<close>, \<^verbatim>\<open>ast.Num\<close>,
  \<^verbatim>\<open>ast.NameConstant\<close> and \<^verbatim>\<open>ast.Index\<close> are names of \<^verbatim>\<open>ast.Constant\<close> or of
  nothing, so the branches of the code that test them after \<^verbatim>\<open>ast.Constant\<close> are dead).
  A constant keeps its string value, or for any other value the text \<^verbatim>\<open>repr\<close> prints.
  \<open>FunctionDef\<close> carries, as its last field, what \<^verbatim>\<open>ast.get_docstring\<close> returns for
  it. \<open>Other\<close> is a node of any other class, with its child nodes in field order; such
  a class has no field \<^verbatim>\<open>value\<close>.
\<close>

datatype const_value = CStr string | CNonStr string

datatype operator = BitOr | OtherOp

datatype unaryop = USub | OtherUnaryOp

datatype ast =
    Module "ast list"
  | FunctionDef string ast "ast list" "ast list" "ast option" "string option"
  | ClassDef string "ast list" "ast list" "ast list" "ast list"
  | Assign "ast list" ast
  | AnnAssign ast ast "ast option"
  | ImportFrom "string option" "ast list" nat
  | Expr ast
  | Call ast "ast list" "ast list"
  | Name string
  | Constant const_value
  | Attribute ast string
  | List "ast list"
  | Tuple "ast list"
  | Subscript ast ast
  | Starred ast
  | BinOp ast operator ast
  | UnaryOp unaryop ast
  | Dict "ast option list" "ast list"
  | Lambda ast ast
  | Keyword "string option" ast
  | Arguments "ast list" "ast list" "ast option" "ast list" "ast option list" "ast option" "ast list"
  | Arg string "ast option"
  | Alias string "string option"
  | Other "ast list"

text \<open>
  The fields, in the order of the constructors' arguments:
  \<open>FunctionDef name args body decorator_list returns docstring\<close>,
  \<open>ClassDef name bases keywords body decorator_list\<close>, \<open>Assign targets value\<close>,
  \<open>AnnAssign target annotation value\<close>, \<open>ImportFrom module names level\<close>,
  \<open>Call func args keywords\<close>, \<open>Attribute value attr\<close>, \<open>Subscript value slice\<close>,
  \<open>BinOp left op right\<close>, \<open>Dict keys values\<close>, \<open>Lambda args body\<close>,
  \<open>Keyword arg value\<close>,
  \<open>Arguments posonlyargs args vararg kwonlyargs kw_defaults kwarg defaults\<close>,
  \<open>Arg arg annotation\<close>, \<open>Alias name asname\<close>.
\<close>

text \<open>The outcome of \<^verbatim>\<open>ast.parse(content)\<close>.\<close>

datatype parse_result = Parsed ast | SyntaxError | OtherParseError

text \<open>
  A Python source file: its text together with the outcome of \<^verbatim>\<open>ast.parse\<close> on that
  text. Where the code calls \<^verbatim>\<open>ast.parse(content)\<close>, the model reads \<open>parsed\<close> of the source whose \<open>content\<close> it is.
\<close>

record source =
  content :: string
  parsed :: parse_result

fun opt_list :: "'a option \<Rightarrow> 'a list" where
  "opt_list None = []"
| "opt_list (Some x) = [x]"

text \<open>\<^verbatim>\<open>ast.iter_child_nodes\<close>: the child nodes in field order.\<close>

fun iter_child_nodes :: "ast \<Rightarrow> ast list" where
  "iter_child_nodes (Module body) = body"
| "iter_child_nodes (FunctionDef nm args body decorator_list rets doc) =
     args # body @ decorator_list @ opt_list rets"
| "iter_child_nodes (ClassDef nm bases keywords body decorator_list) =
     bases @ keywords @ body @ decorator_list"
| "iter_child_nodes (Assign targets v) = targets @ [v]"
| "iter_child_nodes (AnnAssign target annotation v) = target # annotation # opt_list v"
| "iter_child_nodes (ImportFrom module names level) = names"
| "iter_child_nodes (Expr v) = [v]"
| "iter_child_nodes (Call func args keywords) = func # args @ keywords"
| "iter_child_nodes (Name i) = []"
| "iter_child_nodes (Constant c) = []"
| "iter_child_nodes (Attribute v attr) = [v]"
| "iter_child_nodes (List elts) = elts"
| "iter_child_nodes (Tuple elts) = elts"
| "iter_child_nodes (Subscript v slice) = [v, slice]"
| "iter_child_nodes (Starred v) = [v]"
| "iter_child_nodes (BinOp left op right) = [left, right]"
| "iter_child_nodes (UnaryOp op operand) = [operand]"
| "iter_child_nodes (Dict keys vals) = concat (map opt_list keys) @ vals"
| "iter_child_nodes (Lambda args body) = [args, body]"
| "iter_child_nodes (Keyword a v) = [v]"
| "iter_child_nodes (Arguments posonlyargs args vararg kwonlyargs kw_defaults kwarg defaults) =
     posonlyargs @ args @ opt_list vararg @ kwonlyargs @ concat (map opt_list kw_defaults)
     @ opt_list kwarg @ defaults"
| "iter_child_nodes (Arg a annotation) = opt_list annotation"
| "iter_child_nodes (Alias n asname) = []"
| "iter_child_nodes (Other children) = children"

text \<open>The termination measure of \<open>walk\<close>.\<close>

definition weight :: "ast \<Rightarrow> nat" where
  "weight n = 2 * size n + 1"

lemma weight_iter_child_nodes: "sum_list (map weight (iter_child_nodes n)) < weight n"
proof -
  have opt: "sum_list (map weight (opt_list x)) \<le> 2 * size_option size x" for x :: "ast option"
    by (cases x) (simp_all add: weight_def)
  have lst: "sum_list (map weight xs) \<le> 2 * size_list size xs" for xs :: "ast list"
    by (induction xs) (simp_all add: weight_def)
  have optlst: "sum_list (map weight (concat (map opt_list xs))) \<le> 2 * size_list (size_option size) xs"
    for xs :: "ast option list"
  proof (induction xs)
    case Nil
    then show ?case by simp
  next
    case (Cons a xs)
    from opt [of a] Cons show ?case by simp
  qed
  show ?thesis
  proof (cases n)
    case (Dict keys vals)
    with optlst [of keys] lst [of vals] show ?thesis by (simp add: weight_def)
  next
    case (Arguments posonlyargs args vararg kwonlyargs kw_defaults kwarg defaults)
    with lst [of posonlyargs] lst [of args] opt [of vararg] lst [of kwonlyargs]
      optlst [of kw_defaults] opt [of kwarg] lst [of defaults]
    show ?thesis by (simp add: weight_def)
  next
    case (FunctionDef nm args body decorator_list rets doc)
    with lst [of body] lst [of decorator_list] opt [of rets] show ?thesis
      by (simp add: weight_def)
  next
    case (ClassDef nm bases kwds body decorator_list)
    with lst [of bases] lst [of kwds] lst [of body] lst [of decorator_list]
    show ?thesis by (simp add: weight_def)
  next
    case (AnnAssign target annotation v)
    with opt [of v] show ?thesis by (simp add: weight_def)
  next
    case (Arg a annotation)
    with opt [of annotation] show ?thesis by (simp add: weight_def)
  next
    case (Module body)
    with lst [of body] show ?thesis by (simp add: weight_def)
  next
    case (Assign targets v)
    with lst [of targets] show ?thesis by (simp add: weight_def)
  next
    case (ImportFrom module names level)
    with lst [of names] show ?thesis by (simp add: weight_def)
  next
    case (Call func args kwds)
    with lst [of args] lst [of kwds] show ?thesis by (simp add: weight_def)
  next
    case (List elts)
    with lst [of elts] show ?thesis by (simp add: weight_def)
  next
    case (Tuple elts)
    with lst [of elts] show ?thesis by (simp add: weight_def)
  next
    case (Other children)
    with lst [of children] show ?thesis by (simp add: weight_def)
  qed (simp_all add: weight_def)
qed

text \<open>
  \<^verbatim>\<open>ast.walk\<close> yields the nodes breadth first: a node, then the nodes of the queue, with
  its children appended to the queue. That is level by level.
\<close>

function walk_level :: "ast list \<Rightarrow> ast list" where
  "walk_level [] = []"
| "walk_level (n # ns) = (n # ns) @ walk_level (concat (map iter_child_nodes (n # ns)))"
  by pat_completeness auto
termination
proof (relation "measure (\<lambda>ns. sum_list (map weight ns))")
  show "wf (measure (\<lambda>ns. sum_list (map weight ns)))" by simp
next
  fix n :: ast and ns :: "ast list"
  have "sum_list (map weight (concat (map iter_child_nodes xs))) \<le> sum_list (map weight xs)"
    for xs :: "ast list"
  proof (induction xs)
    case Nil
    then show ?case by simp
  next
    case (Cons a xs)
    with weight_iter_child_nodes [of a] show ?case by simp
  qed
  then have "sum_list (map weight (concat (map iter_child_nodes ns))) \<le> sum_list (map weight ns)" .
  with weight_iter_child_nodes [of n]
  show "(concat (map iter_child_nodes (n # ns)), n # ns) \<in> measure (\<lambda>ns. sum_list (map weight ns))"
    by simp
qed

definition walk :: "ast \<Rightarrow> ast list" where
  "walk tree = walk_level [tree]"

section \<open>Helpers of the base detector\<close>

text \<open>
  \<^verbatim>\<open>repr\<close> of a constant. For a string: single quotes, unless the string has a single
  quote and no double quote; the quote, the backslash and control characters escaped.
\<close>

definition hex_digit :: "nat \<Rightarrow> char" where
  "hex_digit n = (if n < 10 then char_of (48 + n) else char_of (87 + n))"

definition repr_char :: "char \<Rightarrow> char \<Rightarrow> string" where
  "repr_char q c =
     (let n = of_char c :: nat
      in if c = q \<or> c = CHR 0x5C then [CHR 0x5C, c]
         else if n = 10 then [CHR 0x5C, CHR ''n'']
         else if n = 13 then [CHR 0x5C, CHR ''r'']
         else if n = 9 then [CHR 0x5C, CHR ''t'']
         else if n < 32 \<or> n = 127 then [CHR 0x5C, CHR ''x'', hex_digit (n div 16), hex_digit (n mod 16)]
         else [c])"

definition repr_str :: "string \<Rightarrow> string" where
  "repr_str s =
     (let q = (if CHR 0x27 \<in> set s \<and> CHR 0x22 \<notin> set s then CHR 0x22 else CHR 0x27)
      in [q] @ concat (map (repr_char q) s) @ [q])"

fun py_repr :: "const_value \<Rightarrow> string" where
  "py_repr (CStr s) = repr_str s"
| "py_repr (CNonStr r) = r"

text \<open>\<^verbatim>\<open>BaseDetector.extract_string_value\<close>\<close>

fun extract_string_value :: "ast \<Rightarrow> string option" where
  "extract_string_value (Constant (CStr s)) = Some s"
| "extract_string_value n = None"

text \<open>
  \<^verbatim>\<open>BaseDetector._ast_to_type_string\<close>. In a subscript, an index that has a field
  \<^verbatim>\<open>value\<close> (a constant, an attribute, a subscript, a starred expression) is replaced
  by that field; the value of a constant is no node and gives \<^verbatim>\<open>"Any"\<close>.
\<close>

fun ast_to_type_string :: "ast \<Rightarrow> string" where
  "ast_to_type_string (Name i) = i"
| "ast_to_type_string (Constant c) = py_repr c"
| "ast_to_type_string (Subscript v slice) =
     ast_to_type_string v @ ''['' @
     (case slice of
        Constant c \<Rightarrow> ''Any''
      | Attribute v' a \<Rightarrow> ast_to_type_string v'
      | Subscript v' s' \<Rightarrow> ast_to_type_string v'
      | Starred v' \<Rightarrow> ast_to_type_string v'
      | Tuple elts \<Rightarrow> join '', '' (map ast_to_type_string elts)
      | _ \<Rightarrow> ast_to_type_string slice) @ '']''"
| "ast_to_type_string (BinOp left BitOr right) =
     ast_to_type_string left @ '' | '' @ ast_to_type_string right"
| "ast_to_type_string (Tuple elts) = ''Tuple['' @ join '', '' (map ast_to_type_string elts) @ '']''"
| "ast_to_type_string (Attribute v attr) = ast_to_type_string v @ ''.'' @ attr"
| "ast_to_type_string n = ''Any''"

text \<open>\<^verbatim>\<open>BaseDetector._ast_to_value_string\<close>; it is also called on \<^verbatim>\<open>None\<close>.\<close>

fun ast_to_value_string :: "ast \<Rightarrow> string" where
  "ast_to_value_string (Constant c) = py_repr c"
| "ast_to_value_string (Name i) = i"
| "ast_to_value_string (UnaryOp USub operand) = ''-'' @ ast_to_value_string operand"
| "ast_to_value_string (List elts) = ''['' @ join '', '' (map ast_to_value_string elts) @ '']''"
| "ast_to_value_string (Tuple elts) = ''('' @ join '', '' (map ast_to_value_string elts) @ '')''"
| "ast_to_value_string (Dict keys vals) =
     ''{'' @ join '', ''
        (map (\<lambda>(key, v). key @ '': '' @ v)
           (zip (map (\<lambda>k. case k of None \<Rightarrow> ''None'' | Some k' \<Rightarrow> ast_to_value_string k') keys)
                (map ast_to_value_string vals))) @ ''}''"
| "ast_to_value_string n = ''...''"

text \<open>
  \<^verbatim>\<open>BaseDetector.extract_function_signature\<close>. The loop over \<^verbatim>\<open>args.args\<close>, with the
  index \<open>i\<close> and \<^verbatim>\<open>defaults_offset\<close> as Python integers; a node without the fields of
  \<^verbatim>\<open>ast.arg\<close> raises.
\<close>

fun positional_params :: "ast list \<Rightarrow> ast list \<Rightarrow> int \<Rightarrow> int \<Rightarrow> params \<Rightarrow> error + params" where
  "positional_params [] defaults defaults_offset i ps = Inr ps"
| "positional_params (Arg a annotation # rest) defaults defaults_offset i ps =
     (let param_info =
            \<lparr>p_type = Some (case annotation of None \<Rightarrow> ''Any'' | Some t \<Rightarrow> ast_to_type_string t),
             p_required = Some (i < defaults_offset), p_description = None, p_default = None\<rparr>;
          param_info =
            (if defaults_offset \<le> i \<and> i - defaults_offset < int (length defaults)
             then param_info\<lparr>p_default :=
                                Some (ast_to_value_string (defaults ! nat (i - defaults_offset))),
                              p_required := Some False\<rparr>
             else param_info)
      in positional_params rest defaults defaults_offset (i + 1) (AList.update a param_info ps))"
| "positional_params (n # rest) defaults defaults_offset i ps = Inl OtherException"

fun kwonly_params :: "ast list \<Rightarrow> ast option list \<Rightarrow> int \<Rightarrow> int \<Rightarrow> params \<Rightarrow> error + params" where
  "kwonly_params [] kw_defaults kwonly_defaults_offset i ps = Inr ps"
| "kwonly_params (Arg a annotation # rest) kw_defaults kwonly_defaults_offset i ps =
     (let param_info =
            \<lparr>p_type = Some ''Any'', p_required = Some True, p_description = None,
             p_default = None\<rparr>;
          param_info =
            (if kwonly_defaults_offset \<le> i \<and> i - kwonly_defaults_offset < int (length kw_defaults)
             then (case kw_defaults ! nat (i - kwonly_defaults_offset) of
                     None \<Rightarrow> param_info
                   | Some d \<Rightarrow> param_info\<lparr>p_default := Some (ast_to_value_string d),
                                           p_required := Some False\<rparr>)
             else param_info);
          param_info =
            (case annotation of None \<Rightarrow> param_info
             | Some t \<Rightarrow> param_info\<lparr>p_type := Some (ast_to_type_string t)\<rparr>)
      in kwonly_params rest kw_defaults kwonly_defaults_offset (i + 1)
           (AList.update a param_info ps))"
| "kwonly_params (n # rest) kw_defaults kwonly_defaults_offset i ps = Inl OtherException"

text \<open>The entry for \<^verbatim>\<open>*args\<close> or \<^verbatim>\<open>**kwargs\<close>; \<open>stars\<close> is the prefix of the key.\<close>

fun star_param :: "string \<Rightarrow> string \<Rightarrow> ast option \<Rightarrow> params \<Rightarrow> error + params" where
  "star_param stars desc None ps = Inr ps"
| "star_param stars desc (Some (Arg a annotation)) ps =
     Inr (AList.update (stars @ a)
            \<lparr>p_type = Some (case annotation of None \<Rightarrow> ''Any'' | Some t \<Rightarrow> ast_to_type_string t),
             p_required = Some False, p_description = Some desc, p_default = None\<rparr> ps)"
| "star_param stars desc (Some n) ps = Inl OtherException"

fun extract_function_signature :: "ast \<Rightarrow> error + signature" where
  "extract_function_signature
     (FunctionDef nm (Arguments posonlyargs args vararg kwonlyargs kw_defaults kwarg defaults)
        body decorator_list rets doc) =
     (case positional_params args defaults (int (length args) - int (length defaults)) 0 [] of
        Inl e \<Rightarrow> Inl e
      | Inr ps1 \<Rightarrow>
     (case star_param ''*'' ''Variable positional arguments'' vararg ps1 of
        Inl e \<Rightarrow> Inl e
      | Inr ps2 \<Rightarrow>
     (case kwonly_params kwonlyargs kw_defaults
             (int (length kwonlyargs) - int (length kw_defaults)) 0 ps2 of
        Inl e \<Rightarrow> Inl e
      | Inr ps3 \<Rightarrow>
     (case star_param ''**'' ''Variable keyword arguments'' kwarg ps3 of
        Inl e \<Rightarrow> Inl e
      | Inr ps4 \<Rightarrow>
          Inr \<lparr>sig_parameters = ps4,
               sig_returns =
                 \<lparr>r_type = Some (case rets of None \<Rightarrow> ''Any''
                                  | Some r \<Rightarrow> (let return_type = ast_to_type_string r
                                               in if return_type \<noteq> [] then return_type else ''Any'')),
                  r_description = None\<rparr>,
               sig_description = None\<rparr>))))"
| "extract_function_signature n = Inl OtherException"

section \<open>Detection results\<close>

text \<open>
  The values of the \<^verbatim>\<open>metadata\<close> dictionary: the AutoGen and CrewAI detectors store
  lists of dictionaries (agents, tasks) and one dictionary (\<^verbatim>\<open>group_chat\<close>), whose values
  are strings, booleans, constants of the source and lists of tools.
\<close>

datatype meta_value = MStr string | MBool bool | MConst const_value | MTools "ToolInfo list"

type_synonym meta_dict = "(string \<times> meta_value) list"

datatype meta = MDicts "meta_dict list" | MDict meta_dict

text \<open>\<^verbatim>\<open>DetectorResult\<close> of \<^verbatim>\<open>detectors/base.py\<close>.\<close>

record DetectorResult =
  found :: bool
  agent_name :: "string option"
  constructor_file :: "string option"
  tool_files :: "string list"
  tools :: "ToolInfo list"
  architecture :: string
  frameworks :: "string list"
  language :: string
  agent_type :: string
  metadata :: "(string \<times> meta) list"

text \<open>The dataclass defaults.\<close>

definition default_DetectorResult :: DetectorResult where
  "default_DetectorResult =
     \<lparr>found = False, agent_name = None, constructor_file = None, tool_files = [], tools = [],
      architecture = ''Other'', frameworks = [], language = [], agent_type = ''LLM Agent'',
      metadata = []\<rparr>"

text \<open>
  A file path is absolute: the list of its components below the root. \<^verbatim>\<open>str(path)\<close>
  joins them.
\<close>

type_synonym path = "string list"

definition path_str :: "path \<Rightarrow> string" where
  "path_str p = ''/'' @ join ''/'' p"

text \<open>
  \<^verbatim>\<open>check_presence_signature\<close> and \<^verbatim>\<open>check_construction_signature\<close> of the base
  detector, over the signatures of the detector.
\<close>

definition check_presence_signature :: "rx list \<Rightarrow> string \<Rightarrow> bool" where
  "check_presence_signature signatures c = list_ex (\<lambda>signature. matches MULTILINE signature c) signatures"

fun check_construction_signature :: "rx list \<Rightarrow> string \<Rightarrow> re_match_obj option" where
  "check_construction_signature [] c = None"
| "check_construction_signature (signature # rest) c =
     (case re_search MULTILINE_DOTALL signature c of
        Some m \<Rightarrow> Some m
      | None \<Rightarrow> check_construction_signature rest c)"

text \<open>A detector returns a result, returns \<^verbatim>\<open>None\<close>, or lets an exception escape.\<close>

type_synonym detect_outcome = "error + DetectorResult option"

section \<open>Tools defined by a decorated function\<close>

text \<open>
  \<^verbatim>\<open>@tool.*?\ndef\s+<name>\s*\([^)]*\)\<close>, searched with \<^verbatim>\<open>re.DOTALL | re.MULTILINE\<close>,
  and \<^verbatim>\<open>def\s+<name>\s*\([^)]*\)\s*:\s*"""([^"]*?)"""\<close>, searched with \<^verbatim>\<open>re.DOTALL\<close>;
  \<^verbatim>\<open><name>\<close> is \<^verbatim>\<open>re.escape(name)\<close>.
\<close>

definition tool_pattern :: "string \<Rightarrow> rx" where
  "tool_pattern nm = seqs
     [Lit ''@tool'', LStar dot, Lit ''\<newline>def'', Plus ws, Lit nm, Star ws, Lit ''('',
      Star (none_of '')''), Lit '')'']"

definition doc_pattern :: "string \<Rightarrow> rx" where
  "doc_pattern nm = seqs
     [Lit ''def'', Plus ws, Lit nm, Star ws, Lit ''('', Star (none_of '')''), Lit '')'', Star ws,
      Lit '':'', Star ws, Lit [CHR 0x22, CHR 0x22, CHR 0x22],
      Group 1 (LStar (none_of [CHR 0x22])), Lit [CHR 0x22, CHR 0x22, CHR 0x22]]"

definition is_tool_decorator :: "ast \<Rightarrow> bool" where
  "is_tool_decorator dec =
     (case dec of Name i \<Rightarrow> i = ''tool'' | Attribute v attr \<Rightarrow> attr = ''tool'' | _ \<Rightarrow> False)"

text \<open>
  The loop over \<^verbatim>\<open>ast.walk(tree)\<close> inside the \<^verbatim>\<open>try\<close> block: the first function
  definition of that name with a \<^verbatim>\<open>tool\<close> decorator gives the tool. \<open>Inl\<close> is an
  exception raised inside the block, \<open>Inr None\<close> the end of the loop without a
  \<^verbatim>\<open>return\<close>.
\<close>

definition decorated_tool_node :: "set_order \<Rightarrow> string \<Rightarrow> ast \<Rightarrow> (error + ToolInfo) option" where
  "decorated_tool_node so nm node =
     (case node of
        FunctionDef fname args body decorator_list rets docstring \<Rightarrow>
          if fname = nm \<and> list_ex is_tool_decorator decorator_list
          then Some
            (case extract_function_signature node of
               Inl e \<Rightarrow> Inl e
             | Inr sg \<Rightarrow>
                 (case merge_docstring_info so sg docstring of
                    Inl e \<Rightarrow> Inl e
                  | Inr full_info \<Rightarrow>
                      Inr \<lparr>name = nm, file_path = [], line_number = 0,
                           description =
                             (case sig_description full_info of
                                Some d \<Rightarrow> Some d
                              | None \<Rightarrow>
                                  (case docstring of
                                     None \<Rightarrow> None
                                   | Some d \<Rightarrow> if d = [] then None
                                               else Some (hd (split_char (CHR 0x0A) d)))),
                           parameters = sig_parameters full_info,
                           returns = Some (sig_returns full_info),
                           raw_definition = None\<rparr>))
          else None
      | _ \<Rightarrow> None)"

fun decorated_tool_loop :: "set_order \<Rightarrow> string \<Rightarrow> ast list \<Rightarrow> error + ToolInfo option" where
  "decorated_tool_loop so nm [] = Inr None"
| "decorated_tool_loop so nm (node # rest) =
     (case decorated_tool_node so nm node of
        Some (Inl e) \<Rightarrow> Inl e
      | Some (Inr tool) \<Rightarrow> Inr (Some tool)
      | None \<Rightarrow> decorated_tool_loop so nm rest)"

text \<open>
  The block \<^verbatim>\<open>if match: try: ... except: ...\<close> of \<^verbatim>\<open>_find_tool_definition\<close>, which the
  LangChain and the CrewAI detector share word for word. \<open>None\<close>: the block ends without
  a \<^verbatim>\<open>return\<close>.
\<close>

definition decorated_tool :: "set_order \<Rightarrow> string \<Rightarrow> source \<Rightarrow> ToolInfo option" where
  "decorated_tool so nm src =
     (if matches MULTILINE_DOTALL (tool_pattern nm) (content src)
      then (case (case parsed src of
                    Parsed tree \<Rightarrow> decorated_tool_loop so nm (walk tree)
                  | _ \<Rightarrow> Inl OtherException) of
              Inr r \<Rightarrow> r
            | Inl e \<Rightarrow>
                Some ((mk_ToolInfo nm [])
                       \<lparr>description :=
                          (case re_search DOTALL (doc_pattern nm) (content src) of
                             Some doc_match \<Rightarrow> Some (strip (group_str doc_match 1))
                           | None \<Rightarrow> None)\<rparr>))
      else None)"

section \<open>AutoGen detector\<close>

text \<open>\<^verbatim>\<open>GroupChatManager\s*\([^)]*groupchat\s*=\<close>\<close>

definition autogen_construction_signatures :: "rx list" where
  "autogen_construction_signatures =
     [seqs [Lit ''GroupChatManager'', Star ws, Lit ''('', Star (none_of '')''), Lit ''groupchat'',
            Star ws, Lit ''='']]"

definition autogen_required_imports :: "string list" where
  "autogen_required_imports = [''AssistantAgent'', ''UserProxyAgent'', ''GroupChat'', ''GroupChatManager'']"

text \<open>\<^verbatim>\<open>AutoGenDetector._extract_agent_details\<close>: the loop over the keywords of the call.\<close>

definition autogen_agent_detail :: "ast \<Rightarrow> meta_dict \<Rightarrow> meta_dict" where
  "autogen_agent_detail kw details =
     (case kw of
        Keyword (Some a) v \<Rightarrow>
          if a = ''name''
          then (case extract_string_value v of
                  Some n \<Rightarrow> if n \<noteq> [] then AList.update ''name'' (MStr n) details else details
                | None \<Rightarrow> details)
          else if a = ''system_message''
          then (case extract_string_value v of
                  Some message \<Rightarrow>
                    if message \<noteq> []
                    then AList.update ''system_message'' (MStr (take 200 message)) details
                    else details
                | None \<Rightarrow> details)
          else if a = ''max_consecutive_auto_reply''
          then (case v of Constant c \<Rightarrow> AList.update ''max_consecutive_auto_reply'' (MConst c) details
                | _ \<Rightarrow> details)
          else if a = ''code_execution_config''
          then AList.update ''has_code_execution'' (MBool True) details
          else if a = ''function_map'' then AList.update ''has_functions'' (MBool True) details
          else if a = ''llm_config'' then AList.update ''has_llm_config'' (MBool True) details
          else details
      | _ \<Rightarrow> details)"

definition autogen_agent_details :: "ast list \<Rightarrow> meta_dict \<Rightarrow> meta_dict" where
  "autogen_agent_details kws details = fold autogen_agent_detail kws details"

text \<open>The names of the targets of an assignment that are plain names, in order.\<close>

definition name_targets :: "ast list \<Rightarrow> string list" where
  "name_targets targets = concat (map (\<lambda>target. case target of Name i \<Rightarrow> [i] | _ \<Rightarrow> []) targets)"

text \<open>The identifiers of the elements of a list display that are plain names.\<close>

definition list_names :: "ast \<Rightarrow> string list" where
  "list_names v = (case v of List elts \<Rightarrow> name_targets elts | _ \<Rightarrow> [])"

text \<open>The state of the first pass of \<^verbatim>\<open>_extract_agents_info\<close>.\<close>

record autogen_state =
  ag_agents :: "(string \<times> meta_dict) list"
  ag_group_chat_agents :: "string list"
  ag_group_chat_var :: "string option"
  ag_name :: "string option"
  ag_linked :: bool

text \<open>The values of the keywords named \<open>a\<close>, in order.\<close>

definition keyword_values :: "string \<Rightarrow> ast list \<Rightarrow> ast list" where
  "keyword_values a kws =
     concat (map (\<lambda>kw. case kw of Keyword (Some b) v \<Rightarrow> if a = b then [v] else [] | _ \<Rightarrow> []) kws)"

definition autogen_step :: "ast \<Rightarrow> autogen_state \<Rightarrow> autogen_state" where
  "autogen_step node st =
     (case node of Assign targets v \<Rightarrow>
     (case v of Call func args kws \<Rightarrow>
     (case func of Name func_name \<Rightarrow>
          if func_name = ''AssistantAgent'' \<or> func_name = ''UserProxyAgent''
          then st\<lparr>ag_agents :=
                    fold (\<lambda>agent_name agents.
                            AList.update agent_name
                              (autogen_agent_details kws
                                 [(''variable'', MStr agent_name), (''type'', MStr func_name)])
                              agents)
                      (name_targets targets) (ag_agents st)\<rparr>
          else if func_name = ''GroupChat''
          then st\<lparr>ag_group_chat_var :=
                    (case name_targets targets of [] \<Rightarrow> ag_group_chat_var st
                     | ts \<Rightarrow> Some (last ts)),
                  ag_group_chat_agents :=
                    ag_group_chat_agents st @ concat (map list_names (keyword_values ''agents'' kws))\<rparr>
          else if func_name = ''GroupChatManager''
          then st\<lparr>ag_name :=
                    (case name_targets targets of [] \<Rightarrow> ag_name st | ts \<Rightarrow> Some (last ts)),
                  ag_linked :=
                    (ag_linked st
                     \<or> list_ex (\<lambda>v. case v of Name i \<Rightarrow> Some i = ag_group_chat_var st | _ \<Rightarrow> False)
                          (keyword_values ''groupchat'' kws))\<rparr>
          else st
      | _ \<Rightarrow> st) | _ \<Rightarrow> st) | _ \<Rightarrow> st)"

text \<open>The dictionary \<^verbatim>\<open>info\<close> that \<^verbatim>\<open>_extract_agents_info\<close> returns.\<close>

record autogen_info =
  ai_name :: "string option"
  ai_agents :: "meta_dict list"
  ai_group_chat :: meta_dict

definition autogen_extract_agents_info :: "ast \<Rightarrow> autogen_info option" where
  "autogen_extract_agents_info tree =
     (let st = fold autogen_step (walk tree)
                 \<lparr>ag_agents = [], ag_group_chat_agents = [], ag_group_chat_var = None,
                  ag_name = None, ag_linked = False\<rparr>;
          agents = concat (map (\<lambda>agent_var. opt_list (map_of (ag_agents st) agent_var))
                             (ag_group_chat_agents st))
      in if agents \<noteq> []
         then Some \<lparr>ai_name = ag_name st, ai_agents = agents,
                    ai_group_chat = (if ag_linked st then [(''linked'', MBool True)] else [])\<rparr>
         else None)"

text \<open>\<^verbatim>\<open>AutoGenDetector.detect\<close>\<close>

definition autogen_detect :: "path \<Rightarrow> source \<Rightarrow> detect_outcome" where
  "autogen_detect fp src =
     (if \<not> list_all (\<lambda>required. contains (content src) required) autogen_required_imports
      then Inr None
      else if check_construction_signature autogen_construction_signatures (content src) = None
      then Inr None
      else (case parsed src of
              SyntaxError \<Rightarrow> Inr None
            | OtherParseError \<Rightarrow> Inl OtherException
            | Parsed tree \<Rightarrow>
                (let result = default_DetectorResult
                       \<lparr>found := True, constructor_file := Some (path_str fp),
                        language := ''Python'', frameworks := [''AutoGen''],
                        architecture := ''MAS''\<rparr>;
                     result =
                       (case autogen_extract_agents_info tree of
                          Some agents_info \<Rightarrow>
                            result\<lparr>agent_name := ai_name agents_info,
                                   metadata :=
                                     AList.update ''group_chat'' (MDict (ai_group_chat agents_info))
                                       (AList.update ''agents'' (MDicts (ai_agents agents_info))
                                          (metadata result))\<rparr>
                        | None \<Rightarrow> result)
                 in if found result then Inr (Some result) else Inr None)))"

section \<open>CrewAI detector\<close>

text \<open>
  \<^verbatim>\<open>from\s+crewai\s+import.*\bAgent\b\<close>, and the same for \<^verbatim>\<open>Task\<close> and \<^verbatim>\<open>Crew\<close>,
  searched without flags; \<^verbatim>\<open>Crew\s*\([^)]*agents\s*=\s*\[\<close>
\<close>

definition crewai_required_pattern :: "string \<Rightarrow> rx" where
  "crewai_required_pattern cls = seqs
     [Lit ''from'', Plus ws, Lit ''crewai'', Plus ws, Lit ''import'', Star dot, WordB, Lit cls,
      WordB]"

definition crewai_required_patterns :: "rx list" where
  "crewai_required_patterns =
     [crewai_required_pattern ''Agent'', crewai_required_pattern ''Task'',
      crewai_required_pattern ''Crew'']"

definition crewai_construction_signatures :: "rx list" where
  "crewai_construction_signatures =
     [seqs [Lit ''Crew'', Star ws, Lit ''('', Star (none_of '')''), Lit ''agents'', Star ws,
            Lit ''='', Star ws, Lit ''['']]"

text \<open>\<^verbatim>\<open>CrewAIDetector._find_tool_definition\<close>\<close>

definition crewai_find_tool_definition :: "set_order \<Rightarrow> string \<Rightarrow> source \<Rightarrow> ToolInfo option" where
  "crewai_find_tool_definition so nm src = decorated_tool so nm src"

text \<open>
  \<^verbatim>\<open>CrewAIDetector._extract_tools_from_node\<close>: one item of the list or tuple. A name
  gives the tool found for it or the bare name; a call of a plain name gives the name of
  the callee; any other item gives nothing.
\<close>

definition crewai_tool_of_item :: "set_order \<Rightarrow> source \<Rightarrow> ast \<Rightarrow> ToolInfo list" where
  "crewai_tool_of_item so src item =
     (case item of
        Name i \<Rightarrow>
          (case (if content src \<noteq> [] then crewai_find_tool_definition so i src else None) of
             Some tool_info \<Rightarrow> [tool_info]
           | None \<Rightarrow> [mk_ToolInfo i []])
      | Call func args kws \<Rightarrow>
          (case func of Name tool_name \<Rightarrow> [mk_ToolInfo tool_name []] | _ \<Rightarrow> [])
      | _ \<Rightarrow> [])"

definition crewai_extract_tools_from_node :: "set_order \<Rightarrow> ast \<Rightarrow> source \<Rightarrow> ToolInfo list" where
  "crewai_extract_tools_from_node so node src =
     (case node of
        List elts \<Rightarrow> concat (map (crewai_tool_of_item so src) elts)
      | Tuple elts \<Rightarrow> concat (map (crewai_tool_of_item so src) elts)
      | _ \<Rightarrow> [])"

text \<open>A constant keyword value is stored under the key \<open>k\<close>.\<close>

definition store_constant :: "string \<Rightarrow> ast \<Rightarrow> meta_dict \<Rightarrow> meta_dict" where
  "store_constant k v details =
     (case v of Constant c \<Rightarrow> AList.update k (MConst c) details | _ \<Rightarrow> details)"

text \<open>A non-empty string keyword value, cut to \<open>n\<close> characters, is stored under \<open>k\<close>.\<close>

definition store_string :: "string \<Rightarrow> (string \<Rightarrow> string) \<Rightarrow> ast \<Rightarrow> meta_dict \<Rightarrow> meta_dict" where
  "store_string k trunc v details =
     (case extract_string_value v of
        Some s \<Rightarrow> if s \<noteq> [] then AList.update k (MStr (trunc s)) details else details
      | None \<Rightarrow> details)"

definition store_tools :: "set_order \<Rightarrow> source \<Rightarrow> ast \<Rightarrow> meta_dict \<Rightarrow> meta_dict" where
  "store_tools so src v details =
     (let tools = crewai_extract_tools_from_node so v src
      in if tools \<noteq> [] then AList.update ''tools'' (MTools tools) details else details)"

text \<open>\<^verbatim>\<open>CrewAIDetector._extract_agent_details\<close>\<close>

definition crewai_agent_detail :: "set_order \<Rightarrow> source \<Rightarrow> ast \<Rightarrow> meta_dict \<Rightarrow> meta_dict" where
  "crewai_agent_detail so src kw details =
     (case kw of
        Keyword (Some a) v \<Rightarrow>
          if a = ''role'' then store_string ''role'' id v details
          else if a = ''goal'' then store_string ''goal'' (take 200) v details
          else if a = ''backstory'' then store_string ''backstory'' (take 200) v details
          else if a = ''tools'' then store_tools so src v details
          else if a = ''allow_delegation'' then store_constant ''allow_delegation'' v details
          else if a = ''verbose'' then store_constant ''verbose'' v details
          else if a = ''max_iter'' then store_constant ''max_iter'' v details
          else details
      | _ \<Rightarrow> details)"

definition crewai_extract_agent_details :: "set_order \<Rightarrow> ast list \<Rightarrow> source \<Rightarrow> meta_dict \<Rightarrow> meta_dict" where
  "crewai_extract_agent_details so kws src details = fold (crewai_agent_detail so src) kws details"

text \<open>\<^verbatim>\<open>CrewAIDetector._extract_task_details\<close>\<close>

definition crewai_task_detail :: "set_order \<Rightarrow> source \<Rightarrow> ast \<Rightarrow> meta_dict \<Rightarrow> meta_dict" where
  "crewai_task_detail so src kw details =
     (case kw of
        Keyword (Some a) v \<Rightarrow>
          if a = ''description'' then store_string ''description'' (take 200) v details
          else if a = ''agent''
          then (case v of Name i \<Rightarrow> AList.update ''assigned_agent'' (MStr i) details
                | _ \<Rightarrow> details)
          else if a = ''expected_output'' then store_string ''expected_output'' (take 200) v details
          else if a = ''tools'' then store_tools so src v details
          else details
      | _ \<Rightarrow> details)"

definition crewai_extract_task_details :: "set_order \<Rightarrow> ast list \<Rightarrow> source \<Rightarrow> meta_dict \<Rightarrow> meta_dict" where
  "crewai_extract_task_details so kws src details = fold (crewai_task_detail so src) kws details"

text \<open>The state of the first pass of \<^verbatim>\<open>_extract_crew_info\<close>.\<close>

record crew_state =
  cr_agents :: "(string \<times> meta_dict) list"
  cr_tasks :: "(string \<times> meta_dict) list"
  cr_crew_agents :: "string list"
  cr_crew_tasks :: "string list"
  cr_name :: "string option"

definition crewai_step :: "set_order \<Rightarrow> source \<Rightarrow> ast \<Rightarrow> crew_state \<Rightarrow> crew_state" where
  "crewai_step so src node st =
     (case node of Assign targets v \<Rightarrow>
     (case v of Call func args kws \<Rightarrow>
     (case func of Name func_name \<Rightarrow>
          if func_name = ''Agent''
          then st\<lparr>cr_agents :=
                    fold (\<lambda>agent_var agents.
                            AList.update agent_var
                              (crewai_extract_agent_details so kws src [(''variable'', MStr agent_var)])
                              agents)
                      (name_targets targets) (cr_agents st)\<rparr>
          else if func_name = ''Task''
          then st\<lparr>cr_tasks :=
                    fold (\<lambda>task_var tasks.
                            AList.update task_var
                              (crewai_extract_task_details so kws src [(''variable'', MStr task_var)])
                              tasks)
                      (name_targets targets) (cr_tasks st)\<rparr>
          else if func_name = ''Crew''
          then fold (\<lambda>kw st.
                       case kw of
                         Keyword (Some a) kv \<Rightarrow>
                           if a = ''agents''
                           then st\<lparr>cr_crew_agents := cr_crew_agents st @ list_names kv\<rparr>
                           else if a = ''tasks''
                           then st\<lparr>cr_crew_tasks := cr_crew_tasks st @ list_names kv\<rparr>
                           else st
                       | _ \<Rightarrow> st)
                 kws
                 (st\<lparr>cr_name := (case name_targets targets of [] \<Rightarrow> cr_name st
                                   | ts \<Rightarrow> Some (last ts))\<rparr>)
          else st
      | _ \<Rightarrow> st) | _ \<Rightarrow> st) | _ \<Rightarrow> st)"

text \<open>The dictionary \<^verbatim>\<open>info\<close> that \<^verbatim>\<open>_extract_crew_info\<close> returns.\<close>

record crew_info =
  ci_name :: "string option"
  ci_agents :: "meta_dict list"
  ci_tasks :: "meta_dict list"
  ci_tools :: "ToolInfo list"

definition tools_of_agent :: "meta_dict \<Rightarrow> ToolInfo list" where
  "tools_of_agent agent_info =
     (case map_of agent_info ''tools'' of Some (MTools ts) \<Rightarrow> ts | _ \<Rightarrow> [])"

definition crewai_extract_crew_info :: "set_order \<Rightarrow> ast \<Rightarrow> source \<Rightarrow> crew_info option" where
  "crewai_extract_crew_info so tree src =
     (let st = fold (crewai_step so src) (walk tree)
                 \<lparr>cr_agents = [], cr_tasks = [], cr_crew_agents = [], cr_crew_tasks = [],
                  cr_name = None\<rparr>;
          agents = concat (map (\<lambda>agent_var. opt_list (map_of (cr_agents st) agent_var))
                             (cr_crew_agents st));
          tasks = concat (map (\<lambda>task_var. opt_list (map_of (cr_tasks st) task_var))
                            (cr_crew_tasks st))
      in if agents \<noteq> []
         then Some \<lparr>ci_name = cr_name st, ci_agents = agents, ci_tasks = tasks,
                    ci_tools = concat (map tools_of_agent agents)\<rparr>
         else None)"

text \<open>\<^verbatim>\<open>CrewAIDetector.detect\<close>\<close>

definition crewai_detect :: "set_order \<Rightarrow> path \<Rightarrow> source \<Rightarrow> detect_outcome" where
  "crewai_detect so fp src =
     (if \<not> list_all (\<lambda>pattern. matches no_flags pattern (content src)) crewai_required_patterns
      then Inr None
      else if check_construction_signature crewai_construction_signatures (content src) = None
      then Inr None
      else (case parsed src of
              SyntaxError \<Rightarrow> Inr None
            | OtherParseError \<Rightarrow> Inl OtherException
            | Parsed tree \<Rightarrow>
                (let result = default_DetectorResult
                       \<lparr>found := True, constructor_file := Some (path_str fp),
                        language := ''Python'', frameworks := [''CrewAI''],
                        architecture := ''MAS''\<rparr>;
                     result =
                       (case crewai_extract_crew_info so tree src of
                          Some crew_info \<Rightarrow>
                            result\<lparr>agent_name := ci_name crew_info,
                                   metadata :=
                                     AList.update ''tasks'' (MDicts (ci_tasks crew_info))
                                       (AList.update ''agents'' (MDicts (ci_agents crew_info))
                                          (metadata result)),
                                   tools := ci_tools crew_info\<rparr>
                        | None \<Rightarrow> result)
                 in if found result then Inr (Some result) else Inr None)))"

section \<open>File system\<close>

text \<open>
  The files the detectors read when they follow an import. A path holds a readable file
  with its source, a directory, or something that exists and cannot be read as text.
\<close>

datatype fs_entry = File source | Directory | Unreadable

type_synonym filesystem = "path \<Rightarrow> fs_entry option"

definition exists :: "filesystem \<Rightarrow> path \<Rightarrow> bool" where
  "exists fs p = (fs p \<noteq> None)"

text \<open>\<^verbatim>\<open>path.parent\<close>, \<^verbatim>\<open>path / part\<close> and \<^verbatim>\<open>path.with_suffix('.py')\<close>.\<close>

definition parent :: "path \<Rightarrow> path" where
  "parent p = butlast p"

definition path_join :: "path \<Rightarrow> string \<Rightarrow> path" where
  "path_join p part = (if part = [] then p else p @ [part])"

text \<open>
  The stem of a file name: the name without its last suffix, where a suffix starts at the
  last dot, unless that dot is the first or the last character.
\<close>

definition stem :: "string \<Rightarrow> string" where
  "stem nm =
     (let after = takeWhile (\<lambda>c. c \<noteq> CHR ''.'') (rev nm);
          i = length nm - length after - 1
      in if length after < length nm \<and> 0 < i \<and> after \<noteq> [] then take i nm else nm)"

definition with_suffix_py :: "path \<Rightarrow> error + path" where
  "with_suffix_py p = (if p = [] then Inl ValueError else Inr (butlast p @ [stem (last p) @ ''.py'']))"

text \<open>The two candidates for a module directory: the \<^verbatim>\<open>.py\<close> file, then \<^verbatim>\<open>__init__.py\<close>.\<close>

definition module_candidate :: "filesystem \<Rightarrow> path \<Rightarrow> error + path option" where
  "module_candidate fs target =
     (case with_suffix_py target of
        Inl e \<Rightarrow> Inl e
      | Inr py \<Rightarrow>
          Inr (if exists fs py then Some py
               else if exists fs (path_join target ''__init__.py'')
               then Some (path_join target ''__init__.py'') else None))"

text \<open>The loop \<^verbatim>\<open>for _ in range(5)\<close> of the absolute branch, with the iterations left.\<close>

fun search_up :: "filesystem \<Rightarrow> string list \<Rightarrow> nat \<Rightarrow> path \<Rightarrow> error + path option" where
  "search_up fs parts 0 search_dir = Inr None"
| "search_up fs parts (Suc n) search_dir =
     (case module_candidate fs (fold (\<lambda>part p. path_join p part) parts search_dir) of
        Inl e \<Rightarrow> Inl e
      | Inr (Some candidate) \<Rightarrow> Inr (Some candidate)
      | Inr None \<Rightarrow>
          (if parent search_dir = parent (parent search_dir) then Inr None
           else search_up fs parts n (parent search_dir)))"

text \<open>\<^verbatim>\<open>LangChainPythonDetector._resolve_python_import\<close>\<close>

definition resolve_python_import :: "filesystem \<Rightarrow> string \<Rightarrow> path \<Rightarrow> error + path option" where
  "resolve_python_import fs module_path current_file =
     (let current_dir = parent current_file
      in if startswith module_path ''.''
         then (let level = length (takeWhile (\<lambda>c. c = CHR ''.'') module_path);
                   module_path' = drop level module_path;
                   target_dir = (parent ^^ (level - 1)) current_dir;
                   target_dir = (if module_path' \<noteq> []
                                 then fold (\<lambda>part p. path_join p part)
                                        (split_char (CHR ''.'') module_path') target_dir
                                 else target_dir)
               in module_candidate fs target_dir)
         else search_up fs (split_char (CHR ''.'') module_path) 5 current_dir)"

section \<open>LangChain detector for Python\<close>

text \<open>
  \<^verbatim>\<open>from\s+langchain\.agents\s+import\s+.*initialize_agent\<close>,
  \<^verbatim>\<open>from\s+langchain\.agents\s+import\s+.*AgentExecutor\<close>,
  \<^verbatim>\<open>from\s+langchain\.agents\s+import\s+[^#\n]*\bAgentType\b\<close>
\<close>

definition langchain_py_presence_signatures :: "rx list" where
  "langchain_py_presence_signatures =
     [seqs [Lit ''from'', Plus ws, Lit ''langchain.agents'', Plus ws, Lit ''import'', Plus ws,
            Star dot, Lit ''initialize_agent''],
      seqs [Lit ''from'', Plus ws, Lit ''langchain.agents'', Plus ws, Lit ''import'', Plus ws,
            Star dot, Lit ''AgentExecutor''],
      seqs [Lit ''from'', Plus ws, Lit ''langchain.agents'', Plus ws, Lit ''import'', Plus ws,
            Star (none_of [CHR ''#'', CHR 0x0A]), WordB, Lit ''AgentType'', WordB]]"

text \<open>
  \<^verbatim>\<open>initialize_agent\s*\([^)]*tools\s*=\<close>, \<^verbatim>\<open>AgentExecutor\s*\([^)]*tools\s*=\<close>,
  \<^verbatim>\<open>AgentExecutor\.from_agent_and_tools\s*\(\<close>
\<close>

definition langchain_py_construction_signatures :: "rx list" where
  "langchain_py_construction_signatures =
     [seqs [Lit ''initialize_agent'', Star ws, Lit ''('', Star (none_of '')''), Lit ''tools'',
            Star ws, Lit ''=''],
      seqs [Lit ''AgentExecutor'', Star ws, Lit ''('', Star (none_of '')''), Lit ''tools'',
            Star ws, Lit ''=''],
      seqs [Lit ''AgentExecutor.from_agent_and_tools'', Star ws, Lit ''('']]"

text \<open>A base class whose name, or whose attribute, has the given word in it.\<close>

definition base_has :: "string \<Rightarrow> ast \<Rightarrow> bool" where
  "base_has w base =
     (case base of Name i \<Rightarrow> contains i w | Attribute v attr \<Rightarrow> contains attr w | _ \<Rightarrow> False)"

text \<open>\<^verbatim>\<open>_extract_pydantic_model_fields\<close>: the default and the required flag of a field.\<close>

definition field_keyword_step :: "ast \<Rightarrow> bool \<times> string option \<Rightarrow> bool \<times> string option" where
  "field_keyword_step kw rd =
     (case kw of
        Keyword (Some a) v \<Rightarrow>
          if a = ''default'' then (False, Some (ast_to_value_string v))
          else if a = ''default_factory'' then (False, Some ''factory'')
          else rd
      | _ \<Rightarrow> rd)"

definition field_default :: "ast option \<Rightarrow> bool \<times> string option" where
  "field_default v =
     (case v of
        None \<Rightarrow> (True, None)
      | Some d \<Rightarrow>
          (case d of
             Call func args kws \<Rightarrow>
               (case func of
                  Name i \<Rightarrow> if i = ''Field'' then fold field_keyword_step kws (True, None)
                            else (False, Some (ast_to_value_string d))
                | _ \<Rightarrow> (False, Some (ast_to_value_string d)))
           | _ \<Rightarrow> (False, Some (ast_to_value_string d))))"

definition pydantic_field :: "ast \<Rightarrow> params \<Rightarrow> params" where
  "pydantic_field item ps =
     (case item of
        AnnAssign target annotation v \<Rightarrow>
          (case target of
             Name field_name \<Rightarrow>
               (let field_type = ast_to_type_string annotation;
                    (required, default) = field_default v;
                    required = (if contains field_type ''Optional'' \<or> contains field_type ''| None''
                                then False else required)
                in AList.update field_name
                     \<lparr>p_type = Some field_type, p_required = Some required, p_description = None,
                      p_default = default\<rparr> ps)
           | _ \<Rightarrow> ps)
      | _ \<Rightarrow> ps)"

definition pydantic_class :: "string \<Rightarrow> ast \<Rightarrow> params \<Rightarrow> params" where
  "pydantic_class model_name node ps =
     (case node of
        ClassDef nm bases kws body decorator_list \<Rightarrow>
          if nm = model_name \<and> list_ex (base_has ''Model'') bases then fold pydantic_field body ps
          else ps
      | _ \<Rightarrow> ps)"

definition extract_pydantic_model_fields :: "string \<Rightarrow> source \<Rightarrow> params" where
  "extract_pydantic_model_fields model_name src =
     (case parsed src of
        Parsed tree \<Rightarrow> fold (pydantic_class model_name) (walk tree) []
      | _ \<Rightarrow> [])"

text \<open>
  \<^verbatim>\<open>_extract_function_info\<close>: the first function definition of that name; an
  exception inside gives \<^verbatim>\<open>None\<close>.
\<close>

definition function_info_node :: "set_order \<Rightarrow> string \<Rightarrow> ast \<Rightarrow> (error + signature) option" where
  "function_info_node so func_name node =
     (case node of
        FunctionDef fname args body decorator_list rets docstring \<Rightarrow>
          if fname = func_name
          then Some (case extract_function_signature node of
                       Inl e \<Rightarrow> Inl e
                     | Inr sg \<Rightarrow> merge_docstring_info so sg docstring)
          else None
      | _ \<Rightarrow> None)"

fun first_some :: "('a \<Rightarrow> 'b option) \<Rightarrow> 'a list \<Rightarrow> 'b option" where
  "first_some f [] = None"
| "first_some f (x # xs) = (case f x of Some y \<Rightarrow> Some y | None \<Rightarrow> first_some f xs)"

definition extract_function_info :: "set_order \<Rightarrow> string \<Rightarrow> source \<Rightarrow> signature option" where
  "extract_function_info so func_name src =
     (case parsed src of
        Parsed tree \<Rightarrow>
          (case first_some (function_info_node so func_name) (walk tree) of
             Some (Inr sg) \<Rightarrow> Some sg
           | _ \<Rightarrow> None)
      | _ \<Rightarrow> None)"

text \<open>\<^verbatim>\<open>_extract_tool_from_class\<close>: the attributes of the class body.\<close>

definition class_attribute :: "ast \<Rightarrow> ToolInfo \<times> string option \<Rightarrow> ToolInfo \<times> string option" where
  "class_attribute item st =
     (case item of
        Assign targets v \<Rightarrow>
          fold (\<lambda>target (tool_info, schema).
                  if target = ''name''
                  then (case extract_string_value v of
                          Some name_val \<Rightarrow>
                            if name_val \<noteq> [] then (tool_info\<lparr>name := name_val\<rparr>, schema)
                            else (tool_info, schema)
                        | None \<Rightarrow> (tool_info, schema))
                  else if target = ''description''
                  then (case extract_string_value v of
                          Some desc_val \<Rightarrow>
                            if desc_val \<noteq> [] then (tool_info\<lparr>description := Some desc_val\<rparr>, schema)
                            else (tool_info, schema)
                        | None \<Rightarrow> (tool_info, schema))
                  else (tool_info, schema))
            (name_targets targets) st
      | AnnAssign target annotation v \<Rightarrow>
          (case target of
             Name i \<Rightarrow>
               if i = ''args_schema''
               then (case v of
                       Some (Name schema_name) \<Rightarrow> (fst st, Some schema_name)
                     | _ \<Rightarrow> st)
               else st
           | _ \<Rightarrow> st)
      | _ \<Rightarrow> st)"

definition tool_class_node :: "string \<Rightarrow> source \<Rightarrow> path \<Rightarrow> ast \<Rightarrow> ToolInfo option" where
  "tool_class_node class_name src fp node =
     (case node of
        ClassDef nm bases kws body decorator_list \<Rightarrow>
          if nm = class_name \<and> list_ex (base_has ''Tool'') bases
          then (let (tool_info, args_schema_name) =
                      fold class_attribute body (mk_ToolInfo [] (path_str fp), None);
                    tool_info =
                      (case args_schema_name of
                         Some schema_name \<Rightarrow>
                           if schema_name \<noteq> []
                           then tool_info\<lparr>parameters := extract_pydantic_model_fields schema_name src\<rparr>
                           else tool_info
                       | None \<Rightarrow> tool_info)
                in if name tool_info \<noteq> [] then Some tool_info else None)
          else None
      | _ \<Rightarrow> None)"

definition extract_tool_from_class :: "string \<Rightarrow> source \<Rightarrow> path \<Rightarrow> ToolInfo option" where
  "extract_tool_from_class class_name src fp =
     (case parsed src of
        Parsed tree \<Rightarrow> first_some (tool_class_node class_name src fp) (walk tree)
      | _ \<Rightarrow> None)"

text \<open>
  \<^verbatim>\<open>_find_tool_class_from_import\<close>: the import statements that import the class, in
  walk order. An error of the path resolution leaves the loop; a file that cannot be
  read, or that has no such tool class, lets the loop go on.
\<close>

definition imported_modules :: "string \<Rightarrow> ast \<Rightarrow> string list" where
  "imported_modules class_name node =
     (case node of
        ImportFrom module names level \<Rightarrow>
          (case module of
             Some m \<Rightarrow>
               if m \<noteq> []
               then concat (map (\<lambda>al. case al of Alias n asname \<Rightarrow>
                                              if n = class_name then [m] else []
                                       | _ \<Rightarrow> []) names)
               else []
           | None \<Rightarrow> [])
      | _ \<Rightarrow> [])"

fun import_loop :: "filesystem \<Rightarrow> string \<Rightarrow> path \<Rightarrow> string list \<Rightarrow> error + ToolInfo option" where
  "import_loop fs class_name fp [] = Inr None"
| "import_loop fs class_name fp (module_path # rest) =
     (case resolve_python_import fs module_path fp of
        Inl e \<Rightarrow> Inl e
      | Inr None \<Rightarrow> import_loop fs class_name fp rest
      | Inr (Some resolved_path) \<Rightarrow>
          (case fs resolved_path of
             Some (File tool_file) \<Rightarrow>
               (case extract_tool_from_class class_name tool_file resolved_path of
                  Some tool_info \<Rightarrow> Inr (Some tool_info)
                | None \<Rightarrow> import_loop fs class_name fp rest)
           | _ \<Rightarrow> import_loop fs class_name fp rest))"

definition find_tool_class_from_import :: "filesystem \<Rightarrow> string \<Rightarrow> source \<Rightarrow> path \<Rightarrow> ToolInfo option" where
  "find_tool_class_from_import fs class_name src fp =
     (case parsed src of
        Parsed tree \<Rightarrow>
          (case import_loop fs class_name fp
                  (concat (map (imported_modules class_name) (walk tree))) of
             Inr r \<Rightarrow> r
           | Inl e \<Rightarrow> None)
      | _ \<Rightarrow> None)"

text \<open>
  \<^verbatim>\<open>_extract_tool_from_call\<close>: the keywords of a \<^verbatim>\<open>Tool\<close> or \<^verbatim>\<open>StructuredTool\<close>
  call. The state is the tool, \<^verbatim>\<open>parameters\<close> and \<^verbatim>\<open>returns\<close>.
\<close>

definition lambda_params :: "ast \<Rightarrow> params \<Rightarrow> params" where
  "lambda_params lambda_args ps =
     (case lambda_args of
        Arguments posonlyargs args vararg kwonlyargs kw_defaults kwarg defaults \<Rightarrow>
          fold (\<lambda>a ps. case a of
                          Arg nm annotation \<Rightarrow>
                            AList.update nm
                              \<lparr>p_type = Some ''Any'', p_required = Some True,
                               p_description = None, p_default = None\<rparr> ps
                        | _ \<Rightarrow> ps) args ps
      | _ \<Rightarrow> ps)"

definition tool_keyword ::
  "set_order \<Rightarrow> string \<Rightarrow> source \<Rightarrow> ast \<Rightarrow> ToolInfo \<times> params \<times> returns_info option
     \<Rightarrow> ToolInfo \<times> params \<times> returns_info option" where
  "tool_keyword so class_name src kw st =
     (case kw of
        Keyword (Some a) v \<Rightarrow>
          (case st of (tool_info, ps, rets) \<Rightarrow>
             if a = ''name''
             then (case extract_string_value v of
                     Some n \<Rightarrow> if n \<noteq> [] then (tool_info\<lparr>name := n\<rparr>, ps, rets) else st
                   | None \<Rightarrow> st)
             else if a = ''description''
             then (case extract_string_value v of
                     Some d \<Rightarrow> if d \<noteq> [] then (tool_info\<lparr>description := Some d\<rparr>, ps, rets) else st
                   | None \<Rightarrow> st)
             else if a = ''args_schema'' \<and> class_name = ''StructuredTool''
             then (case v of
                     Name model_name \<Rightarrow> (tool_info, extract_pydantic_model_fields model_name src, rets)
                   | _ \<Rightarrow> st)
             else if a = ''func''
             then (case v of
                     Lambda lambda_args body \<Rightarrow> (tool_info, lambda_params lambda_args ps, rets)
                   | Name func_name \<Rightarrow>
                       (case extract_function_info so func_name src of
                          Some func_info \<Rightarrow>
                            (tool_info, sig_parameters func_info, Some (sig_returns func_info))
                        | None \<Rightarrow> st)
                   | _ \<Rightarrow> st)
             else st)
      | _ \<Rightarrow> st)"

text \<open>\<^verbatim>\<open>LangChainPythonDetector._extract_tool_from_call\<close>\<close>

definition extract_tool_from_call :: "set_order \<Rightarrow> filesystem \<Rightarrow> ast \<Rightarrow> source \<Rightarrow> path \<Rightarrow> ToolInfo option" where
  "extract_tool_from_call so fs node src fp =
     (case node of
        Call func args kws \<Rightarrow>
          (case func of
             Name class_name \<Rightarrow>
               if class_name = ''Tool'' \<or> class_name = ''StructuredTool''
               then (case fold (tool_keyword so class_name src) kws
                            (mk_ToolInfo ''unknown'' [], [], None) of
                       (tool_info, ps, rets) \<Rightarrow>
                         Some (tool_info\<lparr>parameters := ps, returns := rets\<rparr>))
               else (case extract_tool_from_class class_name src fp of
                       Some tool_info \<Rightarrow> Some tool_info
                     | None \<Rightarrow>
                         (case find_tool_class_from_import fs class_name src fp of
                            Some tool_info \<Rightarrow> Some tool_info
                          | None \<Rightarrow> Some (mk_ToolInfo class_name (path_str fp))))
           | _ \<Rightarrow> None)
      | _ \<Rightarrow> None)"

text \<open>
  \<^verbatim>\<open><name>\s*=\s*(?:Tool|StructuredTool)\s*\(\<close>, and the same followed by
  \<^verbatim>\<open>[^)]*<key>\s*=\s*["\']([^"\']+)["\']\<close> for the keys \<^verbatim>\<open>name\<close> and \<^verbatim>\<open>description\<close>
\<close>

definition tool_construct_pattern :: "string \<Rightarrow> rx" where
  "tool_construct_pattern nm = seqs
     [Lit nm, Star ws, Lit ''='', Star ws, Alt (Lit ''Tool'') (Lit ''StructuredTool''), Star ws,
      Lit ''('']"

definition tool_construct_key_pattern :: "string \<Rightarrow> string \<Rightarrow> rx" where
  "tool_construct_key_pattern nm k = seqs
     [Lit nm, Star ws, Lit ''='', Star ws, Alt (Lit ''Tool'') (Lit ''StructuredTool''), Star ws,
      Lit ''('', Star (none_of '')''), Lit k, Star ws, Lit ''='', Star ws, quote,
      Group 1 (Plus not_quote), quote]"

text \<open>
  \<^verbatim>\<open>LangChainPythonDetector._find_tool_definition\<close>: first the assignments of a call
  to the name, then the decorated function, then the constructor pattern.
\<close>

definition assigned_calls :: "string \<Rightarrow> ast \<Rightarrow> ast list" where
  "assigned_calls nm node =
     (case node of
        Assign targets v \<Rightarrow>
          (case v of
             Call func args kws \<Rightarrow> concat (map (\<lambda>t. if t = nm then [v] else []) (name_targets targets))
           | _ \<Rightarrow> [])
      | _ \<Rightarrow> [])"

definition find_tool_definition :: "set_order \<Rightarrow> filesystem \<Rightarrow> string \<Rightarrow> source \<Rightarrow> path \<Rightarrow> ToolInfo option" where
  "find_tool_definition so fs nm src fp =
     (case (case parsed src of
              Parsed tree \<Rightarrow>
                first_some (\<lambda>call. extract_tool_from_call so fs call src fp)
                  (concat (map (assigned_calls nm) (walk tree)))
            | _ \<Rightarrow> None) of
        Some tool_info \<Rightarrow> Some tool_info
      | None \<Rightarrow>
          (case decorated_tool so nm src of
             Some tool_info \<Rightarrow> Some tool_info
           | None \<Rightarrow>
               if matches no_flags (tool_construct_pattern nm) (content src)
               then Some ((mk_ToolInfo
                             (case re_search no_flags (tool_construct_key_pattern nm ''name'')
                                     (content src) of
                                Some name_match \<Rightarrow> group_str name_match 1
                              | None \<Rightarrow> nm) [])
                           \<lparr>description :=
                              (case re_search no_flags (tool_construct_key_pattern nm ''description'')
                                      (content src) of
                                 Some desc_match \<Rightarrow> Some (group_str desc_match 1)
                               | None \<Rightarrow> None)\<rparr>)
               else None))"

text \<open>
  \<^verbatim>\<open>LangChainPythonDetector._extract_tools_from_node\<close>: an item that is a name is looked
  up, an item that is a call is read; an item for which neither gives a tool is left out.
\<close>

definition tool_of_item :: "set_order \<Rightarrow> filesystem \<Rightarrow> source \<Rightarrow> path \<Rightarrow> ast \<Rightarrow> ToolInfo list" where
  "tool_of_item so fs src fp item =
     (case item of
        Name i \<Rightarrow> opt_list (find_tool_definition so fs i src fp)
      | Call func args kws \<Rightarrow> opt_list (extract_tool_from_call so fs item src fp)
      | _ \<Rightarrow> [])"

definition assigned_lists :: "string \<Rightarrow> ast \<Rightarrow> ast list" where
  "assigned_lists nm node =
     (case node of
        Assign targets v \<Rightarrow>
          concat (map (\<lambda>t. if t = nm
                           then (case v of List elts \<Rightarrow> elts | Tuple elts \<Rightarrow> elts | _ \<Rightarrow> [])
                           else []) (name_targets targets))
      | _ \<Rightarrow> [])"

definition extract_tools_from_node :: "set_order \<Rightarrow> filesystem \<Rightarrow> ast \<Rightarrow> source \<Rightarrow> path \<Rightarrow> ToolInfo list" where
  "extract_tools_from_node so fs node src fp =
     (case node of
        Name tools_var_name \<Rightarrow>
          (case parsed src of
             Parsed tree \<Rightarrow>
               concat (map (tool_of_item so fs src fp)
                         (concat (map (assigned_lists tools_var_name) (walk tree))))
           | _ \<Rightarrow> [])
      | List elts \<Rightarrow> concat (map (tool_of_item so fs src fp) elts)
      | Tuple elts \<Rightarrow> concat (map (tool_of_item so fs src fp) elts)
      | _ \<Rightarrow> [])"

text \<open>The dictionary \<^verbatim>\<open>info\<close> of \<^verbatim>\<open>_extract_agent_info\<close>; its \<^verbatim>\<open>metadata\<close> stays empty.\<close>

record agent_info =
  info_name :: "string option"
  info_tools :: "ToolInfo list"
  info_architecture :: string

definition agent_keyword :: "set_order \<Rightarrow> filesystem \<Rightarrow> string \<Rightarrow> source \<Rightarrow> path \<Rightarrow> ast \<Rightarrow> agent_info \<Rightarrow> agent_info" where
  "agent_keyword so fs func_name src fp kw info =
     (case kw of
        Keyword (Some a) v \<Rightarrow>
          if a = ''tools'' then info\<lparr>info_tools := extract_tools_from_node so fs v src fp\<rparr>
          else if a = ''agent'' \<and> func_name = ''initialize_agent''
          then (case v of
                  Attribute v' attr \<Rightarrow>
                    if attr = ''ZERO_SHOT_REACT_DESCRIPTION'' then info\<lparr>info_architecture := ''ReAct''\<rparr>
                    else info
                | _ \<Rightarrow> info)
          else if a = ''agent_name''
          then (case extract_string_value v of
                  Some n \<Rightarrow> if n \<noteq> [] then info\<lparr>info_name := Some n\<rparr> else info
                | None \<Rightarrow> info)
          else info
      | _ \<Rightarrow> info)"

text \<open>
  The assignment that names the agent: the first one, in walk order, whose value is a call
  of the plain name \<open>func_name\<close>. The other test of the code, \<^verbatim>\<open>n.value == node\<close>,
  compares a node of a fresh parse with the node of the caller's tree by identity and is
  never true. The result is the targets of that assignment.
\<close>

definition naming_assignment :: "string \<Rightarrow> ast \<Rightarrow> ast list option" where
  "naming_assignment func_name node =
     (case node of
        Assign targets v \<Rightarrow>
          (case v of
             Call func args kws \<Rightarrow>
               (case func of Name i \<Rightarrow> if i = func_name then Some targets else None | _ \<Rightarrow> None)
           | _ \<Rightarrow> None)
      | _ \<Rightarrow> None)"

text \<open>\<^verbatim>\<open>LangChainPythonDetector._extract_agent_info\<close>\<close>

definition agent_constructors :: "string list" where
  "agent_constructors = [''initialize_agent'', ''AgentExecutor'', ''from_agent_and_tools'']"

definition extract_agent_info :: "set_order \<Rightarrow> filesystem \<Rightarrow> ast \<Rightarrow> source \<Rightarrow> path \<Rightarrow> agent_info option" where
  "extract_agent_info so fs node src fp =
     (case node of
        Call func args kws \<Rightarrow>
          (case (case func of Name i \<Rightarrow> Some i | Attribute v attr \<Rightarrow> Some attr | _ \<Rightarrow> None) of
             None \<Rightarrow> None
           | Some func_name \<Rightarrow>
               if func_name \<notin> set agent_constructors then None
               else
                 (let info = fold (agent_keyword so fs func_name src fp) kws
                               \<lparr>info_name = None, info_tools = [], info_architecture = ''Other''\<rparr>;
                      info =
                        (case parsed src of
                           Parsed tree \<Rightarrow>
                             (case first_some (naming_assignment func_name) (walk tree) of
                                Some targets \<Rightarrow>
                                  (case name_targets targets of
                                     [] \<Rightarrow> info
                                   | t # ts \<Rightarrow> info\<lparr>info_name := Some t\<rparr>)
                              | None \<Rightarrow> info)
                         | _ \<Rightarrow> info)
                  in if info_tools info \<noteq> [] then Some info else None))
      | _ \<Rightarrow> None)"

text \<open>\<^verbatim>\<open>_has_sql_tools\<close> and \<^verbatim>\<open>_has_retrieval_tools\<close>\<close>

definition py_sql_indicators :: "string list" where
  "py_sql_indicators =
     [''SQLDatabaseToolkit'', ''sql_toolkit'', ''QuerySQLDataBaseTool'', ''InfoSQLDatabaseTool'',
      ''ListSQLDatabaseTool'']"

definition tool_mentions :: "string list \<Rightarrow> ToolInfo \<Rightarrow> bool" where
  "tool_mentions terms tool =
     (list_ex (\<lambda>term. contains (lower (name tool)) term) terms
      \<or> (case description tool of
            None \<Rightarrow> False
          | Some d \<Rightarrow> d \<noteq> [] \<and> list_ex (\<lambda>term. contains (lower d) term) terms))"

definition py_has_sql_tools :: "ToolInfo list \<Rightarrow> string \<Rightarrow> bool" where
  "py_has_sql_tools ts c =
     (list_ex (\<lambda>indicator. contains c indicator) py_sql_indicators
      \<or> list_ex (tool_mentions [''sql'']) ts)"

definition py_retrieval_indicators :: "string list" where
  "py_retrieval_indicators =
     [''VectorStoreRetriever'', ''vectorstore'', ''retriever'', ''RetrievalQA'',
      ''ConversationalRetrievalChain'', ''FAISS'', ''Chroma'', ''Pinecone'', ''Weaviate'']"

definition retrieval_terms :: "string list" where
  "retrieval_terms = [''retriev'', ''search'', ''vector'', ''embed'']"

definition py_has_retrieval_tools :: "ToolInfo list \<Rightarrow> string \<Rightarrow> bool" where
  "py_has_retrieval_tools ts c =
     (list_ex (\<lambda>indicator. contains c indicator) py_retrieval_indicators
      \<or> list_ex (tool_mentions retrieval_terms) ts)"

text \<open>\<^verbatim>\<open>_detect_provider_frameworks\<close>: \<^verbatim>\<open>from\s+<provider>\s+import\<close> for each provider.\<close>

definition py_providers :: "string list" where
  "py_providers =
     [''langchain_openai'', ''langchain_anthropic'', ''langchain_google_genai'',
      ''langchain_community'', ''langchain_experimental'']"

definition py_detect_provider_frameworks :: "string \<Rightarrow> string list" where
  "py_detect_provider_frameworks c =
     filter (\<lambda>provider. matches no_flags
                           (seqs [Lit ''from'', Plus ws, Lit provider, Plus ws, Lit ''import'']) c)
       py_providers"

text \<open>\<^verbatim>\<open>LangChainPythonDetector.detect\<close>\<close>

definition langchain_py_detect :: "set_order \<Rightarrow> filesystem \<Rightarrow> path \<Rightarrow> source \<Rightarrow> detect_outcome" where
  "langchain_py_detect so fs fp src =
     (if \<not> check_presence_signature langchain_py_presence_signatures (content src) then Inr None
      else if check_construction_signature langchain_py_construction_signatures (content src) = None
      then Inr None
      else (case parsed src of
              SyntaxError \<Rightarrow> Inr None
            | OtherParseError \<Rightarrow> Inl OtherException
            | Parsed tree \<Rightarrow>
                (let result = default_DetectorResult
                       \<lparr>found := True, constructor_file := Some (path_str fp),
                        language := ''Python'', frameworks := [''LangChain'']\<rparr>;
                     result =
                       (case first_some (\<lambda>node. extract_agent_info so fs node src fp) (walk tree) of
                          Some info \<Rightarrow>
                            result\<lparr>agent_name := info_name info,
                                   tools := info_tools info,
                                   architecture := info_architecture info,
                                   agent_type :=
                                     (if py_has_sql_tools (info_tools info) (content src)
                                      then ''SQL Agent''
                                      else if py_has_retrieval_tools (info_tools info) (content src)
                                      then ''Retrieval Agent''
                                      else agent_type result),
                                   frameworks :=
                                     frameworks result @ py_detect_provider_frameworks (content src)\<rparr>
                        | None \<Rightarrow> result)
                 in if found result then Inr (Some result) else Inr None)))"

section \<open>LangChain detector for TypeScript\<close>

text \<open>Pieces the patterns share: \<^verbatim>\<open>(?:const|let|var)\s+\<close> and \<^verbatim>\<open>import\s*\{[^}]*<word>[^}]*\}\<close>.\<close>

definition decl :: rx where
  "decl = Seq (alts [Lit ''const'', Lit ''let'', Lit ''var'']) (Plus ws)"

definition import_braces :: "rx \<Rightarrow> rx" where
  "import_braces w = seqs
     [Lit ''import'', Star ws, Lit ''{'', Star (none_of ''}''), w, Star (none_of ''}''), Lit ''}'']"

text \<open>\<^verbatim>\<open>\s*from\s*["\']<module>["\']\<close>\<close>

definition from_module :: "rx \<Rightarrow> rx" where
  "from_module m = seqs [Star ws, Lit ''from'', Star ws, quote, m, quote]"

text \<open>
  The presence signatures:
  \<^verbatim>\<open>import\s*\{[^}]*AgentExecutor[^}]*\}\s*from\s*["\']langchain/agents["\']\<close>,
  \<^verbatim>\<open>import\s*\{[^}]*AgentExecutor[^}]*\}\s*from\s*["\']@langchain/[^"\']+["\']\<close>,
  \<^verbatim>\<open>import\s*\{[^}]*createReactAgent[^}]*\}\s*from\s*["\']@langchain/langgraph/prebuilt["\']\<close>,
  \<^verbatim>\<open>from\s+["\']@langchain/langgraph/prebuilt["\']\<close>
\<close>

definition langchain_ts_presence_signatures :: "rx list" where
  "langchain_ts_presence_signatures =
     [Seq (import_braces (Lit ''AgentExecutor'')) (from_module (Lit ''langchain/agents'')),
      Seq (import_braces (Lit ''AgentExecutor''))
          (from_module (Seq (Lit ''@langchain/'') (Plus not_quote))),
      Seq (import_braces (Lit ''createReactAgent''))
          (from_module (Lit ''@langchain/langgraph/prebuilt'')),
      seqs [Lit ''from'', Plus ws, quote, Lit ''@langchain/langgraph/prebuilt'', quote]]"

text \<open>
  The construction signatures:
  \<^verbatim>\<open>new\s+AgentExecutor\s*\(\s*\{[^}]*tools\s*:\s*\[\<close>,
  \<^verbatim>\<open>new\s+AgentExecutor\s*\(\s*\{[^}]*tools\s*:\s*\w+\<close>,
  \<^verbatim>\<open>AgentExecutor\.fromAgentAndTools\s*\(\<close>,
  \<^verbatim>\<open>createReactAgent\s*\(\s*\{[^}]*tools\s*:\s*\[\<close>,
  \<^verbatim>\<open>createReactAgent\s*\(\s*\{[^}]*tools\s*:\s*\w+\<close>,
  \<^verbatim>\<open>(?:export\s+)?(?:async\s+)?function\s+create\w*Agent\s*\(\<close>
\<close>

definition tools_key :: "rx \<Rightarrow> rx" where
  "tools_key after = seqs
     [Star ws, Lit ''('', Star ws, Lit ''{'', Star (none_of ''}''), Lit ''tools'', Star ws,
      Lit '':'', Star ws, after]"

definition factory_function :: "rx \<Rightarrow> rx" where
  "factory_function nm = seqs
     [Opt (Seq (Lit ''export'') (Plus ws)), Opt (Seq (Lit ''async'') (Plus ws)), Lit ''function'',
      Plus ws, nm, Star ws, Lit ''('']"

definition create_agent_name :: rx where
  "create_agent_name = seqs [Lit ''create'', Star wd, Lit ''Agent'']"

definition langchain_ts_construction_signatures :: "rx list" where
  "langchain_ts_construction_signatures =
     [seqs [Lit ''new'', Plus ws, Lit ''AgentExecutor'', tools_key (Lit ''['')],
      seqs [Lit ''new'', Plus ws, Lit ''AgentExecutor'', tools_key (Plus wd)],
      seqs [Lit ''AgentExecutor.fromAgentAndTools'', Star ws, Lit ''(''],
      seqs [Lit ''createReactAgent'', tools_key (Lit ''['')],
      seqs [Lit ''createReactAgent'', tools_key (Plus wd)],
      factory_function create_agent_name]"

text \<open>
  \<^verbatim>\<open>_has_tool_imports\<close>:
  \<^verbatim>\<open>import\s*\{[^}]*tool[^}]*\}\s*from\s*["\']@langchain/core/tools["\']\<close>,
  \<^verbatim>\<open>import\s*\{[^}]*DynamicStructuredTool[^}]*\}\s*from\<close>,
  \<^verbatim>\<open>import\s*\{[^}]*Tool[^}]*\}\s*from\s*["\']langchain/tools["\']\<close>,
  \<^verbatim>\<open>import\s*\{[^}]*StructuredToolInterface[^}]*\}\s*from\s*["\']@langchain/core/tools["\']\<close>,
  \<^verbatim>\<open>import\s*\{[^}]*create\w+Tool[^}]*\}\s*from\<close>, \<^verbatim>\<open>tools\s*:\s*\[\<close>
\<close>

definition create_tool_name :: rx where
  "create_tool_name = seqs [Lit ''create'', Plus wd, Lit ''Tool'']"

definition tool_import_patterns :: "rx list" where
  "tool_import_patterns =
     [Seq (import_braces (Lit ''tool'')) (from_module (Lit ''@langchain/core/tools'')),
      seqs [import_braces (Lit ''DynamicStructuredTool''), Star ws, Lit ''from''],
      Seq (import_braces (Lit ''Tool'')) (from_module (Lit ''langchain/tools'')),
      Seq (import_braces (Lit ''StructuredToolInterface''))
          (from_module (Lit ''@langchain/core/tools'')),
      seqs [import_braces create_tool_name, Star ws, Lit ''from''],
      seqs [Lit ''tools'', Star ws, Lit '':'', Star ws, Lit ''['']]"

definition has_tool_imports :: "string \<Rightarrow> bool" where
  "has_tool_imports c = list_ex (\<lambda>pattern. matches no_flags pattern c) tool_import_patterns"

text \<open>
  \<^verbatim>\<open><key>\s*:\s*["\']([^"\']+)["\']\<close> for the keys \<^verbatim>\<open>name\<close> and \<^verbatim>\<open>description\<close>,
  \<^verbatim>\<open>description\s*:\s*`([^`]+)`\<close>, and
  \<^verbatim>\<open>schema\s*:\s*z\.object\s*\(\s*\{([^}]+)\}\<close>, with \<^verbatim>\<open>\s*\)\<close> after it where
  \<open>closed\<close>.
\<close>

definition quoted_key :: "string \<Rightarrow> rx" where
  "quoted_key k = seqs [Lit k, Star ws, Lit '':'', Star ws, quote, Group 1 (Plus not_quote), quote]"

definition template_description :: rx where
  "template_description = seqs
     [Lit ''description'', Star ws, Lit '':'', Star ws, Lit ''`'', Group 1 (Plus (none_of ''`'')),
      Lit ''`'']"

definition z_object :: rx where
  "z_object = seqs
     [Lit ''z.object'', Star ws, Lit ''('', Star ws, Lit ''{'', Group 1 (Plus (none_of ''}'')),
      Lit ''}'']"

definition schema_pattern :: "bool \<Rightarrow> rx" where
  "schema_pattern closed = seqs
     [Lit ''schema'', Star ws, Lit '':'', Star ws, z_object,
      (if closed then Seq (Star ws) (Lit '')'') else Eps)]"

text \<open>The first group of a search, when the pattern is found.\<close>

definition search_group1 :: "flags \<Rightarrow> rx \<Rightarrow> string \<Rightarrow> string option" where
  "search_group1 fl r s = (case re_search fl r s of None \<Rightarrow> None | Some m \<Rightarrow> Some (group_str m 1))"

text \<open>The name and the description a tool configuration gives, set on the tool.\<close>

definition set_name_description :: "string \<Rightarrow> ToolInfo \<Rightarrow> ToolInfo" where
  "set_name_description body tool_info =
     (let tool_info = (case search_group1 no_flags (quoted_key ''name'') body of
                         Some n \<Rightarrow> tool_info\<lparr>name := n\<rparr> | None \<Rightarrow> tool_info)
      in (case search_group1 no_flags (quoted_key ''description'') body of
            Some d \<Rightarrow> tool_info\<lparr>description := Some d\<rparr> | None \<Rightarrow> tool_info))"

text \<open>\<^verbatim>\<open>LangChainTypeScriptDetector._find_tool_definition\<close>\<close>

definition ts_find_tool_definition :: "SchemaExtractorFactory \<Rightarrow> string \<Rightarrow> string \<Rightarrow> ToolInfo option" where
  "ts_find_tool_definition schema_factory nm c =
     (case re_search no_flags (seqs [decl, Lit nm, Star ws, Lit ''='', Star ws, Lit ''tool'', Star ws,
                                      Lit ''('']) c of
        Some m \<Rightarrow>
          (let chunk = take 2000 (drop (m_start m) c);
               tool_info = set_name_description chunk (mk_ToolInfo nm [])
           in Some (case search_group1 DOTALL (schema_pattern True) chunk of
                      Some schema_body \<Rightarrow>
                        tool_info\<lparr>parameters := extract_schema_params schema_factory c schema_body\<rparr>
                    | None \<Rightarrow> tool_info))
      | None \<Rightarrow>
          (case search_group1 DOTALL
                  (seqs [decl, Lit nm, Star ws, Lit ''='', Star ws, Lit ''new'', Plus ws,
                         Lit ''DynamicStructuredTool'', Star ws, Lit ''('', Star ws, Lit ''{'',
                         Group 1 (Plus (none_of ''}'')), Lit ''}'']) c of
             Some tool_body \<Rightarrow>
               (let tool_info = set_name_description tool_body (mk_ToolInfo nm [])
                in Some (case search_group1 DOTALL (schema_pattern False) tool_body of
                           Some schema_body \<Rightarrow>
                             tool_info\<lparr>parameters :=
                                          extract_schema_params schema_factory c schema_body\<rparr>
                         | None \<Rightarrow> tool_info))
           | None \<Rightarrow> None))"

text \<open>
  \<^verbatim>\<open>_resolve_import_path\<close>. The import path is joined to the directory of the file and
  resolved: \<^verbatim>\<open>.\<close> and empty components are dropped, \<^verbatim>\<open>..\<close> goes to the parent (the
  model has no symbolic links). The extensions are tried in order.
\<close>

definition resolve_relative :: "path \<Rightarrow> string \<Rightarrow> path" where
  "resolve_relative dir import_path =
     fold (\<lambda>part p. if part = [] \<or> part = ''.'' then p
                     else if part = ''..'' then butlast p else p @ [part])
       (split_char (CHR ''/'') import_path) dir"

definition add_ext :: "path \<Rightarrow> string \<Rightarrow> path" where
  "add_ext p ext = (if p = [] then [ext] else butlast p @ [last p @ ext])"

definition is_file :: "filesystem \<Rightarrow> path \<Rightarrow> bool" where
  "is_file fs p = (case fs p of Some (File s) \<Rightarrow> True | Some Unreadable \<Rightarrow> True | _ \<Rightarrow> False)"

definition resolve_import_path :: "filesystem \<Rightarrow> string \<Rightarrow> path \<Rightarrow> path option" where
  "resolve_import_path fs import_path current_file =
     (if startswith import_path ''.''
      then (let resolved = resolve_relative (parent current_file) import_path
            in (case filter (exists fs) (map (add_ext resolved) [''.ts'', ''.tsx'', ''.js'', ''.jsx'']) of
                  p # ps \<Rightarrow> Some p
                | [] \<Rightarrow>
                    if exists fs resolved \<and> is_file fs resolved then Some resolved
                    else if exists fs (resolved @ [''index.ts'']) then Some (resolved @ [''index.ts''])
                    else None))
      else None)"

text \<open>\<^verbatim>\<open>_parse_tool_from_file\<close>\<close>

definition parse_tool_from_file :: "SchemaExtractorFactory \<Rightarrow> string \<Rightarrow> string \<Rightarrow> path \<Rightarrow> ToolInfo option" where
  "parse_tool_from_file schema_factory factory_name c fp =
     (let tool_info = mk_ToolInfo [] (path_str fp);
          tool_info = (case search_group1 no_flags (quoted_key ''name'') c of
                         Some n \<Rightarrow> tool_info\<lparr>name := n\<rparr> | None \<Rightarrow> tool_info);
          tool_info =
            (case search_group1 DOTALL template_description c of
               Some d \<Rightarrow> tool_info\<lparr>description := Some (strip d)\<rparr>
             | None \<Rightarrow>
                 (case search_group1 no_flags (quoted_key ''description'') c of
                    Some d \<Rightarrow> tool_info\<lparr>description := Some (strip d)\<rparr>
                  | None \<Rightarrow> tool_info));
          tool_info =
            (case search_group1 DOTALL (schema_pattern True) c of
               Some schema_body \<Rightarrow>
                 tool_info\<lparr>parameters := extract_schema_params schema_factory c schema_body\<rparr>
             | None \<Rightarrow>
                 (case search_group1 no_flags
                         (seqs [Lit ''schema'', Star ws, Lit '':'', Star ws, Group 1 (Plus wd)]) c of
                    Some schema_var_name \<Rightarrow>
                      (case search_group1 DOTALL
                              (seqs [decl, Lit schema_var_name, Star ws, Lit ''='', Star ws, z_object,
                                     Star ws, Lit '')'']) c of
                         Some schema_body \<Rightarrow>
                           tool_info\<lparr>parameters :=
                                        extract_schema_params schema_factory c schema_body\<rparr>
                       | None \<Rightarrow> tool_info)
                  | None \<Rightarrow> tool_info))
      in if name tool_info \<noteq> [] then Some tool_info else None)"

text \<open>\<^verbatim>\<open>_load_tool_from_import\<close>\<close>

definition load_tool_from_import ::
  "filesystem \<Rightarrow> SchemaExtractorFactory \<Rightarrow> string \<Rightarrow> string \<Rightarrow> path \<Rightarrow> ToolInfo option" where
  "load_tool_from_import fs schema_factory factory_name import_path current_file =
     (case resolve_import_path fs import_path current_file of
        None \<Rightarrow> None
      | Some resolved_path \<Rightarrow>
          (case fs resolved_path of
             Some (File tool_file) \<Rightarrow>
               parse_tool_from_file schema_factory factory_name (content tool_file) resolved_path
           | _ \<Rightarrow> None))"

text \<open>\<^verbatim>\<open>import\s*\{[^}]*<factory>[^}]*\}\s*from\s*["\']([^"\']+)["\']\<close>\<close>

definition factory_import_pattern :: "string \<Rightarrow> rx" where
  "factory_import_pattern factory_name =
     Seq (import_braces (Lit factory_name)) (from_module (Group 1 (Plus not_quote)))"

text \<open>\<^verbatim>\<open>_find_tool_from_import\<close>\<close>

definition find_tool_from_import ::
  "filesystem \<Rightarrow> SchemaExtractorFactory \<Rightarrow> string \<Rightarrow> string \<Rightarrow> path \<Rightarrow> ToolInfo option" where
  "find_tool_from_import fs schema_factory tool_var_name c fp =
     (case search_group1 no_flags
             (seqs [decl, Lit tool_var_name, Star ws, Lit ''='', Star ws, Group 1 create_tool_name,
                    Star ws, Lit ''('']) c of
        None \<Rightarrow> None
      | Some factory_name \<Rightarrow>
          (case search_group1 no_flags (factory_import_pattern factory_name) c of
             None \<Rightarrow> None
           | Some import_path \<Rightarrow> load_tool_from_import fs schema_factory factory_name import_path fp))"

text \<open>
  \<^verbatim>\<open>LangChainTypeScriptDetector._extract_tools\<close>: every non-blank item of the array
  gives one tool: the one defined in the file, else the one its import leads to, else the
  bare name.
\<close>

definition ts_tool_of_name :: "filesystem \<Rightarrow> SchemaExtractorFactory \<Rightarrow> string \<Rightarrow> path \<Rightarrow> string \<Rightarrow> ToolInfo" where
  "ts_tool_of_name fs schema_factory c fp tool_name =
     (case ts_find_tool_definition schema_factory tool_name c of
        Some tool_info \<Rightarrow> tool_info
      | None \<Rightarrow>
          (case find_tool_from_import fs schema_factory tool_name c fp of
             Some tool_info \<Rightarrow> tool_info
           | None \<Rightarrow> mk_ToolInfo tool_name []))"

definition ts_tool_names :: "string \<Rightarrow> string list" where
  "ts_tool_names tools_array = filter (\<lambda>t. t \<noteq> []) (map strip (split_char (CHR '','') tools_array))"

definition ts_extract_tools :: "filesystem \<Rightarrow> SchemaExtractorFactory \<Rightarrow> string \<Rightarrow> string \<Rightarrow> path \<Rightarrow> ToolInfo list" where
  "ts_extract_tools fs schema_factory tools_array c fp =
     map (ts_tool_of_name fs schema_factory c fp) (ts_tool_names tools_array)"

text \<open>\<^verbatim>\<open>_extract_tools_from_constructor\<close>\<close>

definition extract_tools_from_constructor ::
  "filesystem \<Rightarrow> SchemaExtractorFactory \<Rightarrow> string \<Rightarrow> string \<Rightarrow> path \<Rightarrow> ToolInfo list" where
  "extract_tools_from_constructor fs schema_factory constructor_body c fp =
     (case search_group1 DOTALL
             (seqs [Lit ''tools'', Star ws, Lit '':'', Star ws, Lit ''['',
                    Group 1 (Star (none_of '']'')), Lit '']'']) constructor_body of
        Some tools_content \<Rightarrow> ts_extract_tools fs schema_factory tools_content c fp
      | None \<Rightarrow>
          (case search_group1 no_flags
                  (seqs [Lit ''tools'', Star ws, Lit '':'', Star ws, Group 1 (Plus wd)])
                  constructor_body of
             Some tools_var_name \<Rightarrow>
               (case search_group1 DOTALL
                       (seqs [decl, Lit tools_var_name, Star ws, Lit ''='', Star ws, Lit ''['',
                              Group 1 (Star (none_of '']'')), Lit '']'']) c of
                  Some tools_content \<Rightarrow> ts_extract_tools fs schema_factory tools_content c fp
                | None \<Rightarrow> [])
           | None \<Rightarrow> []))"

text \<open>\<^verbatim>\<open>_extract_tool_from_factory_impl\<close>\<close>

definition extract_tool_from_factory_impl :: "SchemaExtractorFactory \<Rightarrow> string \<Rightarrow> string \<Rightarrow> ToolInfo" where
  "extract_tool_from_factory_impl schema_factory factory_name c =
     (let tool_info = mk_ToolInfo factory_name []
      in (case search_group1 DOTALL
                 (seqs [Lit ''export'', Plus ws, Lit ''function'', Plus ws, Lit factory_name, Star ws,
                        Lit ''('', Star (none_of '')''), Lit '')'', Star (none_of ''{''), Lit ''{'',
                        Group 1 (Upto 5000 dot), Lit ''}'']) c of
            None \<Rightarrow> tool_info
          | Some factory_body \<Rightarrow>
              if contains factory_body ''tool(''
              then (let tool_info = set_name_description factory_body tool_info
                    in (case search_group1 DOTALL (schema_pattern False) factory_body of
                          Some schema_body \<Rightarrow>
                            tool_info\<lparr>parameters :=
                                         extract_zod_schema_params schema_factory schema_body\<rparr>
                        | None \<Rightarrow> tool_info))
              else if contains factory_body ''DynamicStructuredTool''
              then set_name_description factory_body tool_info
              else tool_info))"

text \<open>\<^verbatim>\<open>_find_tool_factory_definition\<close>\<close>

definition find_tool_factory_definition ::
  "filesystem \<Rightarrow> SchemaExtractorFactory \<Rightarrow> string \<Rightarrow> string \<Rightarrow> path \<Rightarrow> ToolInfo" where
  "find_tool_factory_definition fs schema_factory factory_name c fp =
     (case (case search_group1 no_flags (factory_import_pattern factory_name) c of
              Some import_path \<Rightarrow> load_tool_from_import fs schema_factory factory_name import_path fp
            | None \<Rightarrow> None) of
        Some tool_info \<Rightarrow> tool_info
      | None \<Rightarrow>
          if matches no_flags
               (seqs [Lit ''export'', Plus ws, Lit ''function'', Plus ws, Lit factory_name, Star ws,
                      Lit ''('', Star (none_of '')''), Lit '')'', Star ws, Lit '':'', Star ws,
                      Plus wd, Star ws, Lit ''{'']) c
          then extract_tool_from_factory_impl schema_factory factory_name c
          else mk_ToolInfo factory_name [])"

text \<open>\<^verbatim>\<open>_extract_tools_from_factory\<close>\<close>

definition extract_tools_from_factory :: "filesystem \<Rightarrow> SchemaExtractorFactory \<Rightarrow> string \<Rightarrow> path \<Rightarrow> ToolInfo list" where
  "extract_tools_from_factory fs schema_factory c fp =
     (case search_group1 DOTALL
             (seqs [Lit ''createReactAgent'', Star ws, Lit ''('', Star ws, Lit ''{'',
                    Star (none_of ''}''), Lit ''tools'', Star ws, Lit '':'', Star ws, Lit ''['',
                    Group 1 (Plus (none_of '']'')), Lit '']'']) c of
        Some tools_content \<Rightarrow> ts_extract_tools fs schema_factory tools_content c fp
      | None \<Rightarrow> [])
     @ map (\<lambda>m. (find_tool_factory_definition fs schema_factory (group_str m 2) c fp)
                   \<lparr>name := group_str m 1\<rparr>)
         (re_finditer no_flags
            (seqs [decl, Group 1 (Plus wd), Star ws, Lit ''='', Star ws, Group 2 create_tool_name,
                   Star ws, Lit ''('']) c)"

text \<open>
  \<^verbatim>\<open>LangChainTypeScriptDetector._extract_agent_info\<close>: the name of the agent and its
  tools, for the first of the three patterns that is found.
\<close>

definition agent_assignment :: "rx \<Rightarrow> rx" where
  "agent_assignment constructor = seqs
     [decl, Group 1 (Plus wd), Star ws, Lit ''='', Star ws, constructor, Star ws, Lit ''('',
      Star ws, Lit ''{'', Group 2 (Plus (none_of ''}'')), Lit ''}'']"

definition ts_extract_agent_info ::
  "filesystem \<Rightarrow> SchemaExtractorFactory \<Rightarrow> string \<Rightarrow> path \<Rightarrow> (string \<times> ToolInfo list) option" where
  "ts_extract_agent_info fs schema_factory c fp =
     (let found =
            (case re_search DOTALL
                    (agent_assignment (seqs [Lit ''new'', Plus ws, Lit ''AgentExecutor''])) c of
               Some m \<Rightarrow>
                 Some (group_str m 1,
                       extract_tools_from_constructor fs schema_factory (group_str m 2) c fp)
             | None \<Rightarrow>
                 (case re_search DOTALL (agent_assignment (Lit ''createReactAgent'')) c of
                    Some m \<Rightarrow>
                      Some (group_str m 1,
                            extract_tools_from_constructor fs schema_factory (group_str m 2) c fp)
                  | None \<Rightarrow>
                      (case re_search no_flags (factory_function (Group 1 create_agent_name)) c of
                         Some m \<Rightarrow>
                           Some (group_str m 1, extract_tools_from_factory fs schema_factory c fp)
                       | None \<Rightarrow> None)))
      in (case found of
            Some (nm, ts) \<Rightarrow> if ts \<noteq> [] then Some (nm, ts) else None
          | None \<Rightarrow> None))"

text \<open>\<^verbatim>\<open>_has_sql_tools\<close> and \<^verbatim>\<open>_has_retrieval_tools\<close> of the TypeScript detector.\<close>

definition ts_sql_indicators :: "string list" where
  "ts_sql_indicators =
     [''SqlToolkit'', ''SqlDatabase'', ''QuerySqlTool'', ''InfoSqlDatabaseTool'',
      ''ListSqlDatabaseTool'', ''sql-toolkit'']"

definition ts_has_sql_tools :: "ToolInfo list \<Rightarrow> string \<Rightarrow> bool" where
  "ts_has_sql_tools ts c =
     (list_ex (\<lambda>indicator. contains c indicator \<or> contains (lower c) (lower indicator))
        ts_sql_indicators
      \<or> list_ex (tool_mentions [''sql'']) ts)"

definition ts_retrieval_indicators :: "string list" where
  "ts_retrieval_indicators =
     [''VectorStoreRetriever'', ''vectorStore'', ''retriever'', ''RetrievalQA'',
      ''ConversationalRetrievalChain'', ''FAISS'', ''Chroma'', ''Pinecone'', ''Weaviate'',
      ''MemoryVectorStore'']"

definition ts_has_retrieval_tools :: "ToolInfo list \<Rightarrow> string \<Rightarrow> bool" where
  "ts_has_retrieval_tools ts c =
     (list_ex (\<lambda>indicator. contains c indicator) ts_retrieval_indicators
      \<or> list_ex (tool_mentions retrieval_terms) ts)"

text \<open>
  \<^verbatim>\<open>_detect_provider_frameworks\<close>: \<^verbatim>\<open>from\s*["\']<provider>["\']\<close>, and for the last two
  providers \<^verbatim>\<open>from\s*["\']<provider>[^"\']*["\']\<close>.
\<close>

definition ts_provider_patterns :: "(string \<times> rx) list" where
  "ts_provider_patterns =
     map (\<lambda>p. (p, seqs [Lit ''from'', Star ws, quote, Lit p, quote]))
       [''@langchain/openai'', ''@langchain/anthropic'', ''@langchain/google-genai'',
        ''@langchain/community'', ''@langchain/experimental'']
     @ map (\<lambda>p. (p, seqs [Lit ''from'', Star ws, quote, Lit p, Star not_quote, quote]))
         [''@langchain/langgraph'', ''@langchain/core'']"

definition ts_detect_provider_frameworks :: "string \<Rightarrow> string list" where
  "ts_detect_provider_frameworks c =
     map fst (filter (\<lambda>(provider, pattern). matches no_flags pattern c) ts_provider_patterns)"

text \<open>\<^verbatim>\<open>LangChainTypeScriptDetector.detect\<close>; a TypeScript file is not parsed.\<close>

definition langchain_ts_detect ::
  "filesystem \<Rightarrow> SchemaExtractorFactory \<Rightarrow> path \<Rightarrow> string \<Rightarrow> detect_outcome" where
  "langchain_ts_detect fs schema_factory fp c =
     (if \<not> check_presence_signature langchain_ts_presence_signatures c then Inr None
      else if \<not> has_tool_imports c then Inr None
      else if check_construction_signature langchain_ts_construction_signatures c = None
      then Inr None
      else
        (let result = default_DetectorResult
               \<lparr>found := True, constructor_file := Some (path_str fp),
                language := ''TypeScript'', frameworks := [''LangChain'']\<rparr>;
             result =
               (case ts_extract_agent_info fs schema_factory c fp of
                  Some (nm, ts) \<Rightarrow>
                    result\<lparr>agent_name := Some nm,
                           tools := ts,
                           agent_type :=
                             (if ts_has_sql_tools ts c then ''SQL Agent''
                              else if ts_has_retrieval_tools ts c then ''Retrieval Agent''
                              else agent_type result),
                           frameworks := frameworks result @ ts_detect_provider_frameworks c\<rparr>
                | None \<Rightarrow> result)
         in if found result then Inr (Some result) else Inr None))"

section \<open>Scanner: the detectors and the conversion of a detection result\<close>

text \<open>
  \<^verbatim>\<open>Scanner._process_file\<close>: the detectors are tried in order; the first result that
  is found is returned, and a detector that raises is skipped.
\<close>

fun process_file :: "(path \<Rightarrow> source \<Rightarrow> detect_outcome) list \<Rightarrow> path \<Rightarrow> source \<Rightarrow> DetectorResult option" where
  "process_file [] fp src = None"
| "process_file (detector # rest) fp src =
     (if content src = [] then None
      else (case detector fp src of
              Inr (Some result) \<Rightarrow> if found result then Some result else process_file rest fp src
            | _ \<Rightarrow> process_file rest fp src))"

text \<open>The output models \<^verbatim>\<open>ToolParameter\<close>, \<^verbatim>\<open>ToolReturns\<close>, \<^verbatim>\<open>ToolDetail\<close> of \<^verbatim>\<open>models.py\<close>.\<close>

record ToolParameter =
  tp_type :: string
  tp_required :: bool
  tp_description :: "string option"

record ToolReturns =
  tr_type :: string
  tr_description :: "string option"

record ToolDetail =
  tool_name :: string
  td_description :: string
  td_parameters :: "(string \<times> ToolParameter) list"
  td_returns :: "ToolReturns option"

text \<open>
  \<^verbatim>\<open>Scanner._create_agent_from_result\<close>, the loop over \<^verbatim>\<open>result.tools\<close>:
  \<^verbatim>\<open>
  params = {}
  if tool.parameters:
      for param_name, param_info in tool.parameters.items():
          if param_name.startswith('*'):
              continue
          param = ToolParameter(type=param_info.get('type', 'Any'),
                                required=param_info.get('required', False),
                                description=param_info.get('description'))
          params[param_name] = param
  \<close>
\<close>

definition to_ToolParameter :: "param_info \<Rightarrow> ToolParameter" where
  "to_ToolParameter pi =
     \<lparr>tp_type = (case p_type pi of None \<Rightarrow> ''Any'' | Some t \<Rightarrow> t),
      tp_required = (case p_required pi of None \<Rightarrow> False | Some b \<Rightarrow> b),
      tp_description = p_description pi\<rparr>"

fun convert_params_loop ::
  "params \<Rightarrow> (string \<times> ToolParameter) list \<Rightarrow> (string \<times> ToolParameter) list" where
  "convert_params_loop [] acc = acc"
| "convert_params_loop ((param_name, pi) # rest) acc =
     (if startswith param_name ''*'' then convert_params_loop rest acc
      else convert_params_loop rest (AList.update param_name (to_ToolParameter pi) acc))"

definition convert_params :: "params \<Rightarrow> (string \<times> ToolParameter) list" where
  "convert_params ps = (if ps = [] then [] else convert_params_loop ps [])"

text \<open>
  \<^verbatim>\<open>if tool.returns:\<close> is false for \<^verbatim>\<open>None\<close> and for the empty dictionary, which is the
  record with no key.
\<close>

definition convert_returns :: "returns_info option \<Rightarrow> ToolReturns option" where
  "convert_returns r =
     (case r of None \<Rightarrow> None
      | Some d \<Rightarrow>
          if r_type d = None \<and> r_description d = None then None
          else Some \<lparr>tr_type = (case r_type d of None \<Rightarrow> ''Any'' | Some t \<Rightarrow> t),
                     tr_description = r_description d\<rparr>)"

text \<open>\<^verbatim>\<open>tool.description or "unknown"\<close>: \<^verbatim>\<open>None\<close> and the empty string are both falsy.\<close>

definition convert_tool :: "ToolInfo \<Rightarrow> ToolDetail" where
  "convert_tool tool =
     \<lparr>tool_name = name tool,
      td_description = (case description tool of None \<Rightarrow> ''unknown''
                        | Some d \<Rightarrow> if d = [] then ''unknown'' else d),
      td_parameters = convert_params (parameters tool),
      td_returns = convert_returns (returns tool)\<rparr>"

text \<open>The \<^verbatim>\<open>tool_details\<close> of a detection result.\<close>

definition tool_details :: "DetectorResult \<Rightarrow> ToolDetail list" where
  "tool_details result = map convert_tool (tools result)"

section \<open>Example inputs\<close>

text \<open>
  The tool of \<^verbatim>\<open>def search(query: str, *args, limit=10, **kwargs) -> str\<close>, as the
  signature extraction records it.
\<close>

definition search_def :: ast where
  "search_def =
     FunctionDef ''search''
       (Arguments [] [Arg ''query'' (Some (Name ''str''))] (Some (Arg ''args'' None))
          [Arg ''limit'' None] [Some (Constant (CNonStr ''10''))] (Some (Arg ''kwargs'' None)) [])
       [] [Name ''tool''] (Some (Name ''str'')) None"

definition search_tool :: ToolInfo where
  "search_tool =
     (mk_ToolInfo ''search'' [])
       \<lparr>parameters :=
          [(''query'', \<lparr>p_type = Some ''str'', p_required = Some True, p_description = None,
                       p_default = None\<rparr>),
           (''*args'', \<lparr>p_type = Some ''Any'', p_required = Some False,
                       p_description = Some ''Variable positional arguments'', p_default = None\<rparr>),
           (''limit'', \<lparr>p_type = Some ''Any'', p_required = Some False, p_description = None,
                       p_default = Some ''10''\<rparr>),
           (''**kwargs'', \<lparr>p_type = Some ''Any'', p_required = Some False,
                          p_description = Some ''Variable keyword arguments'', p_default = None\<rparr>)],
        returns := Some \<lparr>r_type = Some ''str'', r_description = None\<rparr>\<rparr>"


text \<open>
  The signature of \<^verbatim>\<open>def search(limit: int)\<close> and a docstring that documents
  \<^verbatim>\<open>limit\<close> with another type and a default.
\<close>

definition limit_signature :: signature where
  "limit_signature =
     \<lparr>sig_parameters =
        [(''limit'', \<lparr>p_type = Some ''int'', p_required = Some True, p_description = None,
                     p_default = None\<rparr>)],
      sig_returns = \<lparr>r_type = Some ''Any'', r_description = None\<rparr>,
      sig_description = None\<rparr>"

definition limit_docstring :: string where
  "limit_docstring =
     ''Search the index.\<newline>\<newline>Args:\<newline>    limit (str): Maximum number of results. Defaults to 10.''"



text \<open>
  An extractor registered at run time: \<^verbatim>\<open>JoiSchemaExtractor\<close> of
  \<^verbatim>\<open>examples/custom_schema_extractor_example.py\<close>. Its indicators are
  \<^verbatim>\<open>import\s+Joi\s+from\s+["\']joi["\']\<close>, \<^verbatim>\<open>require\s*\(\s*["\']joi["\']\s*\)\<close>,
  \<^verbatim>\<open>Joi\.object\s*\(\<close>, \<^verbatim>\<open>Joi\.string\s*\(\<close>; its field pattern is
  \<^verbatim>\<open>(\w+)\s*:\s*Joi\.(\w+)\s*\(\)([^,\n}]*?)(?=,|\n|$|\})\<close>, its description pattern
  \<^verbatim>\<open>\.description\s*\(\s*["\']([^"\']+)["\']\<close>.
\<close>

definition joi_indicators :: "rx list" where
  "joi_indicators =
     [seqs [Lit ''import'', Plus ws, Lit ''Joi'', Plus ws, Lit ''from'', Plus ws, quote, Lit ''joi'',
            quote],
      seqs [Lit ''require'', Star ws, Lit ''('', Star ws, quote, Lit ''joi'', quote, Star ws,
            Lit '')''],
      seqs [Lit ''Joi.object'', Star ws, Lit ''(''],
      seqs [Lit ''Joi.string'', Star ws, Lit ''('']]"

definition joi_param_info :: "re_match_obj \<Rightarrow> param_info" where
  "joi_param_info m =
     (let field_type = group_str m 2;
          field_modifiers = strip (group_str m 3)
      in \<lparr>p_type = Some (get_or_key
                          [(''string'', ''str''), (''number'', ''number''), (''boolean'', ''bool''),
                           (''object'', ''object''), (''array'', ''array''), (''date'', ''date''),
                           (''any'', ''any'')] field_type),
          p_required = Some (contains field_modifiers ''.required()''),
          p_description =
            (case re_search no_flags
                    (seqs [Lit ''.description'', Star ws, Lit ''('', Star ws, quote,
                           Group 1 (Plus not_quote), quote]) field_modifiers of
               Some desc_match \<Rightarrow> Some (group_str desc_match 1) | None \<Rightarrow> None),
          p_default = None\<rparr>)"

definition JoiSchemaExtractor :: schema_extractor where
  "JoiSchemaExtractor =
     \<lparr>can_extract = (\<lambda>c. list_ex (\<lambda>pattern. matches no_flags pattern c) joi_indicators),
      extract_params =
        (\<lambda>c schema_body.
           Inr (fold (\<lambda>m parameters. AList.update (group_str m 1) (joi_param_info m) parameters)
                  (re_finditer DOTALL
                     (seqs [Group 1 (Plus wd), Star ws, Lit '':'', Star ws, Lit ''Joi.'',
                            Group 2 (Plus wd), Star ws, Lit ''()'',
                            Group 3 (LStar (none_of [CHR '','', CHR 0x0A, CHR ''}''])),
                            Look (alts [Lit '','', Lit ''\<newline>'', Eol, Lit ''}''])])
                     schema_body) [])),
      get_library_name = ''Joi''\<rparr>"

text \<open>Three TypeScript files: one that uses Joi and Zod, one that uses Zod, one with no schema.\<close>

definition joi_and_zod_file :: string where
  "joi_and_zod_file =
     ''import Joi from \"joi\"\<newline>import { z } from \"zod\"\<newline>const s = Joi.object({ name: Joi.string() })\<newline>''"

definition zod_file :: string where
  "zod_file = ''import { z } from \"zod\"\<newline>const s = z.object({ name: z.string() })\<newline>''"

definition plain_file :: string where
  "plain_file = ''const limit = 10;\<newline>export default limit;\<newline>''"





text \<open>
  Three Python files that pass the presence and construction checks of their detector
  and have an unclosed parenthesis, so that \<^verbatim>\<open>ast.parse\<close> raises \<^verbatim>\<open>SyntaxError\<close>.
\<close>

definition broken_langchain_file :: source where
  "broken_langchain_file =
     \<lparr>content = ''from langchain.agents import initialize_agent\<newline>agent = initialize_agent(tools=[search], llm=llm\<newline>'',
      parsed = SyntaxError\<rparr>"

definition broken_autogen_file :: source where
  "broken_autogen_file =
     \<lparr>content = ''from autogen import AssistantAgent, UserProxyAgent, GroupChat, GroupChatManager\<newline>manager = GroupChatManager(groupchat=chat\<newline>'',
      parsed = SyntaxError\<rparr>"

definition broken_crewai_file :: source where
  "broken_crewai_file =
     \<lparr>content = ''from crewai import Agent, Task, Crew\<newline>crew = Crew(agents=[researcher], tasks=[task]\<newline>'',
      parsed = SyntaxError\<rparr>"

text \<open>
  Four Python files with a coordinator and no sub-agent bound to it. In the first two
  the list of agents is empty. In the third the list is given through a variable, and in
  the fourth its only element is a name that no \<^verbatim>\<open>Agent(...)\<close> assignment defines.
\<close>

definition autogen_imports :: ast where
  "autogen_imports =
     ImportFrom (Some ''autogen'')
       [Alias ''AssistantAgent'' None, Alias ''UserProxyAgent'' None, Alias ''GroupChat'' None,
        Alias ''GroupChatManager'' None] 0"

definition crewai_imports :: ast where
  "crewai_imports =
     ImportFrom (Some ''crewai'') [Alias ''Agent'' None, Alias ''Task'' None, Alias ''Crew'' None] 0"

definition empty_group_chat_file :: source where
  "empty_group_chat_file =
     \<lparr>content = ''from autogen import AssistantAgent, UserProxyAgent, GroupChat, GroupChatManager\<newline>chat = GroupChat(agents=[], messages=[])\<newline>manager = GroupChatManager(groupchat=chat)\<newline>'',
      parsed = Parsed (Module
        [autogen_imports,
         Assign [Name ''chat'']
           (Call (Name ''GroupChat'') []
              [Keyword (Some ''agents'') (List []), Keyword (Some ''messages'') (List [])]),
         Assign [Name ''manager'']
           (Call (Name ''GroupChatManager'') [] [Keyword (Some ''groupchat'') (Name ''chat'')])])\<rparr>"

definition empty_crew_file :: source where
  "empty_crew_file =
     \<lparr>content = ''from crewai import Agent, Task, Crew\<newline>crew = Crew(agents=[], tasks=[])\<newline>'',
      parsed = Parsed (Module
        [crewai_imports,
         Assign [Name ''crew'']
           (Call (Name ''Crew'') []
              [Keyword (Some ''agents'') (List []), Keyword (Some ''tasks'') (List [])])])\<rparr>"

definition group_chat_by_variable_file :: source where
  "group_chat_by_variable_file =
     \<lparr>content = ''from autogen import AssistantAgent, UserProxyAgent, GroupChat, GroupChatManager\<newline>coder = AssistantAgent(name=\"coder\")\<newline>all_agents = [coder]\<newline>chat = GroupChat(agents=all_agents, messages=[])\<newline>manager = GroupChatManager(groupchat=chat)\<newline>'',
      parsed = Parsed (Module
        [autogen_imports,
         Assign [Name ''coder'']
           (Call (Name ''AssistantAgent'') [] [Keyword (Some ''name'') (Constant (CStr ''coder''))]),
         Assign [Name ''all_agents''] (List [Name ''coder'']),
         Assign [Name ''chat'']
           (Call (Name ''GroupChat'') []
              [Keyword (Some ''agents'') (Name ''all_agents''),
               Keyword (Some ''messages'') (List [])]),
         Assign [Name ''manager'']
           (Call (Name ''GroupChatManager'') [] [Keyword (Some ''groupchat'') (Name ''chat'')])])\<rparr>"

definition crew_of_undefined_agent_file :: source where
  "crew_of_undefined_agent_file =
     \<lparr>content = ''from crewai import Agent, Task, Crew\<newline>crew = Crew(tasks=[], agents=[writer])\<newline>'',
      parsed = Parsed (Module
        [crewai_imports,
         Assign [Name ''crew'']
           (Call (Name ''Crew'') []
              [Keyword (Some ''tasks'') (List []),
               Keyword (Some ''agents'') (List [Name ''writer''])])])\<rparr>"

text \<open>
  A LangChain file for Python that takes its tools from a toolkit call, so that no tool is
  extracted; its text names \<^verbatim>\<open>SQLDatabaseToolkit\<close> and \<^verbatim>\<open>retriever\<close>.
\<close>

definition toolkit_agent_file :: source where
  "toolkit_agent_file =
     \<lparr>content = ''from langchain.agents import initialize_agent\<newline>from langchain_community.agent_toolkits import SQLDatabaseToolkit\<newline>toolkit = SQLDatabaseToolkit(db=db, llm=llm)\<newline>retriever = store.as_retriever()\<newline>agent = initialize_agent(tools=toolkit.get_tools(), llm=llm)\<newline>'',
      parsed = Parsed (Module
        [ImportFrom (Some ''langchain.agents'') [Alias ''initialize_agent'' None] 0,
         ImportFrom (Some ''langchain_community.agent_toolkits'')
           [Alias ''SQLDatabaseToolkit'' None] 0,
         Assign [Name ''toolkit'']
           (Call (Name ''SQLDatabaseToolkit'') []
              [Keyword (Some ''db'') (Name ''db''), Keyword (Some ''llm'') (Name ''llm'')]),
         Assign [Name ''retriever''] (Call (Attribute (Name ''store'') ''as_retriever'') [] []),
         Assign [Name ''agent'']
           (Call (Name ''initialize_agent'') []
              [Keyword (Some ''tools'') (Call (Attribute (Name ''toolkit'') ''get_tools'') [] []),
               Keyword (Some ''llm'') (Name ''llm'')])])\<rparr>"

text \<open>
  A LangChain file for Python whose one tool has \<^verbatim>\<open>sql\<close> in its name and whose text has
  the word \<^verbatim>\<open>vectorstore\<close>, and a TypeScript file whose one tool has \<^verbatim>\<open>sql\<close> and
  \<^verbatim>\<open>search\<close> in its name.
\<close>

definition sql_and_retrieval_py_file :: source where
  "sql_and_retrieval_py_file =
     \<lparr>content = ''from langchain.agents import initialize_agent\<newline>from langchain.tools import Tool\<newline>sql_tool = Tool(name=\"sql_query\", description=\"Run SQL on the vectorstore index\", func=run)\<newline>agent = initialize_agent(tools=[sql_tool], llm=llm)\<newline>'',
      parsed = Parsed (Module
        [ImportFrom (Some ''langchain.agents'') [Alias ''initialize_agent'' None] 0,
         ImportFrom (Some ''langchain.tools'') [Alias ''Tool'' None] 0,
         Assign [Name ''sql_tool'']
           (Call (Name ''Tool'') []
              [Keyword (Some ''name'') (Constant (CStr ''sql_query'')),
               Keyword (Some ''description'') (Constant (CStr ''Run SQL on the vectorstore index'')),
               Keyword (Some ''func'') (Name ''run'')]),
         Assign [Name ''agent'']
           (Call (Name ''initialize_agent'') []
              [Keyword (Some ''tools'') (List [Name ''sql_tool'']),
               Keyword (Some ''llm'') (Name ''llm'')])])\<rparr>"

definition sql_and_retrieval_ts_file :: string where
  "sql_and_retrieval_ts_file =
     ''import { AgentExecutor } from \"langchain/agents\";\<newline>const ex = new AgentExecutor({ tools: [sqlSearch] });\<newline>''"









text \<open>
  A LangChain file for Python whose agent has two tool references: \<^verbatim>\<open>calc\<close>, a function
  decorated with \<^verbatim>\<open>@tool\<close> in the file, and \<^verbatim>\<open>web_search\<close>, a name imported from another
  module.
\<close>

definition calc_def :: ast where
  "calc_def =
     FunctionDef ''calc''
       (Arguments [] [Arg ''expression'' (Some (Name ''str''))] None [] [] None [])
       [Expr (Constant (CStr ''Evaluate an expression.''))]
       [Name ''tool''] (Some (Name ''str'')) (Some ''Evaluate an expression.'')"

definition two_references_file :: source where
  "two_references_file =
     \<lparr>content = ''from langchain.agents import initialize_agent\<newline>from langchain.tools import tool\<newline>from my_tools import web_search\<newline>\<newline>@tool\<newline>def calc(expression: str) -> str:\<newline>    \"\"\"Evaluate an expression.\"\"\"\<newline>\<newline>agent = initialize_agent(tools=[calc, web_search], llm=llm)\<newline>'',
      parsed = Parsed (Module
        [ImportFrom (Some ''langchain.agents'') [Alias ''initialize_agent'' None] 0,
         ImportFrom (Some ''langchain.tools'') [Alias ''tool'' None] 0,
         ImportFrom (Some ''my_tools'') [Alias ''web_search'' None] 0,
         calc_def,
         Assign [Name ''agent'']
           (Call (Name ''initialize_agent'') []
              [Keyword (Some ''tools'') (List [Name ''calc'', Name ''web_search'']),
               Keyword (Some ''llm'') (Name ''llm'')])])\<rparr>"

definition calc_tool :: ToolInfo where
  "calc_tool =
     \<lparr>name = ''calc'', file_path = [], line_number = 0,
      description = Some ''Evaluate an expression.'',
      parameters = [(''expression'', \<lparr>p_type = Some ''str'', p_required = Some True,
                                      p_description = None, p_default = None\<rparr>)],
      returns = Some \<lparr>r_type = Some ''str'', r_description = None\<rparr>,
      raw_definition = None\<rparr>"

section \<open>Properties\<close>

subsection \<open>Serialised parameters\<close>







lemma search_signature:
  "extract_function_signature search_def =
     Inr \<lparr>sig_parameters = parameters search_tool,
          sig_returns = \<lparr>r_type = Some ''str'', r_description = None\<rparr>,
          sig_description = None\<rparr>"
  by code_simp


subsection \<open>Merging a docstring into a signature\<close>

text \<open>
  The body of the loop for one documented entry and a parameter that has a type: it
  raises nothing, and it writes the four keys as follows.
\<close>

lemma merge_param_typed:
  assumes "p_type pi = Some t"
  shows "merge_param d pi =
           Inr \<lparr>p_type = (if truthy (pd_type d) \<and> t = ''Any'' then pd_type d else Some t),
                p_required = (if pd_default d \<noteq> None then Some False else p_required pi),
                p_description = (if truthy (pd_description d) then pd_description d
                                 else p_description pi),
                p_default = (if pd_default d \<noteq> None then pd_default d else p_default pi)\<rparr>"
  using assms by (cases pi) (auto simp: merge_param_def Let_def split: option.splits)

lemma merge_param_keeps_typed:
  assumes "p_type pi \<noteq> None" and "merge_param d pi = Inr pi'"
  shows "p_type pi' \<noteq> None"
proof -
  from assms(1) obtain t where t: "p_type pi = Some t" by blast
  from merge_param_typed [OF t, of d] assms(2) show ?thesis
    by (auto simp: truthy_def split: option.splits if_splits)
qed

text \<open>
  The loop of \<^verbatim>\<open>merge_docstring_info\<close> over the documented entries, on a signature whose
  parameters all have a type: it ends without an exception, keeps the keys and their
  order, and leaves each parameter as the entries of its name, applied in order, make it.
\<close>

lemma merge_params_fold:
  assumes "\<forall>k p. map_of ps k = Some p \<longrightarrow> p_type p \<noteq> None"
  shows "\<exists>ps'. merge_params ps ds = Inr ps'
           \<and> map fst ps' = map fst ps
           \<and> (\<forall>k pi. map_of ps k = Some pi \<longrightarrow>
                 map_of ps' k =
                   Some (fold (\<lambda>d p. case merge_param d p of Inr p' \<Rightarrow> p' | Inl e \<Rightarrow> p)
                           (filter (\<lambda>d. pd_name d = k) ds) pi))"
  using assms
proof (induction ds arbitrary: ps)
  case Nil
  then show ?case by simp
next
  case (Cons d ds)
  show ?case
  proof (cases "map_of ps (pd_name d)")
    case None
    from Cons.IH [OF Cons.prems] obtain ps' where
      m: "merge_params ps ds = Inr ps'" and keys: "map fst ps' = map fst ps"
      and eff: "\<forall>k pi. map_of ps k = Some pi \<longrightarrow>
                 map_of ps' k =
                   Some (fold (\<lambda>d p. case merge_param d p of Inr p' \<Rightarrow> p' | Inl e \<Rightarrow> p)
                           (filter (\<lambda>d. pd_name d = k) ds) pi)"
      by blast
    have "merge_params ps (d # ds) = Inr ps'" using None m by simp
    moreover have "\<forall>k pi. map_of ps k = Some pi \<longrightarrow>
                 map_of ps' k =
                   Some (fold (\<lambda>d p. case merge_param d p of Inr p' \<Rightarrow> p' | Inl e \<Rightarrow> p)
                           (filter (\<lambda>d. pd_name d = k) (d # ds)) pi)"
      using eff None by auto
    ultimately show ?thesis using keys by blast
  next
    case (Some pi0)
    with Cons.prems obtain t0 where t0: "p_type pi0 = Some t0" by blast
    from merge_param_typed [OF t0, of d] obtain pi1 where mp: "merge_param d pi0 = Inr pi1"
      by blast
    from Some Cons.prems have ty0: "p_type pi0 \<noteq> None" by blast
    let ?ps1 = "AList.update (pd_name d) pi1 ps"
    have wf1: "\<forall>k p. map_of ?ps1 k = Some p \<longrightarrow> p_type p \<noteq> None"
      using Cons.prems merge_param_keeps_typed [OF ty0 mp] by (auto simp: update_conv')
    from Cons.IH [OF wf1] obtain ps' where
      m: "merge_params ?ps1 ds = Inr ps'" and keys: "map fst ps' = map fst ?ps1"
      and eff: "\<forall>k pi. map_of ?ps1 k = Some pi \<longrightarrow>
                 map_of ps' k =
                   Some (fold (\<lambda>d p. case merge_param d p of Inr p' \<Rightarrow> p' | Inl e \<Rightarrow> p)
                           (filter (\<lambda>d. pd_name d = k) ds) pi)"
      by blast
    from Some have "pd_name d \<in> set (map fst ps)"
      by (metis map_of_eq_None_iff option.distinct(1) set_map)
    then have keys1: "map fst ?ps1 = map fst ps" by (simp add: update_keys)
    have res: "merge_params ps (d # ds) = Inr ps'" using Some mp m by simp
    have "\<forall>k pi. map_of ps k = Some pi \<longrightarrow>
                 map_of ps' k =
                   Some (fold (\<lambda>d p. case merge_param d p of Inr p' \<Rightarrow> p' | Inl e \<Rightarrow> p)
                           (filter (\<lambda>d. pd_name d = k) (d # ds)) pi)"
    proof (intro allI impI)
      fix k pi
      assume k: "map_of ps k = Some pi"
      show "map_of ps' k =
              Some (fold (\<lambda>d p. case merge_param d p of Inr p' \<Rightarrow> p' | Inl e \<Rightarrow> p)
                      (filter (\<lambda>d. pd_name d = k) (d # ds)) pi)"
      proof (cases "pd_name d = k")
        case True
        with k Some have "pi = pi0" by simp
        moreover from True have "map_of ?ps1 k = Some pi1" by (simp add: update_conv')
        ultimately show ?thesis using eff True mp by simp
      next
        case False
        then have "map_of ?ps1 k = Some pi" using k by (simp add: update_conv')
        with eff False show ?thesis by simp
      qed
    qed
    with res keys keys1 show ?thesis by simp
  qed
qed

text \<open>
  What the entries of one name, applied in order, make of a parameter: the description is
  the last non-empty documented description, the default the last documented default,
  \<^verbatim>\<open>required\<close> is \<^verbatim>\<open>False\<close> as soon as one entry has a default, and the type is
  rewritten only from \<^verbatim>\<open>"Any"\<close>, to the first documented type that is not \<^verbatim>\<open>"Any"\<close>.
\<close>

lemma merged_description:
  assumes "p_type pi = Some t"
  shows "p_description (fold (\<lambda>d p. case merge_param d p of Inr p' \<Rightarrow> p' | Inl e \<Rightarrow> p) xs pi)
         = (case filter (\<lambda>d. truthy (pd_description d)) xs of
              [] \<Rightarrow> p_description pi
            | e # es \<Rightarrow> pd_description (last (e # es)))"
  using assms
proof (induction xs arbitrary: pi t)
  case Nil
  then show ?case by simp
next
  case (Cons d xs)
  let ?pi1 = "\<lparr>p_type = (if truthy (pd_type d) \<and> t = ''Any'' then pd_type d else Some t),
               p_required = (if pd_default d \<noteq> None then Some False else p_required pi),
               p_description = (if truthy (pd_description d) then pd_description d
                                else p_description pi),
               p_default = (if pd_default d \<noteq> None then pd_default d else p_default pi)\<rparr>"
  have mp: "merge_param d pi = Inr ?pi1" by (rule merge_param_typed [OF Cons.prems])
  have "p_type ?pi1 \<noteq> None" by (auto simp: truthy_def split: option.splits)
  then obtain t1 where t1: "p_type ?pi1 = Some t1" by blast
  from Cons.IH [OF t1] mp show ?case
    by (simp split: list.splits)
qed

lemma merged_default:
  assumes "p_type pi = Some t"
  shows "p_default (fold (\<lambda>d p. case merge_param d p of Inr p' \<Rightarrow> p' | Inl e \<Rightarrow> p) xs pi)
         = (case filter (\<lambda>d. pd_default d \<noteq> None) xs of
              [] \<Rightarrow> p_default pi
            | e # es \<Rightarrow> pd_default (last (e # es)))"
  using assms
proof (induction xs arbitrary: pi t)
  case Nil
  then show ?case by simp
next
  case (Cons d xs)
  let ?pi1 = "\<lparr>p_type = (if truthy (pd_type d) \<and> t = ''Any'' then pd_type d else Some t),
               p_required = (if pd_default d \<noteq> None then Some False else p_required pi),
               p_description = (if truthy (pd_description d) then pd_description d
                                else p_description pi),
               p_default = (if pd_default d \<noteq> None then pd_default d else p_default pi)\<rparr>"
  have mp: "merge_param d pi = Inr ?pi1" by (rule merge_param_typed [OF Cons.prems])
  have "p_type ?pi1 \<noteq> None" by (auto simp: truthy_def split: option.splits)
  then obtain t1 where t1: "p_type ?pi1 = Some t1" by blast
  from Cons.IH [OF t1] mp show ?case
    by (simp split: list.splits)
qed

lemma merged_required:
  assumes "p_type pi = Some t"
  shows "p_required (fold (\<lambda>d p. case merge_param d p of Inr p' \<Rightarrow> p' | Inl e \<Rightarrow> p) xs pi)
         = (if list_ex (\<lambda>d. pd_default d \<noteq> None) xs then Some False else p_required pi)"
  using assms
proof (induction xs arbitrary: pi t)
  case Nil
  then show ?case by simp
next
  case (Cons d xs)
  let ?pi1 = "\<lparr>p_type = (if truthy (pd_type d) \<and> t = ''Any'' then pd_type d else Some t),
               p_required = (if pd_default d \<noteq> None then Some False else p_required pi),
               p_description = (if truthy (pd_description d) then pd_description d
                                else p_description pi),
               p_default = (if pd_default d \<noteq> None then pd_default d else p_default pi)\<rparr>"
  have mp: "merge_param d pi = Inr ?pi1" by (rule merge_param_typed [OF Cons.prems])
  have "p_type ?pi1 \<noteq> None" by (auto simp: truthy_def split: option.splits)
  then obtain t1 where t1: "p_type ?pi1 = Some t1" by blast
  from Cons.IH [OF t1] mp show ?case
    by simp
qed

lemma merged_type:
  assumes "p_type pi = Some t"
  shows "p_type (fold (\<lambda>d p. case merge_param d p of Inr p' \<Rightarrow> p' | Inl e \<Rightarrow> p) xs pi)
         = (if t = ''Any''
            then (case filter (\<lambda>d. truthy (pd_type d) \<and> pd_type d \<noteq> Some ''Any'') xs of
                    [] \<Rightarrow> Some ''Any''
                  | e # es \<Rightarrow> pd_type e)
            else Some t)"
  using assms
proof (induction xs arbitrary: pi t)
  case Nil
  then show ?case by simp
next
  case (Cons d xs)
  let ?pi1 = "\<lparr>p_type = (if truthy (pd_type d) \<and> t = ''Any'' then pd_type d else Some t),
               p_required = (if pd_default d \<noteq> None then Some False else p_required pi),
               p_description = (if truthy (pd_description d) then pd_description d
                                else p_description pi),
               p_default = (if pd_default d \<noteq> None then pd_default d else p_default pi)\<rparr>"
  have mp: "merge_param d pi = Inr ?pi1" by (rule merge_param_typed [OF Cons.prems])
  show ?case
  proof (cases "truthy (pd_type d) \<and> t = ''Any''")
    case True
    then obtain t1 where t1: "pd_type d = Some t1" by (auto simp: truthy_def split: option.splits)
    with True have p1: "p_type ?pi1 = Some t1" by simp
    from Cons.IH [OF p1] mp True t1 show ?thesis
      by (simp split: list.splits)
  next
    case False
    then have p1: "p_type ?pi1 = Some t" by auto
    from Cons.IH [OF p1] mp False show ?thesis
      by (auto split: list.splits)
  qed
qed

lemma merge_returns_total:
  "r_type r \<noteq> None \<Longrightarrow> \<exists>r'. merge_returns r doc_returns = Inr r'"
  by (auto simp: merge_returns_def Let_def split: option.splits)

text \<open>
  \<^verbatim>\<open>merge_docstring_info\<close> on such a signature: whatever the docstring, it returns a
  signature with the same parameter names, each parameter being what the documented
  entries of its name, applied in order, make of it. No docstring and the empty
  docstring document nothing.
\<close>

lemma merge_docstring_info_fold:
  assumes "\<forall>k p. map_of (sig_parameters sg) k = Some p \<longrightarrow> p_type p \<noteq> None"
    and "r_type (sig_returns sg) \<noteq> None"
  shows "\<exists>sg'. merge_docstring_info so sg docstring = Inr sg'
           \<and> map fst (sig_parameters sg') = map fst (sig_parameters sg)
           \<and> (\<forall>k pi. map_of (sig_parameters sg) k = Some pi \<longrightarrow>
                 map_of (sig_parameters sg') k =
                   Some (fold (\<lambda>d p. case merge_param d p of Inr p' \<Rightarrow> p' | Inl e \<Rightarrow> p)
                           (filter (\<lambda>d. pd_name d = k)
                              (case docstring of None \<Rightarrow> []
                               | Some d \<Rightarrow> if d = [] then [] else di_parameters (parse so d)))
                           pi))"
proof -
  let ?all = "case docstring of None \<Rightarrow> []
              | Some d \<Rightarrow> if d = [] then [] else di_parameters (parse so d)"
  from merge_params_fold [OF assms(1), of ?all] obtain ps' where
    m: "merge_params (sig_parameters sg) ?all = Inr ps'"
    and keys: "map fst ps' = map fst (sig_parameters sg)"
    and eff: "\<forall>k pi. map_of (sig_parameters sg) k = Some pi \<longrightarrow>
                 map_of ps' k =
                   Some (fold (\<lambda>d p. case merge_param d p of Inr p' \<Rightarrow> p' | Inl e \<Rightarrow> p)
                           (filter (\<lambda>d. pd_name d = k) ?all) pi)"
    by blast
  have "\<exists>sg'. merge_docstring_info so sg docstring = Inr sg' \<and> sig_parameters sg' = ps'"
  proof (cases docstring)
    case None
    with m show ?thesis by (simp add: merge_docstring_info_def)
  next
    case (Some d)
    show ?thesis
    proof (cases "d = []")
      case True
      with Some m show ?thesis by (simp add: merge_docstring_info_def)
    next
      case False
      from merge_returns_total [OF assms(2)] obtain r' where
        r: "merge_returns (sig_returns sg) (di_returns (parse so d)) = Inr r'" by blast
      with Some False m show ?thesis
        by (simp add: merge_docstring_info_def merge_doc_info_def)
    qed
  qed
  then obtain sg' where
    sg': "merge_docstring_info so sg docstring = Inr sg'" "sig_parameters sg' = ps'"
    by blast
  with keys eff show ?thesis by blast
qed

text \<open>
  Claim C3, amended. In a signature whose parameters and return value all have a type
  (as \<^verbatim>\<open>extract_function_signature\<close> builds them), merging any docstring ends without an
  exception and keeps the parameter names and their order. For a parameter \<open>n\<close> with the
  declared type \<open>t\<close>, and the documented entries of the name \<open>n\<close> in their order:
  \<^item> the type stays \<open>t\<close> when \<open>t\<close> is not \<^verbatim>\<open>"Any"\<close>; from \<^verbatim>\<open>"Any"\<close> it becomes the first
    documented type that is non-empty and not \<^verbatim>\<open>"Any"\<close>, if there is one;
  \<^item> the description becomes the last non-empty documented description, and is unchanged
    when there is none;
  \<^item> the default becomes the last documented default, and is unchanged when there is none;
  \<^item> \<^verbatim>\<open>required\<close> becomes \<^verbatim>\<open>False\<close> when an entry documents a default, and is unchanged
    otherwise.

  So the docstring overwrites \<^verbatim>\<open>default\<close> and \<^verbatim>\<open>required\<close> whatever the declared type.
\<close>

theorem docstring_keeps_declared_type:
  assumes "\<forall>k p. map_of (sig_parameters sg) k = Some p \<longrightarrow> p_type p \<noteq> None"
    and "r_type (sig_returns sg) \<noteq> None"
    and "map_of (sig_parameters sg) n = Some pi"
    and "p_type pi = Some t"
  shows "\<exists>sg' pi'.
           merge_docstring_info so sg docstring = Inr sg'
           \<and> map fst (sig_parameters sg') = map fst (sig_parameters sg)
           \<and> map_of (sig_parameters sg') n = Some pi'
           \<and> (let docs = filter (\<lambda>d. pd_name d = n)
                           (case docstring of None \<Rightarrow> []
                            | Some d \<Rightarrow> if d = [] then [] else di_parameters (parse so d))
              in p_type pi' =
                   (if t = ''Any''
                    then (case filter (\<lambda>d. truthy (pd_type d) \<and> pd_type d \<noteq> Some ''Any'') docs of
                            [] \<Rightarrow> Some ''Any''
                          | e # es \<Rightarrow> pd_type e)
                    else Some t)
               \<and> p_description pi' =
                   (case filter (\<lambda>d. truthy (pd_description d)) docs of
                      [] \<Rightarrow> p_description pi
                    | e # es \<Rightarrow> pd_description (last (e # es)))
               \<and> p_default pi' =
                   (case filter (\<lambda>d. pd_default d \<noteq> None) docs of
                      [] \<Rightarrow> p_default pi
                    | e # es \<Rightarrow> pd_default (last (e # es)))
               \<and> p_required pi' =
                   (if list_ex (\<lambda>d. pd_default d \<noteq> None) docs then Some False
                    else p_required pi))"
proof -
  let ?all = "case docstring of None \<Rightarrow> []
              | Some d \<Rightarrow> if d = [] then [] else di_parameters (parse so d)"
  let ?docs = "filter (\<lambda>d. pd_name d = n) ?all"
  let ?pi' = "fold (\<lambda>d p. case merge_param d p of Inr p' \<Rightarrow> p' | Inl e \<Rightarrow> p) ?docs pi"
  from merge_docstring_info_fold [OF assms(1,2), of so docstring] obtain sg' where
    sg': "merge_docstring_info so sg docstring = Inr sg'"
    and keys: "map fst (sig_parameters sg') = map fst (sig_parameters sg)"
    and eff: "\<forall>k pi. map_of (sig_parameters sg) k = Some pi \<longrightarrow>
                 map_of (sig_parameters sg') k =
                   Some (fold (\<lambda>d p. case merge_param d p of Inr p' \<Rightarrow> p' | Inl e \<Rightarrow> p)
                           (filter (\<lambda>d. pd_name d = k) ?all) pi)"
    by blast
  from eff assms(3) have a: "map_of (sig_parameters sg') n = Some ?pi'" by blast
  show ?thesis
    using sg' keys a merged_type [OF assms(4), of ?docs]
      merged_description [OF assms(4), of ?docs] merged_default [OF assms(4), of ?docs]
      merged_required [OF assms(4), of ?docs]
    by (intro exI [of _ sg'] exI [of _ ?pi']) (simp add: Let_def)
qed

lemma limit_docstring_documented:
  "di_parameters (parse remdups limit_docstring) =
     [\<lparr>pd_name = ''limit'', pd_type = Some ''str'',
       pd_description = Some ''Maximum number of results. Defaults to 10.'',
       pd_default = Some ''10'', pd_required = False\<rparr>]"
  by code_simp

theorem docstring_keeps_declared_type_witness:
  "list_all (\<lambda>kp. p_type (snd kp) \<noteq> None) (sig_parameters limit_signature)
   \<and> r_type (sig_returns limit_signature) \<noteq> None
   \<and> map_of (sig_parameters limit_signature) ''limit''
       = Some \<lparr>p_type = Some ''int'', p_required = Some True, p_description = None,
               p_default = None\<rparr>
   \<and> (\<exists>sg' pi'. merge_docstring_info remdups limit_signature (Some limit_docstring) = Inr sg'
         \<and> map fst (sig_parameters sg') = [''limit'']
         \<and> map_of (sig_parameters sg') ''limit'' = Some pi'
         \<and> p_type pi' = Some ''int''
         \<and> p_description pi' = Some ''Maximum number of results. Defaults to 10.''
         \<and> p_default pi' = Some ''10''
         \<and> p_required pi' = Some False)"
proof -
  have h1: "\<forall>k p. map_of (sig_parameters limit_signature) k = Some p \<longrightarrow> p_type p \<noteq> None"
    by (auto simp: limit_signature_def split: if_splits)
  have h2: "r_type (sig_returns limit_signature) \<noteq> None"
    by (simp add: limit_signature_def)
  have h3: "map_of (sig_parameters limit_signature) ''limit''
       = Some \<lparr>p_type = Some ''int'', p_required = Some True, p_description = None,
               p_default = None\<rparr>"
    by (simp add: limit_signature_def)
  have h4: "p_type \<lparr>p_type = Some ''int'', p_required = Some True, p_description = None,
               p_default = None\<rparr> = Some ''int''"
    by simp
  have ne: "limit_docstring \<noteq> []" by (simp add: limit_docstring_def)
  have keys: "map fst (sig_parameters limit_signature) = [''limit'']"
    by (simp add: limit_signature_def)
  from docstring_keeps_declared_type [OF h1 h2 h3 h4, of remdups "Some limit_docstring"]
  have "\<exists>sg' pi'. merge_docstring_info remdups limit_signature (Some limit_docstring) = Inr sg'
         \<and> map fst (sig_parameters sg') = [''limit'']
         \<and> map_of (sig_parameters sg') ''limit'' = Some pi'
         \<and> p_type pi' = Some ''int''
         \<and> p_description pi' = Some ''Maximum number of results. Defaults to 10.''
         \<and> p_default pi' = Some ''10''
         \<and> p_required pi' = Some False"
    by (simp add: ne keys limit_docstring_documented Let_def truthy_def)
  moreover have "list_all (\<lambda>kp. p_type (snd kp) \<noteq> None) (sig_parameters limit_signature)"
    by (simp add: limit_signature_def)
  ultimately show ?thesis using h2 h3 by blast
qed

text \<open>
  The claim C3 as it is written fails: here the declared type is \<^verbatim>\<open>int\<close> and the
  docstring still turns \<^verbatim>\<open>required\<close> from \<^verbatim>\<open>True\<close> to \<^verbatim>\<open>False\<close> and sets
  \<^verbatim>\<open>default\<close>; the documented type \<^verbatim>\<open>str\<close> is ignored.
\<close>

theorem docstring_changes_required_and_default:
  "sig_parameters limit_signature =
     [(''limit'', \<lparr>p_type = Some ''int'', p_required = Some True, p_description = None,
                  p_default = None\<rparr>)]
   \<and> merge_docstring_info remdups limit_signature (Some limit_docstring) =
       Inr \<lparr>sig_parameters =
              [(''limit'', \<lparr>p_type = Some ''int'', p_required = Some False,
                           p_description = Some ''Maximum number of results. Defaults to 10.'',
                           p_default = Some ''10''\<rparr>)],
            sig_returns = \<lparr>r_type = Some ''Any'', r_description = None\<rparr>,
            sig_description = Some ''Search the index.''\<rparr>"
  by code_simp

subsection \<open>The default-value wording of a Google-style parameter line\<close>










subsection \<open>The registry of schema extractors\<close>

lemma get_extractor_Some_iff:
  "get_extractor fac c = Some e \<longleftrightarrow>
     (\<exists>pre post. fac = pre @ e # post \<and> can_extract e c \<and> (\<forall>x \<in> set pre. \<not> can_extract x c))"
proof (induction fac)
  case Nil
  then show ?case by simp
next
  case (Cons a fac)
  show ?case
  proof (cases "can_extract a c")
    case True
    have "(\<exists>pre post. a # fac = pre @ e # post \<and> can_extract e c
             \<and> (\<forall>x \<in> set pre. \<not> can_extract x c)) \<longleftrightarrow> a = e"
    proof
      assume "\<exists>pre post. a # fac = pre @ e # post \<and> can_extract e c
                \<and> (\<forall>x \<in> set pre. \<not> can_extract x c)"
      then obtain pre post where p: "a # fac = pre @ e # post"
        and n: "\<forall>x \<in> set pre. \<not> can_extract x c" by blast
      show "a = e"
      proof (cases pre)
        case Nil
        with p show ?thesis by simp
      next
        case (Cons b pre')
        with p have "a = b" by simp
        with Cons n True show ?thesis by simp
      qed
    next
      assume "a = e"
      with True have "a # fac = [] @ e # fac \<and> can_extract e c
                        \<and> (\<forall>x \<in> set []. \<not> can_extract x c)" by simp
      then show "\<exists>pre post. a # fac = pre @ e # post \<and> can_extract e c
                   \<and> (\<forall>x \<in> set pre. \<not> can_extract x c)" by blast
    qed
    with True show ?thesis by auto
  next
    case False
    have "(\<exists>pre post. a # fac = pre @ e # post \<and> can_extract e c
             \<and> (\<forall>x \<in> set pre. \<not> can_extract x c))
          \<longleftrightarrow> (\<exists>pre post. fac = pre @ e # post \<and> can_extract e c
                 \<and> (\<forall>x \<in> set pre. \<not> can_extract x c))"
    proof
      assume "\<exists>pre post. a # fac = pre @ e # post \<and> can_extract e c
                \<and> (\<forall>x \<in> set pre. \<not> can_extract x c)"
      then obtain pre post where p: "a # fac = pre @ e # post" and ce: "can_extract e c"
        and n: "\<forall>x \<in> set pre. \<not> can_extract x c" by blast
      show "\<exists>pre post. fac = pre @ e # post \<and> can_extract e c
              \<and> (\<forall>x \<in> set pre. \<not> can_extract x c)"
      proof (cases pre)
        case Nil
        with p ce False show ?thesis by simp
      next
        case (Cons b pre')
        with p n ce have "fac = pre' @ e # post \<and> can_extract e c
                            \<and> (\<forall>x \<in> set pre'. \<not> can_extract x c)" by simp
        then show ?thesis by blast
      qed
    next
      assume "\<exists>pre post. fac = pre @ e # post \<and> can_extract e c
                \<and> (\<forall>x \<in> set pre. \<not> can_extract x c)"
      then obtain pre post where "fac = pre @ e # post" "can_extract e c"
        "\<forall>x \<in> set pre. \<not> can_extract x c" by blast
      with False have "a # fac = (a # pre) @ e # post \<and> can_extract e c
                         \<and> (\<forall>x \<in> set (a # pre). \<not> can_extract x c)" by simp
      then show "\<exists>pre post. a # fac = pre @ e # post \<and> can_extract e c
                   \<and> (\<forall>x \<in> set pre. \<not> can_extract x c)" by blast
    qed
    with False Cons.IH show ?thesis by simp
  qed
qed

lemma get_extractor_None:
  "(\<forall>x \<in> set fac. \<not> can_extract x c) \<Longrightarrow> get_extractor fac c = None"
  by (induction fac) simp_all

text \<open>
  C6. The registry returns the first extractor of its list that can extract from the
  content of the file: an extractor \<open>e\<close> is returned exactly when the list is
  \<open>pre @ e # post\<close>, \<open>e\<close> can extract, and nothing in \<open>pre\<close> can. Registration puts the
  new extractor before the three built-in ones, so it is returned whenever it can extract,
  and otherwise the registry answers as before. When no extractor of the list can extract,
  no extractor is returned and the extraction of parameters gives the empty dictionary;
  when the extractor that is returned raises, it gives the empty dictionary as well.
\<close>

theorem registry_returns_first_match:
  "(get_extractor fac c = Some e \<longleftrightarrow>
      (\<exists>pre post. fac = pre @ e # post \<and> can_extract e c \<and> (\<forall>x \<in> set pre. \<not> can_extract x c)))
   \<and> register_extractor new init_factory
       = [new, ZodSchemaExtractor, YupSchemaExtractor, TypeScriptInterfaceExtractor]
   \<and> (can_extract new c \<longrightarrow> get_extractor (register_extractor new fac) c = Some new)
   \<and> (\<not> can_extract new c \<longrightarrow>
        get_extractor (register_extractor new fac) c = get_extractor fac c)
   \<and> ((\<forall>x \<in> set fac. \<not> can_extract x c) \<longrightarrow>
        get_extractor fac c = None \<and> extract_schema_params fac c schema_body = [])
   \<and> (get_extractor fac c = Some e \<and> extract_params e c schema_body = Inl err \<longrightarrow>
        extract_schema_params fac c schema_body = [])"
proof (intro conjI)
  show "get_extractor fac c = Some e \<longleftrightarrow>
      (\<exists>pre post. fac = pre @ e # post \<and> can_extract e c \<and> (\<forall>x \<in> set pre. \<not> can_extract x c))"
    by (rule get_extractor_Some_iff)
  show "register_extractor new init_factory
       = [new, ZodSchemaExtractor, YupSchemaExtractor, TypeScriptInterfaceExtractor]"
    by (simp add: register_extractor_def init_factory_def)
  show "can_extract new c \<longrightarrow> get_extractor (register_extractor new fac) c = Some new"
    by (simp add: register_extractor_def)
  show "\<not> can_extract new c \<longrightarrow>
        get_extractor (register_extractor new fac) c = get_extractor fac c"
    by (simp add: register_extractor_def)
  show "(\<forall>x \<in> set fac. \<not> can_extract x c) \<longrightarrow>
        get_extractor fac c = None \<and> extract_schema_params fac c schema_body = []"
    by (simp add: extract_schema_params_def get_extractor_None)
  show "get_extractor fac c = Some e \<and> extract_params e c schema_body = Inl err \<longrightarrow>
        extract_schema_params fac c schema_body = []"
    by (simp add: extract_schema_params_def)
qed

theorem registry_returns_first_match_witness:
  "can_extract JoiSchemaExtractor joi_and_zod_file
   \<and> can_extract ZodSchemaExtractor joi_and_zod_file
   \<and> get_extractor (register_extractor JoiSchemaExtractor init_factory) joi_and_zod_file
       = Some JoiSchemaExtractor
   \<and> \<not> can_extract JoiSchemaExtractor zod_file
   \<and> get_extractor (register_extractor JoiSchemaExtractor init_factory) zod_file
       = get_extractor init_factory zod_file
   \<and> list_all (\<lambda>x. \<not> can_extract x plain_file)
         (register_extractor JoiSchemaExtractor init_factory)
   \<and> get_extractor (register_extractor JoiSchemaExtractor init_factory) plain_file = None
   \<and> extract_schema_params (register_extractor JoiSchemaExtractor init_factory) plain_file
        ''name: z.string()'' = []"
proof -
  have a: "can_extract JoiSchemaExtractor joi_and_zod_file" by code_simp
  have b: "can_extract ZodSchemaExtractor joi_and_zod_file" by code_simp
  have c: "\<not> can_extract JoiSchemaExtractor zod_file" by code_simp
  have "list_all (\<lambda>x. \<not> can_extract x plain_file)
          [JoiSchemaExtractor, ZodSchemaExtractor, YupSchemaExtractor, TypeScriptInterfaceExtractor]"
    by code_simp
  then have d: "\<forall>x \<in> set (register_extractor JoiSchemaExtractor init_factory).
                  \<not> can_extract x plain_file"
    by (simp add: register_extractor_def init_factory_def)
  note t = registry_returns_first_match
  from a t [of init_factory joi_and_zod_file JoiSchemaExtractor JoiSchemaExtractor]
  have e: "get_extractor (register_extractor JoiSchemaExtractor init_factory) joi_and_zod_file
             = Some JoiSchemaExtractor" by blast
  from c t [of init_factory zod_file JoiSchemaExtractor JoiSchemaExtractor]
  have f: "get_extractor (register_extractor JoiSchemaExtractor init_factory) zod_file
             = get_extractor init_factory zod_file" by blast
  from d t [of "register_extractor JoiSchemaExtractor init_factory" plain_file JoiSchemaExtractor
      JoiSchemaExtractor "''name: z.string()''"]
  have g: "get_extractor (register_extractor JoiSchemaExtractor init_factory) plain_file = None
           \<and> extract_schema_params (register_extractor JoiSchemaExtractor init_factory) plain_file
                ''name: z.string()'' = []" by blast
  from d have d': "list_all (\<lambda>x. \<not> can_extract x plain_file)
         (register_extractor JoiSchemaExtractor init_factory)"
    by (simp add: list_all_iff)
  from a b c d' e f g show ?thesis by blast
qed

subsection \<open>The optional marker of a Zod field\<close>







subsection \<open>A syntax error makes a detector return \<^verbatim>\<open>None\<close>\<close>

text \<open>
  Claim C9. For every Python file that \<^verbatim>\<open>ast.parse\<close> rejects with \<^verbatim>\<open>SyntaxError\<close>, each of
  the three Python detectors (LangChain, AutoGen, CrewAI) returns \<^verbatim>\<open>None\<close> from
  \<^verbatim>\<open>detect\<close> and lets no exception escape, in particular when the content passes the
  presence and construction checks and the parse is reached.
\<close>

theorem syntax_error_returns_none:
  assumes "parsed src = SyntaxError"
  shows "(check_presence_signature langchain_py_presence_signatures (content src)
            \<and> check_construction_signature langchain_py_construction_signatures (content src) \<noteq> None
          \<longrightarrow> langchain_py_detect so fs fp src = Inr None)
       \<and> (list_all (\<lambda>required. contains (content src) required) autogen_required_imports
            \<and> check_construction_signature autogen_construction_signatures (content src) \<noteq> None
          \<longrightarrow> autogen_detect fp src = Inr None)
       \<and> (list_all (\<lambda>pattern. matches no_flags pattern (content src)) crewai_required_patterns
            \<and> check_construction_signature crewai_construction_signatures (content src) \<noteq> None
          \<longrightarrow> crewai_detect so fp src = Inr None)
       \<and> langchain_py_detect so fs fp src = Inr None
       \<and> autogen_detect fp src = Inr None
       \<and> crewai_detect so fp src = Inr None"
  using assms by (simp add: langchain_py_detect_def autogen_detect_def crewai_detect_def)

theorem syntax_error_returns_none_witness:
  "parsed broken_langchain_file = SyntaxError
   \<and> check_presence_signature langchain_py_presence_signatures (content broken_langchain_file)
   \<and> check_construction_signature langchain_py_construction_signatures
        (content broken_langchain_file) \<noteq> None
   \<and> langchain_py_detect remdups Map.empty [''repo'', ''agent.py''] broken_langchain_file = Inr None
   \<and> parsed broken_autogen_file = SyntaxError
   \<and> list_all (\<lambda>required. contains (content broken_autogen_file) required) autogen_required_imports
   \<and> check_construction_signature autogen_construction_signatures
        (content broken_autogen_file) \<noteq> None
   \<and> autogen_detect [''repo'', ''team.py''] broken_autogen_file = Inr None
   \<and> parsed broken_crewai_file = SyntaxError
   \<and> list_all (\<lambda>pattern. matches no_flags pattern (content broken_crewai_file))
        crewai_required_patterns
   \<and> check_construction_signature crewai_construction_signatures
        (content broken_crewai_file) \<noteq> None
   \<and> crewai_detect remdups [''repo'', ''crew.py''] broken_crewai_file = Inr None"
proof -
  have l1: "parsed broken_langchain_file = SyntaxError"
    by (simp add: broken_langchain_file_def)
  have l2: "check_presence_signature langchain_py_presence_signatures
              (content broken_langchain_file)"
    by code_simp
  have l3: "check_construction_signature langchain_py_construction_signatures
              (content broken_langchain_file) \<noteq> None"
    by code_simp
  have a1: "parsed broken_autogen_file = SyntaxError"
    by (simp add: broken_autogen_file_def)
  have a2: "list_all (\<lambda>required. contains (content broken_autogen_file) required)
              autogen_required_imports"
    by code_simp
  have a3: "check_construction_signature autogen_construction_signatures
              (content broken_autogen_file) \<noteq> None"
    by code_simp
  have c1: "parsed broken_crewai_file = SyntaxError"
    by (simp add: broken_crewai_file_def)
  have c2: "list_all (\<lambda>pattern. matches no_flags pattern (content broken_crewai_file))
              crewai_required_patterns"
    by code_simp
  have c3: "check_construction_signature crewai_construction_signatures
              (content broken_crewai_file) \<noteq> None"
    by code_simp
  from syntax_error_returns_none [OF l1, where so = remdups and fs = Map.empty
      and fp = "[''repo'', ''agent.py'']"] l2 l3
  have l: "langchain_py_detect remdups Map.empty [''repo'', ''agent.py''] broken_langchain_file = Inr None"
    by blast
  from syntax_error_returns_none [OF a1, where so = remdups and fs = Map.empty
      and fp = "[''repo'', ''team.py'']"] a2 a3
  have a: "autogen_detect [''repo'', ''team.py''] broken_autogen_file = Inr None"
    by blast
  from syntax_error_returns_none [OF c1, where so = remdups and fs = Map.empty
      and fp = "[''repo'', ''crew.py'']"] c2 c3
  have c: "crewai_detect remdups [''repo'', ''crew.py''] broken_crewai_file = Inr None"
    by blast
  from l1 l2 l3 l a1 a2 a3 a c1 c2 c3 c show ?thesis by blast
qed

subsection \<open>A coordinator with no bound sub-agent\<close>

text \<open>
  Claim C2, amended. For every Python file that parses, the AutoGen and the CrewAI
  detector return \<^verbatim>\<open>None\<close> exactly when the import check or the construction check
  fails. When both checks pass they return a result with \<^verbatim>\<open>found = True\<close> and
  architecture \<^verbatim>\<open>MAS\<close>, whatever the number of sub-agents bound to the coordinator;
  when no sub-agent is bound (the extraction of the agents gives \<^verbatim>\<open>None\<close>) the result is
  the bare record: no agent name, no tools, empty metadata.
\<close>

theorem coordinator_without_agents_still_reported:
  assumes "parsed src = Parsed tree"
  shows "(list_all (\<lambda>required. contains (content src) required) autogen_required_imports
            \<and> check_construction_signature autogen_construction_signatures (content src) \<noteq> None
            \<and> autogen_extract_agents_info tree = None
          \<longrightarrow> autogen_detect fp src =
                Inr (Some (default_DetectorResult
                             \<lparr>found := True, constructor_file := Some (path_str fp),
                              language := ''Python'', frameworks := [''AutoGen''],
                              architecture := ''MAS''\<rparr>)))
       \<and> (list_all (\<lambda>pattern. matches no_flags pattern (content src)) crewai_required_patterns
            \<and> check_construction_signature crewai_construction_signatures (content src) \<noteq> None
            \<and> crewai_extract_crew_info so tree src = None
          \<longrightarrow> crewai_detect so fp src =
                Inr (Some (default_DetectorResult
                             \<lparr>found := True, constructor_file := Some (path_str fp),
                              language := ''Python'', frameworks := [''CrewAI''],
                              architecture := ''MAS''\<rparr>)))
       \<and> (autogen_detect fp src = Inr None \<longleftrightarrow>
            \<not> (list_all (\<lambda>required. contains (content src) required) autogen_required_imports
               \<and> check_construction_signature autogen_construction_signatures (content src) \<noteq> None))
       \<and> (crewai_detect so fp src = Inr None \<longleftrightarrow>
            \<not> (list_all (\<lambda>pattern. matches no_flags pattern (content src)) crewai_required_patterns
               \<and> check_construction_signature crewai_construction_signatures (content src) \<noteq> None))
       \<and> (\<forall>r. autogen_detect fp src = Inr (Some r) \<longrightarrow> found r \<and> architecture r = ''MAS'')
       \<and> (\<forall>r. crewai_detect so fp src = Inr (Some r) \<longrightarrow> found r \<and> architecture r = ''MAS'')"
proof (intro conjI)
  show "list_all (\<lambda>required. contains (content src) required) autogen_required_imports
            \<and> check_construction_signature autogen_construction_signatures (content src) \<noteq> None
            \<and> autogen_extract_agents_info tree = None
          \<longrightarrow> autogen_detect fp src =
                Inr (Some (default_DetectorResult
                             \<lparr>found := True, constructor_file := Some (path_str fp),
                              language := ''Python'', frameworks := [''AutoGen''],
                              architecture := ''MAS''\<rparr>))"
    using assms by (simp add: autogen_detect_def)
  show "list_all (\<lambda>pattern. matches no_flags pattern (content src)) crewai_required_patterns
            \<and> check_construction_signature crewai_construction_signatures (content src) \<noteq> None
            \<and> crewai_extract_crew_info so tree src = None
          \<longrightarrow> crewai_detect so fp src =
                Inr (Some (default_DetectorResult
                             \<lparr>found := True, constructor_file := Some (path_str fp),
                              language := ''Python'', frameworks := [''CrewAI''],
                              architecture := ''MAS''\<rparr>))"
    using assms by (simp add: crewai_detect_def)
  show "autogen_detect fp src = Inr None \<longleftrightarrow>
            \<not> (list_all (\<lambda>required. contains (content src) required) autogen_required_imports
               \<and> check_construction_signature autogen_construction_signatures (content src) \<noteq> None)"
    using assms by (simp add: autogen_detect_def Let_def split: option.splits)
  show "crewai_detect so fp src = Inr None \<longleftrightarrow>
            \<not> (list_all (\<lambda>pattern. matches no_flags pattern (content src)) crewai_required_patterns
               \<and> check_construction_signature crewai_construction_signatures (content src) \<noteq> None)"
    using assms by (simp add: crewai_detect_def Let_def split: option.splits)
  show "\<forall>r. autogen_detect fp src = Inr (Some r) \<longrightarrow> found r \<and> architecture r = ''MAS''"
    using assms
    by (auto simp: autogen_detect_def Let_def split: option.splits if_splits)
  show "\<forall>r. crewai_detect so fp src = Inr (Some r) \<longrightarrow> found r \<and> architecture r = ''MAS''"
    using assms
    by (auto simp: crewai_detect_def Let_def split: option.splits if_splits)
qed

lemma group_chat_by_variable_tree:
  "parsed group_chat_by_variable_file = Parsed (Module
        [autogen_imports,
         Assign [Name ''coder'']
           (Call (Name ''AssistantAgent'') [] [Keyword (Some ''name'') (Constant (CStr ''coder''))]),
         Assign [Name ''all_agents''] (List [Name ''coder'']),
         Assign [Name ''chat'']
           (Call (Name ''GroupChat'') []
              [Keyword (Some ''agents'') (Name ''all_agents''),
               Keyword (Some ''messages'') (List [])]),
         Assign [Name ''manager'']
           (Call (Name ''GroupChatManager'') [] [Keyword (Some ''groupchat'') (Name ''chat'')])])"
  by (simp add: group_chat_by_variable_file_def)

lemma crew_of_undefined_agent_tree:
  "parsed crew_of_undefined_agent_file = Parsed (Module
        [crewai_imports,
         Assign [Name ''crew'']
           (Call (Name ''Crew'') []
              [Keyword (Some ''tasks'') (List []),
               Keyword (Some ''agents'') (List [Name ''writer''])])])"
  by (simp add: crew_of_undefined_agent_file_def)

theorem coordinator_without_agents_still_reported_witness:
  "list_all (\<lambda>required. contains (content group_chat_by_variable_file) required)
     autogen_required_imports
   \<and> check_construction_signature autogen_construction_signatures
        (content group_chat_by_variable_file) \<noteq> None
   \<and> autogen_detect [''repo'', ''team.py''] group_chat_by_variable_file =
        Inr (Some (default_DetectorResult
                     \<lparr>found := True, constructor_file := Some (path_str [''repo'', ''team.py'']),
                      language := ''Python'', frameworks := [''AutoGen''],
                      architecture := ''MAS''\<rparr>))
   \<and> list_all (\<lambda>pattern. matches no_flags pattern (content crew_of_undefined_agent_file))
        crewai_required_patterns
   \<and> check_construction_signature crewai_construction_signatures
        (content crew_of_undefined_agent_file) \<noteq> None
   \<and> crewai_detect remdups [''repo'', ''crew.py''] crew_of_undefined_agent_file =
        Inr (Some (default_DetectorResult
                     \<lparr>found := True, constructor_file := Some (path_str [''repo'', ''crew.py'']),
                      language := ''Python'', frameworks := [''CrewAI''],
                      architecture := ''MAS''\<rparr>))"
proof -
  have a1: "list_all (\<lambda>required. contains (content group_chat_by_variable_file) required)
              autogen_required_imports"
    by code_simp
  have a2: "check_construction_signature autogen_construction_signatures
              (content group_chat_by_variable_file) \<noteq> None"
    by code_simp
  have a3: "autogen_extract_agents_info (Module
        [autogen_imports,
         Assign [Name ''coder'']
           (Call (Name ''AssistantAgent'') [] [Keyword (Some ''name'') (Constant (CStr ''coder''))]),
         Assign [Name ''all_agents''] (List [Name ''coder'']),
         Assign [Name ''chat'']
           (Call (Name ''GroupChat'') []
              [Keyword (Some ''agents'') (Name ''all_agents''),
               Keyword (Some ''messages'') (List [])]),
         Assign [Name ''manager'']
           (Call (Name ''GroupChatManager'') [] [Keyword (Some ''groupchat'') (Name ''chat'')])])
       = None"
    by code_simp
  have c1: "list_all (\<lambda>pattern. matches no_flags pattern (content crew_of_undefined_agent_file))
              crewai_required_patterns"
    by code_simp
  have c2: "check_construction_signature crewai_construction_signatures
              (content crew_of_undefined_agent_file) \<noteq> None"
    by code_simp
  have c3: "crewai_extract_crew_info remdups (Module
        [crewai_imports,
         Assign [Name ''crew'']
           (Call (Name ''Crew'') []
              [Keyword (Some ''tasks'') (List []),
               Keyword (Some ''agents'') (List [Name ''writer''])])])
       crew_of_undefined_agent_file = None"
    by code_simp
  from coordinator_without_agents_still_reported [OF group_chat_by_variable_tree,
      where fp = "[''repo'', ''team.py'']" and so = remdups] a1 a2 a3
  have a: "autogen_detect [''repo'', ''team.py''] group_chat_by_variable_file =
        Inr (Some (default_DetectorResult
                     \<lparr>found := True, constructor_file := Some (path_str [''repo'', ''team.py'']),
                      language := ''Python'', frameworks := [''AutoGen''],
                      architecture := ''MAS''\<rparr>))"
    by blast
  from coordinator_without_agents_still_reported [OF crew_of_undefined_agent_tree,
      where fp = "[''repo'', ''crew.py'']" and so = remdups] c1 c2 c3
  have c: "crewai_detect remdups [''repo'', ''crew.py''] crew_of_undefined_agent_file =
        Inr (Some (default_DetectorResult
                     \<lparr>found := True, constructor_file := Some (path_str [''repo'', ''crew.py'']),
                      language := ''Python'', frameworks := [''CrewAI''],
                      architecture := ''MAS''\<rparr>))"
    by blast
  from a1 a2 a c1 c2 c show ?thesis by blast
qed

text \<open>
  The claim C2 as it is written fails: in these two files the coordinator construction is
  matched and the list of its agents is empty, so no sub-agent is bound; both detectors
  return a result with architecture \<^verbatim>\<open>MAS\<close>, not \<^verbatim>\<open>None\<close>.
\<close>

theorem coordinator_without_agents_not_null:
  "check_construction_signature autogen_construction_signatures (content empty_group_chat_file)
     \<noteq> None
   \<and> map_option ai_agents
        (case parsed empty_group_chat_file of Parsed tree \<Rightarrow> autogen_extract_agents_info tree
         | _ \<Rightarrow> None) = None
   \<and> autogen_detect [''repo'', ''team.py''] empty_group_chat_file =
       Inr (Some \<lparr>found = True, agent_name = None, constructor_file = Some ''/repo/team.py'',
                  tool_files = [], tools = [], architecture = ''MAS'',
                  frameworks = [''AutoGen''], language = ''Python'', agent_type = ''LLM Agent'',
                  metadata = []\<rparr>)
   \<and> check_construction_signature crewai_construction_signatures (content empty_crew_file)
     \<noteq> None
   \<and> map_option ci_agents
        (case parsed empty_crew_file of Parsed tree \<Rightarrow> crewai_extract_crew_info remdups tree empty_crew_file
         | _ \<Rightarrow> None) = None
   \<and> crewai_detect remdups [''repo'', ''crew.py''] empty_crew_file =
       Inr (Some \<lparr>found = True, agent_name = None, constructor_file = Some ''/repo/crew.py'',
                  tool_files = [], tools = [], architecture = ''MAS'',
                  frameworks = [''CrewAI''], language = ''Python'', agent_type = ''LLM Agent'',
                  metadata = []\<rparr>)"
  by code_simp

subsection \<open>The SQL check comes before the retrieval check\<close>

lemma first_some_Some:
  "first_some f xs = Some y \<Longrightarrow> \<exists>x \<in> set xs. f x = Some y"
  by (induction xs) (auto split: option.splits)

lemma extract_agent_info_tools:
  "extract_agent_info so fs node src fp = Some info \<Longrightarrow> info_tools info \<noteq> []"
  by (auto simp: extract_agent_info_def Let_def split: ast.splits option.splits if_splits)

lemma ts_extract_agent_info_tools:
  "ts_extract_agent_info fs schema_factory c fp = Some (nm, ts) \<Longrightarrow> ts \<noteq> []"
  by (auto simp: ts_extract_agent_info_def Let_def split: option.splits if_splits prod.splits)

text \<open>
  Claim C4, amended. For every result that the LangChain detector for Python or for
  TypeScript returns with at least one tool, the agent type is \<^verbatim>\<open>SQL Agent\<close> when the SQL
  check holds of the tools and the file content, else \<^verbatim>\<open>Retrieval Agent\<close> when the
  retrieval check holds, else \<^verbatim>\<open>LLM Agent\<close>; so with both indicators it is
  \<^verbatim>\<open>SQL Agent\<close>. A result returned with no tool has the agent type \<^verbatim>\<open>LLM Agent\<close>,
  whatever the file content: the two checks run only when the agent information, which
  needs a non-empty list of tools, was extracted.
\<close>

theorem sql_check_precedes_retrieval_check:
  "(langchain_py_detect so fs fp src = Inr (Some r) \<longrightarrow>
      (tools r \<noteq> [] \<longrightarrow>
         agent_type r =
           (if py_has_sql_tools (tools r) (content src) then ''SQL Agent''
            else if py_has_retrieval_tools (tools r) (content src) then ''Retrieval Agent''
            else ''LLM Agent''))
      \<and> (tools r = [] \<longrightarrow> agent_type r = ''LLM Agent''))
   \<and> (langchain_ts_detect fs schema_factory fp' c = Inr (Some r') \<longrightarrow>
      (tools r' \<noteq> [] \<longrightarrow>
         agent_type r' =
           (if ts_has_sql_tools (tools r') c then ''SQL Agent''
            else if ts_has_retrieval_tools (tools r') c then ''Retrieval Agent''
            else ''LLM Agent''))
      \<and> (tools r' = [] \<longrightarrow> agent_type r' = ''LLM Agent''))"
proof (intro conjI impI)
  assume d: "langchain_py_detect so fs fp src = Inr (Some r)"
  then obtain tree where t: "parsed src = Parsed tree"
    by (cases "parsed src") (auto simp: langchain_py_detect_def split: if_splits)
  let ?base = "default_DetectorResult
                 \<lparr>found := True, constructor_file := Some (path_str fp),
                  language := ''Python'', frameworks := [''LangChain'']\<rparr>"
  show "tools r \<noteq> [] \<Longrightarrow>
        agent_type r =
           (if py_has_sql_tools (tools r) (content src) then ''SQL Agent''
            else if py_has_retrieval_tools (tools r) (content src) then ''Retrieval Agent''
            else ''LLM Agent'')"
    using d t
    by (auto simp: langchain_py_detect_def Let_def default_DetectorResult_def
             split: if_splits option.splits)
  show "tools r = [] \<Longrightarrow> agent_type r = ''LLM Agent''"
  proof (cases "first_some (\<lambda>node. extract_agent_info so fs node src fp) (walk tree)")
    case None
    then show ?thesis using d t
      by (auto simp: langchain_py_detect_def Let_def default_DetectorResult_def split: if_splits)
  next
    case (Some info)
    from first_some_Some [OF Some] extract_agent_info_tools
    have "info_tools info \<noteq> []" by blast
    moreover assume "tools r = []"
    ultimately show ?thesis using d t Some
      by (auto simp: langchain_py_detect_def Let_def default_DetectorResult_def split: if_splits)
  qed
next
  assume d: "langchain_ts_detect fs schema_factory fp' c = Inr (Some r')"
  show "tools r' \<noteq> [] \<Longrightarrow>
        agent_type r' =
           (if ts_has_sql_tools (tools r') c then ''SQL Agent''
            else if ts_has_retrieval_tools (tools r') c then ''Retrieval Agent''
            else ''LLM Agent'')"
    using d
    by (auto simp: langchain_ts_detect_def Let_def default_DetectorResult_def
             split: if_splits option.splits)
  show "tools r' = [] \<Longrightarrow> agent_type r' = ''LLM Agent''"
  proof (cases "ts_extract_agent_info fs schema_factory c fp'")
    case None
    then show ?thesis using d
      by (auto simp: langchain_ts_detect_def Let_def default_DetectorResult_def split: if_splits)
  next
    case (Some p)
    obtain nm ts where p: "p = (nm, ts)" by (cases p)
    from ts_extract_agent_info_tools Some p have "ts \<noteq> []" by blast
    moreover assume "tools r' = []"
    ultimately show ?thesis using d Some p
      by (auto simp: langchain_ts_detect_def Let_def default_DetectorResult_def split: if_splits)
  qed
qed

theorem sql_check_precedes_retrieval_check_witness:
  "langchain_py_detect remdups Map.empty [''repo'', ''agent.py''] sql_and_retrieval_py_file =
     Inr (Some \<lparr>found = True, agent_name = Some ''agent'',
                constructor_file = Some ''/repo/agent.py'', tool_files = [],
                tools = [\<lparr>name = ''sql_query'', file_path = [], line_number = 0,
                          description = Some ''Run SQL on the vectorstore index'',
                          parameters = [], returns = None, raw_definition = None\<rparr>],
                architecture = ''Other'', frameworks = [''LangChain''], language = ''Python'',
                agent_type = ''SQL Agent'', metadata = []\<rparr>)
   \<and> py_has_sql_tools
         [\<lparr>name = ''sql_query'', file_path = [], line_number = 0,
           description = Some ''Run SQL on the vectorstore index'',
           parameters = [], returns = None, raw_definition = None\<rparr>]
         (content sql_and_retrieval_py_file)
   \<and> py_has_retrieval_tools
         [\<lparr>name = ''sql_query'', file_path = [], line_number = 0,
           description = Some ''Run SQL on the vectorstore index'',
           parameters = [], returns = None, raw_definition = None\<rparr>]
         (content sql_and_retrieval_py_file)
   \<and> langchain_ts_detect Map.empty init_factory [''repo'', ''agent.ts'']
         sql_and_retrieval_ts_file =
     Inr (Some \<lparr>found = True, agent_name = Some ''ex'',
                constructor_file = Some ''/repo/agent.ts'', tool_files = [],
                tools = [\<lparr>name = ''sqlSearch'', file_path = [], line_number = 0,
                          description = None, parameters = [], returns = None,
                          raw_definition = None\<rparr>],
                architecture = ''Other'', frameworks = [''LangChain''],
                language = ''TypeScript'', agent_type = ''SQL Agent'', metadata = []\<rparr>)
   \<and> ts_has_sql_tools
         [\<lparr>name = ''sqlSearch'', file_path = [], line_number = 0, description = None,
           parameters = [], returns = None, raw_definition = None\<rparr>]
         sql_and_retrieval_ts_file
   \<and> ts_has_retrieval_tools
         [\<lparr>name = ''sqlSearch'', file_path = [], line_number = 0, description = None,
           parameters = [], returns = None, raw_definition = None\<rparr>]
         sql_and_retrieval_ts_file"
proof -
  let ?pt = "\<lparr>name = ''sql_query'', file_path = [], line_number = 0,
              description = Some ''Run SQL on the vectorstore index'',
              parameters = [], returns = None, raw_definition = None\<rparr>"
  let ?tt = "\<lparr>name = ''sqlSearch'', file_path = [], line_number = 0, description = None,
              parameters = [], returns = None, raw_definition = None\<rparr>"
  let ?pr = "\<lparr>found = True, agent_name = Some ''agent'',
              constructor_file = Some ''/repo/agent.py'', tool_files = [],
              tools = [?pt],
              architecture = ''Other'', frameworks = [''LangChain''], language = ''Python'',
              agent_type = ''SQL Agent'', metadata = []\<rparr>"
  let ?tr = "\<lparr>found = True, agent_name = Some ''ex'',
              constructor_file = Some ''/repo/agent.ts'', tool_files = [],
              tools = [?tt],
              architecture = ''Other'', frameworks = [''LangChain''],
              language = ''TypeScript'', agent_type = ''SQL Agent'', metadata = []\<rparr>"
  have p: "langchain_py_detect remdups Map.empty [''repo'', ''agent.py''] sql_and_retrieval_py_file =
             Inr (Some ?pr)"
    by code_simp
  have ps: "py_has_sql_tools [?pt] (content sql_and_retrieval_py_file)"
    by code_simp
  have pv: "py_has_retrieval_tools [?pt] (content sql_and_retrieval_py_file)"
    by code_simp
  have t: "langchain_ts_detect Map.empty init_factory [''repo'', ''agent.ts'']
             sql_and_retrieval_ts_file = Inr (Some ?tr)"
    by code_simp
  have ts: "ts_has_sql_tools [?tt] sql_and_retrieval_ts_file"
    by code_simp
  have tv: "ts_has_retrieval_tools [?tt] sql_and_retrieval_ts_file"
    by code_simp
  from sql_check_precedes_retrieval_check [of remdups Map.empty "[''repo'', ''agent.py'']"
      sql_and_retrieval_py_file ?pr init_factory "[''repo'', ''agent.ts'']"
      sql_and_retrieval_ts_file ?tr] p ps t ts
  have "agent_type ?pr = ''SQL Agent'' \<and> agent_type ?tr = ''SQL Agent''"
    by simp
  with p ps pv t ts tv show ?thesis by blast
qed

text \<open>
  The claim C4 as it is written fails: the text of this file has the SQL indicator
  \<^verbatim>\<open>SQLDatabaseToolkit\<close> and the retrieval indicator \<^verbatim>\<open>retriever\<close>, an agent is
  detected, and its agent type is \<^verbatim>\<open>LLM Agent\<close>: the tools come from a call, none is
  extracted, and the two checks are not run.
\<close>

theorem sql_toolkit_agent_is_llm_agent:
  "contains (content toolkit_agent_file) ''SQLDatabaseToolkit''
   \<and> contains (content toolkit_agent_file) ''retriever''
   \<and> py_has_sql_tools [] (content toolkit_agent_file)
   \<and> py_has_retrieval_tools [] (content toolkit_agent_file)
   \<and> langchain_py_detect remdups Map.empty [''repo'', ''agent.py''] toolkit_agent_file =
       Inr (Some \<lparr>found = True, agent_name = None,
                  constructor_file = Some ''/repo/agent.py'', tool_files = [], tools = [],
                  architecture = ''Other'', frameworks = [''LangChain''], language = ''Python'',
                  agent_type = ''LLM Agent'', metadata = []\<rparr>)"
  by code_simp

subsection \<open>What a detection result depends on\<close>











































subsection \<open>A tool reference that no rule resolves\<close>

text \<open>
  Claim C1 fails for the Python detector of LangChain. For every name \<open>n\<close> for which
  \<^verbatim>\<open>_find_tool_definition\<close> finds nothing, \<^verbatim>\<open>_extract_tools_from_node\<close> of the Python
  detector gives for a list with the reference \<open>n\<close> the same tools as for the list
  without it: the reference is dropped. The CrewAI detector gives one tool more for the
  list with the reference, and the TypeScript detector gives one tool for each non-empty
  entry of the tools array.
\<close>

theorem unresolved_name_dropped_by_python_detector:
  assumes "find_tool_definition so fs n src fp = None"
  shows "extract_tools_from_node so fs (List (xs @ Name n # ys)) src fp
           = extract_tools_from_node so fs (List (xs @ ys)) src fp
       \<and> length (crewai_extract_tools_from_node so (List (xs @ Name n # ys)) src')
           = Suc (length (crewai_extract_tools_from_node so (List (xs @ ys)) src'))
       \<and> length (ts_extract_tools fs' schema_factory tools_array c fp')
           = length (ts_tool_names tools_array)"
proof (intro conjI)
  show "extract_tools_from_node so fs (List (xs @ Name n # ys)) src fp
           = extract_tools_from_node so fs (List (xs @ ys)) src fp"
    using assms by (simp add: extract_tools_from_node_def tool_of_item_def)
  show "length (crewai_extract_tools_from_node so (List (xs @ Name n # ys)) src')
           = Suc (length (crewai_extract_tools_from_node so (List (xs @ ys)) src'))"
    by (simp add: crewai_extract_tools_from_node_def crewai_tool_of_item_def
             split: option.splits)
  show "length (ts_extract_tools fs' schema_factory tools_array c fp')
           = length (ts_tool_names tools_array)"
    by (simp add: ts_extract_tools_def)
qed

theorem unresolved_name_dropped_by_python_detector_witness:
  "find_tool_definition remdups Map.empty ''web_search'' two_references_file [''repo'', ''agent.py''] = None
   \<and> extract_tools_from_node remdups Map.empty (List [Name ''calc'', Name ''web_search''])
         two_references_file [''repo'', ''agent.py''] = [calc_tool]
   \<and> langchain_py_detect remdups Map.empty [''repo'', ''agent.py''] two_references_file =
       Inr (Some \<lparr>found = True, agent_name = Some ''agent'',
                  constructor_file = Some ''/repo/agent.py'', tool_files = [],
                  tools = [calc_tool], architecture = ''Other'', frameworks = [''LangChain''],
                  language = ''Python'', agent_type = ''LLM Agent'', metadata = []\<rparr>)
   \<and> length (crewai_extract_tools_from_node remdups (List [Name ''calc'', Name ''web_search''])
         two_references_file) = 2
   \<and> length (ts_extract_tools Map.empty init_factory ''calc, webSearch'' [] [''repo'', ''agent.ts''])
       = 2"
proof -
  have h: "find_tool_definition remdups Map.empty ''web_search'' two_references_file
             [''repo'', ''agent.py''] = None"
    by code_simp
  have a: "extract_tools_from_node remdups Map.empty (List [Name ''calc''])
             two_references_file [''repo'', ''agent.py''] = [calc_tool]"
    by code_simp
  have b: "length (crewai_extract_tools_from_node remdups (List [Name ''calc'']) two_references_file) = 1"
    by code_simp
  have c: "length (ts_tool_names ''calc, webSearch'') = 2"
    by code_simp
  have d: "langchain_py_detect remdups Map.empty [''repo'', ''agent.py''] two_references_file =
       Inr (Some \<lparr>found = True, agent_name = Some ''agent'',
                  constructor_file = Some ''/repo/agent.py'', tool_files = [],
                  tools = [calc_tool], architecture = ''Other'', frameworks = [''LangChain''],
                  language = ''Python'', agent_type = ''LLM Agent'', metadata = []\<rparr>)"
    by code_simp
  from unresolved_name_dropped_by_python_detector [OF h, of "[Name ''calc'']" "[]"
      two_references_file Map.empty init_factory "''calc, webSearch''" "[]"
      "[''repo'', ''agent.ts'']"]
  have "extract_tools_from_node remdups Map.empty (List [Name ''calc'', Name ''web_search''])
          two_references_file [''repo'', ''agent.py'']
        = extract_tools_from_node remdups Map.empty (List [Name ''calc''])
            two_references_file [''repo'', ''agent.py'']
      \<and> length (crewai_extract_tools_from_node remdups (List [Name ''calc'', Name ''web_search''])
            two_references_file)
        = Suc (length (crewai_extract_tools_from_node remdups (List [Name ''calc'']) two_references_file))
      \<and> length (ts_extract_tools Map.empty init_factory ''calc, webSearch'' []
                  [''repo'', ''agent.ts''])
        = length (ts_tool_names ''calc, webSearch'')"
    by simp
  with h a b c d show ?thesis by simp
qed

end
